theory Spec2Isabelle
  imports Main "HOL-Library.Word" "HOL-Library.Signed_Division"
begin

unbundle bit_operations_syntax

section \<open>Errors and panics\<close>

text \<open>
  Go errors are values. The repository builds them in three ways: the sentinel \<open>io.EOF\<close>,
  \<open>errors.New(msg)\<close> and \<open>fmt.Errorf(format, args...)\<close>. The last is kept symbolic (format
  string and arguments) so that no number formatting has to be modelled.
\<close>

datatype fmtarg = ArgInt int | ArgStr string

datatype error = EOF | New string | Errorf string "fmtarg list"

text \<open>instance.go:10 and instr\_numeric.go:9-12.\<close>

definition errOutOfBounds :: error where
  "errOutOfBounds = New ''out of bounds memory access''"

definition errIntegerDivideByZero :: error where
  "errIntegerDivideByZero = New ''integer divide by zero''"

definition errIntegerOverflow :: error where
  "errIntegerOverflow = New ''integer overflow''"

section \<open>reader.go: the LEB128 reader\<close>

type_synonym byte = "8 word"

record leb128Reader =
  bytes :: "byte list"
  pos :: nat

text \<open>
  \<open>eatU8\<close>: fails with \<open>io.EOF\<close> when the cursor is at or past the end, without moving;
  otherwise returns the byte under the cursor and moves one byte on.
\<close>

definition eatU8 :: "leb128Reader \<Rightarrow> (error + byte) \<times> leb128Reader" where
  "eatU8 r = (if pos r \<ge> length (bytes r) then (Inl EOF, r)
              else (Inr (bytes r ! pos r), r\<lparr>pos := pos r + 1\<rparr>))"

text \<open>
  \<open>eatBytes\<close>: \<open>end := r.pos + int(length)\<close>; \<open>io.EOF\<close> when \<open>end > len(r.bytes)\<close>.
\<close>

definition eatBytes :: "leb128Reader \<Rightarrow> 32 word \<Rightarrow> (error + byte list) \<times> leb128Reader" where
  "eatBytes r len = (let end = pos r + unat len in
     if end > length (bytes r) then (Inl EOF, r)
     else (Inr (take (unat len) (drop (pos r) (bytes r))), r\<lparr>pos := pos r + unat len\<rparr>))"

text \<open>\<open>eatString\<close>: the bytes as a Go string, a list of 8-bit characters.\<close>

definition eatString :: "leb128Reader \<Rightarrow> 32 word \<Rightarrow> (error + string) \<times> leb128Reader" where
  "eatString r len =
     (case eatBytes r len of
        (Inl err, r') \<Rightarrow> (Inl err, r')
      | (Inr b, r') \<Rightarrow> (Inr (map (\<lambda>c. char_of (unat c)) b), r'))"

text \<open>
  The loop of \<open>eatU64\<close>. \<open>v\<close> and \<open>shift\<close> are the loop variables. In Go \<open>u8&0x80>>7\<close>
  parses as \<open>(u8 & 0x80) >> 7\<close> (both operators have the same precedence and associate to
  the left), and a shift of a 64-bit value by 64 or more yields 0, as \<open>push_bit\<close> does.
\<close>

function eatU64_loop :: "leb128Reader \<Rightarrow> 64 word \<Rightarrow> nat \<Rightarrow> (error + 64 word) \<times> leb128Reader" where
  "eatU64_loop r v shift =
     (case eatU8 r of
        (Inl err, r') \<Rightarrow> (Inl err, r')
      | (Inr u8, r') \<Rightarrow>
          (let v' = v OR push_bit shift (ucast u8 AND 0x7F);
               shift' = shift + 7
           in if drop_bit 7 (u8 AND 0x80) = 0 then (Inr v', r')
              else eatU64_loop r' v' shift'))"
  by pat_completeness auto
termination
  by (relation "measure (\<lambda>(r, v, shift). length (bytes r) - pos r)")
     (auto simp: eatU8_def split: if_splits)

declare eatU64_loop.simps [simp del]

definition eatU64 :: "leb128Reader \<Rightarrow> (error + 64 word) \<times> leb128Reader" where
  "eatU64 r = eatU64_loop r 0 0"

text \<open>
  The loop of \<open>eatI64\<close>. \<open>int64(u8) & 0x7F\<close> has the same bits as the unsigned version;
  on the terminating byte, when \<open>(u8 & 0x40) >> 3\<close> is non-zero, \<open>v |= ^0 << shift\<close>
  sets every bit from position \<open>shift\<close> (already advanced by 7) upwards.
\<close>

function eatI64_loop :: "leb128Reader \<Rightarrow> 64 word \<Rightarrow> nat \<Rightarrow> (error + 64 word) \<times> leb128Reader" where
  "eatI64_loop r v shift =
     (case eatU8 r of
        (Inl err, r') \<Rightarrow> (Inl err, r')
      | (Inr u8, r') \<Rightarrow>
          (let v' = v OR push_bit shift (ucast u8 AND 0x7F);
               shift' = shift + 7
           in if drop_bit 7 (u8 AND 0x80) = 0
              then (if drop_bit 3 (u8 AND 0x40) \<noteq> 0
                    then (Inr (v' OR push_bit shift' (- 1)), r')
                    else (Inr v', r'))
              else eatI64_loop r' v' shift'))"
  by pat_completeness auto
termination
  by (relation "measure (\<lambda>(r, v, shift). length (bytes r) - pos r)")
     (auto simp: eatU8_def split: if_splits)

declare eatI64_loop.simps [simp del]

definition eatI64 :: "leb128Reader \<Rightarrow> (error + 64 word) \<times> leb128Reader" where
  "eatI64 r = eatI64_loop r 0 0"

text \<open>\<open>eatI32\<close> and \<open>eatU32\<close> truncate the 64-bit result, also when an error came back.\<close>

definition eatI32 :: "leb128Reader \<Rightarrow> (error + 32 word) \<times> leb128Reader" where
  "eatI32 r = (case eatI64 r of (Inl err, r') \<Rightarrow> (Inl err, r') | (Inr v, r') \<Rightarrow> (Inr (ucast v), r'))"

definition eatU32 :: "leb128Reader \<Rightarrow> (error + 32 word) \<times> leb128Reader" where
  "eatU32 r = (case eatU64 r of (Inl err, r') \<Rightarrow> (Inl err, r') | (Inr v, r') \<Rightarrow> (Inr (ucast v), r'))"

subsection \<open>The encoding as the specification words it\<close>

text \<open>
  \<open>leb_group bs\<close> is the encoding found at the front of \<open>bs\<close>: the bytes up to and
  including the first one whose high bit is clear, or \<open>None\<close> when every byte of \<open>bs\<close>
  has its high bit set (the encoding runs past the end of the buffer).
\<close>

fun leb_group :: "byte list \<Rightarrow> byte list option" where
  "leb_group [] = None"
| "leb_group (b # bs) =
     (if bit b 7 then map_option (\<lambda>g. b # g) (leb_group bs) else Some [b])"

text \<open>The low 7 bits of each byte, concatenated with the first byte lowest.\<close>

fun concat7 :: "byte list \<Rightarrow> 64 word" where
  "concat7 [] = 0"
| "concat7 (b # bs) = (ucast b AND 0x7F) OR push_bit 7 (concat7 bs)"

text \<open>Sign extension: ones above the accumulated position when bit 6 of the last byte is set.\<close>

definition sign_fill :: "byte list \<Rightarrow> 64 word" where
  "sign_fill g = (if bit (last g) 6 then push_bit (7 * length g) (- 1) else 0)"


section \<open>Go runtime conventions\<close>

text \<open>
  A Go runtime panic (nil dereference, index or slice out of range, an explicit \<open>panic\<close>)
  is not an error value: it unwinds the caller. Every function that can panic returns
  \<open>'a go\<close>. Go's \<open>int\<close> is modelled as \<open>int\<close>; the fixed-width types as words.
\<close>

datatype 'a go = Ret 'a | Panic string

text \<open>\<open>xs[i]\<close> for a slice \<open>xs\<close> and an \<open>int\<close> index.\<close>

definition index :: "'a list \<Rightarrow> int \<Rightarrow> 'a go" where
  "index xs i = (if 0 \<le> i \<and> i < int (length xs) then Ret (xs ! nat i)
                 else Panic ''index out of range'')"

text \<open>
  Go's \<open>/\<close> and \<open>%\<close> on signed integers truncate towards zero and wrap on overflow
  (\<open>MinInt / -1 = MinInt\<close>, \<open>MinInt % -1 = 0\<close>); the divisor is non-zero wherever they are used.
\<close>

definition go_quo :: "'a::len word \<Rightarrow> 'a word \<Rightarrow> 'a word" where
  "go_quo a b = word_of_int (sint a sdiv sint b)"

definition go_rem :: "'a::len word \<Rightarrow> 'a word \<Rightarrow> 'a word" where
  "go_rem a b = word_of_int (sint a smod sint b)"

subsection \<open>encoding/binary, little endian\<close>

text \<open>\<open>le_bytes n w\<close>: the \<open>n\<close> low bytes of \<open>w\<close>, lowest first, as \<open>binary.Write\<close> emits them.\<close>

definition le_bytes :: "nat \<Rightarrow> 'a::len word \<Rightarrow> byte list" where
  "le_bytes n w = map (\<lambda>i. ucast (drop_bit (8 * i) w)) [0..<n]"

text \<open>\<open>le_word bs\<close>: the value \<open>binary.Read\<close> assembles from the bytes \<open>bs\<close>.\<close>

fun le_word :: "byte list \<Rightarrow> 'a::len word" where
  "le_word [] = 0"
| "le_word (b # bs) = ucast b OR push_bit 8 (le_word bs)"

text \<open>
  \<open>binary.Read(bytes.NewReader(d), binary.LittleEndian, &x)\<close> for an \<open>n\<close>-byte \<open>x\<close>
  declared just before: with fewer than \<open>n\<close> bytes it returns an error and leaves \<open>x\<close> zero.
\<close>

definition read_le :: "nat \<Rightarrow> byte list \<Rightarrow> 'a::len word" where
  "read_le n d = (if length d < n then 0 else le_word (take n d))"

section \<open>types.go and instance.go: values\<close>

type_synonym type_ = byte

definition I32 :: type_ where "I32 = 0x70"
definition I64 :: type_ where "I64 = 0x6f"
definition F32 :: type_ where "F32 = 0x7D"
definition F64 :: type_ where "F64 = 0x7C"

record Value =
  ValType :: type_
  data :: "byte list"

text \<open>The zero \<open>Value{}\<close>: tag 0 and a nil payload.\<close>

definition zeroValue :: Value where
  "zeroValue = \<lparr>ValType = 0, data = []\<rparr>"

text \<open>
  The argument of \<open>ValueFrom(v any, t)\<close> with its dynamic Go type. Floats are carried as
  their IEEE-754 bit patterns, which is what \<open>binary.Write\<close> emits. \<open>binary.Write\<close> encodes
  fixed-size types only: for a value of type \<open>int\<close> it returns an error (dropped by
  \<open>ValueFrom\<close>) and writes nothing, so the payload stays empty.
\<close>

datatype goval =
    AsInt32 "32 word" | AsInt64 "64 word" | AsUint32 "32 word" | AsUint64 "64 word"
  | AsFloat32 "32 word" | AsFloat64 "64 word" | AsInt int

fun ValueFrom :: "goval \<Rightarrow> type_ \<Rightarrow> Value" where
  "ValueFrom (AsInt32 w) t = \<lparr>ValType = t, data = le_bytes 4 w\<rparr>"
| "ValueFrom (AsUint32 w) t = \<lparr>ValType = t, data = le_bytes 4 w\<rparr>"
| "ValueFrom (AsFloat32 w) t = \<lparr>ValType = t, data = le_bytes 4 w\<rparr>"
| "ValueFrom (AsInt64 w) t = \<lparr>ValType = t, data = le_bytes 8 w\<rparr>"
| "ValueFrom (AsUint64 w) t = \<lparr>ValType = t, data = le_bytes 8 w\<rparr>"
| "ValueFrom (AsFloat64 w) t = \<lparr>ValType = t, data = le_bytes 8 w\<rparr>"
| "ValueFrom (AsInt i) t = \<lparr>ValType = t, data = []\<rparr>"

definition ValueFromI32 :: "32 word \<Rightarrow> Value" where
  "ValueFromI32 v = \<lparr>ValType = I32, data = le_bytes 4 v\<rparr>"

definition ValueFromI64 :: "64 word \<Rightarrow> Value" where
  "ValueFromI64 v = \<lparr>ValType = I64, data = le_bytes 8 v\<rparr>"

text \<open>The accessors \<open>v.I32()\<close>, \<open>v.I64()\<close>; \<open>v.F32()\<close>, \<open>v.F64()\<close> give the bit pattern.\<close>

definition Value_I32 :: "Value \<Rightarrow> 32 word" where
  "Value_I32 v = read_le 4 (data v)"

definition Value_I64 :: "Value \<Rightarrow> 64 word" where
  "Value_I64 v = read_le 8 (data v)"

definition Value_F32 :: "Value \<Rightarrow> 32 word" where
  "Value_F32 v = read_le 4 (data v)"

definition Value_F64 :: "Value \<Rightarrow> 64 word" where
  "Value_F64 v = read_le 8 (data v)"

definition Value_Bool :: "Value \<Rightarrow> bool go" where
  "Value_Bool v =
     (if ValType v = I32 then Ret (0 \<noteq> Value_I32 v)
      else if ValType v = I64 then Ret (0 \<noteq> Value_I64 v)
      else Panic ''value must be int type'')"

text \<open>\<open>numericBool\<close> (instr\_numeric.go:554).\<close>

definition numericBool :: "bool \<Rightarrow> Value" where
  "numericBool b = ValueFrom (AsInt32 (if b then 1 else 0)) I32"


section \<open>instr\_numeric.go and the \<open>extendS\<close> helpers of instr\_memory.go\<close>

text \<open>\<open>math/bits\<close>: \<open>LeadingZeros\<close>, \<open>TrailingZeros\<close>, \<open>OnesCount\<close>.\<close>

definition LeadingZeros :: "'a::len word \<Rightarrow> nat" where
  "LeadingZeros w = length (takeWhile (\<lambda>i. \<not> bit w i) (rev [0..<LENGTH('a)]))"

definition TrailingZeros :: "'a::len word \<Rightarrow> nat" where
  "TrailingZeros w = length (takeWhile (\<lambda>i. \<not> bit w i) [0..<LENGTH('a)])"

definition OnesCount :: "'a::len word \<Rightarrow> nat" where
  "OnesCount w = length (filter (bit w) [0..<LENGTH('a)])"

text \<open>\<open>v << k >> k\<close> on a signed integer: shift left, then arithmetic shift right.\<close>

definition extendS8_32 :: "32 word \<Rightarrow> 32 word" where
  "extendS8_32 v = signed_drop_bit 24 (push_bit 24 v)"

definition extendS8_64 :: "64 word \<Rightarrow> 64 word" where
  "extendS8_64 v = signed_drop_bit 56 (push_bit 56 v)"

definition extendS16_32 :: "32 word \<Rightarrow> 32 word" where
  "extendS16_32 v = signed_drop_bit 16 (push_bit 16 v)"

definition extendS16_64 :: "64 word \<Rightarrow> 64 word" where
  "extendS16_64 v = signed_drop_bit 48 (push_bit 48 v)"

definition extendS32_64 :: "64 word \<Rightarrow> 64 word" where
  "extendS32_64 v = signed_drop_bit 32 (push_bit 32 v)"

subsection \<open>Unary integer operations\<close>

definition i32Clz :: "Value \<Rightarrow> Value" where
  "i32Clz v = ValueFrom (AsInt32 (of_nat (LeadingZeros (Value_I32 v)))) I32"

definition i64Clz :: "Value \<Rightarrow> Value" where
  "i64Clz v = ValueFrom (AsInt64 (of_nat (LeadingZeros (Value_I64 v)))) I64"

definition i32Ctz :: "Value \<Rightarrow> Value" where
  "i32Ctz v = ValueFrom (AsInt32 (of_nat (TrailingZeros (Value_I32 v)))) I32"

definition i64Ctz :: "Value \<Rightarrow> Value" where
  "i64Ctz v = ValueFrom (AsInt64 (of_nat (TrailingZeros (Value_I64 v)))) I64"

definition i32Popcnt :: "Value \<Rightarrow> Value" where
  "i32Popcnt v = ValueFrom (AsInt32 (of_nat (OnesCount (Value_I32 v)))) I32"

definition i64Popcnt :: "Value \<Rightarrow> Value" where
  "i64Popcnt v = ValueFrom (AsInt64 (of_nat (OnesCount (Value_I64 v)))) I64"

definition i32Extend8S :: "Value \<Rightarrow> Value" where
  "i32Extend8S v = ValueFrom (AsInt32 (extendS8_32 (Value_I32 v))) I32"

definition i32Extend16S :: "Value \<Rightarrow> Value" where
  "i32Extend16S v = ValueFrom (AsInt32 (extendS16_32 (Value_I32 v))) I32"

definition i64Extend8S :: "Value \<Rightarrow> Value" where
  "i64Extend8S v = ValueFrom (AsInt64 (extendS8_64 (Value_I64 v))) I64"

definition i64Extend16S :: "Value \<Rightarrow> Value" where
  "i64Extend16S v = ValueFrom (AsInt64 (extendS16_64 (Value_I64 v))) I64"

definition i64Extend32S :: "Value \<Rightarrow> Value" where
  "i64Extend32S v = ValueFrom (AsInt64 (extendS32_64 (Value_I64 v))) I64"

subsection \<open>Binary integer operations\<close>

definition i32Add :: "Value \<Rightarrow> Value \<Rightarrow> error + Value" where
  "i32Add a b = Inr (ValueFrom (AsInt32 (Value_I32 a + Value_I32 b)) I32)"

definition i64Add :: "Value \<Rightarrow> Value \<Rightarrow> error + Value" where
  "i64Add a b = Inr (ValueFromI64 (Value_I64 a + Value_I64 b))"

definition i32Sub :: "Value \<Rightarrow> Value \<Rightarrow> error + Value" where
  "i32Sub a b = Inr (ValueFrom (AsInt32 (Value_I32 a - Value_I32 b)) I32)"

definition i64Sub :: "Value \<Rightarrow> Value \<Rightarrow> error + Value" where
  "i64Sub a b = Inr (ValueFrom (AsInt64 (Value_I64 a - Value_I64 b)) I64)"

definition i32Mul :: "Value \<Rightarrow> Value \<Rightarrow> error + Value" where
  "i32Mul a b = Inr (ValueFrom (AsInt32 (Value_I32 a * Value_I32 b)) I32)"

definition i64Mul :: "Value \<Rightarrow> Value \<Rightarrow> error + Value" where
  "i64Mul a b = Inr (ValueFrom (AsInt64 (Value_I64 a * Value_I64 b)) I64)"

definition i32DivU :: "Value \<Rightarrow> Value \<Rightarrow> error + Value" where
  "i32DivU a b =
     (let aI32 = Value_I32 a; bI32 = Value_I32 b in
      if bI32 = 0 then Inl errIntegerDivideByZero
      else Inr (ValueFrom (AsUint32 (aI32 div bI32)) I32))"

definition i32DivS :: "Value \<Rightarrow> Value \<Rightarrow> error + Value" where
  "i32DivS a b =
     (let aI32 = Value_I32 a; bI32 = Value_I32 b in
      if bI32 = 0 then Inl errIntegerDivideByZero
      else if aI32 = - (2 ^ 31) \<and> bI32 = - 1 then Inl errIntegerOverflow
      else Inr (ValueFrom (AsInt32 (go_quo aI32 bI32)) I32))"

definition i64DivU :: "Value \<Rightarrow> Value \<Rightarrow> error + Value" where
  "i64DivU a b =
     (let aI64 = Value_I64 a; bI64 = Value_I64 b in
      if bI64 = 0 then Inl errIntegerDivideByZero
      else Inr (ValueFrom (AsUint64 (aI64 div bI64)) I64))"

definition i64DivS :: "Value \<Rightarrow> Value \<Rightarrow> error + Value" where
  "i64DivS a b =
     (let aI64 = Value_I64 a; bI64 = Value_I64 b in
      if bI64 = 0 then Inl errIntegerDivideByZero
      else if aI64 = - (2 ^ 63) \<and> bI64 = - 1 then Inl errIntegerOverflow
      else Inr (ValueFrom (AsInt64 (go_quo aI64 bI64)) I64))"

definition i32RemU :: "Value \<Rightarrow> Value \<Rightarrow> error + Value" where
  "i32RemU a b =
     (let aI32 = Value_I32 a; bI32 = Value_I32 b in
      if bI32 = 0 then Inl errIntegerDivideByZero
      else Inr (ValueFrom (AsUint32 (aI32 mod bI32)) I32))"

definition i32RemS :: "Value \<Rightarrow> Value \<Rightarrow> error + Value" where
  "i32RemS a b =
     (let aI32 = Value_I32 a; bI32 = Value_I32 b in
      if bI32 = 0 then Inl errIntegerDivideByZero
      else Inr (ValueFrom (AsInt32 (go_rem aI32 bI32)) I32))"

definition i64RemU :: "Value \<Rightarrow> Value \<Rightarrow> error + Value" where
  "i64RemU a b =
     (let aI64 = Value_I64 a; bI64 = Value_I64 b in
      if bI64 = 0 then Inl errIntegerDivideByZero
      else Inr (ValueFrom (AsUint64 (aI64 mod bI64)) I64))"

definition i64RemS :: "Value \<Rightarrow> Value \<Rightarrow> error + Value" where
  "i64RemS a b =
     (let aI64 = Value_I64 a; bI64 = Value_I64 b in
      if bI64 = 0 then Inl errIntegerDivideByZero
      else Inr (ValueFrom (AsInt64 (go_rem aI64 bI64)) I64))"

definition i32And :: "Value \<Rightarrow> Value \<Rightarrow> error + Value" where
  "i32And a b = Inr (ValueFrom (AsInt32 (Value_I32 a AND Value_I32 b)) I32)"

definition i64And :: "Value \<Rightarrow> Value \<Rightarrow> error + Value" where
  "i64And a b = Inr (ValueFrom (AsInt64 (Value_I64 a AND Value_I64 b)) I64)"

definition i32Or :: "Value \<Rightarrow> Value \<Rightarrow> error + Value" where
  "i32Or a b = Inr (ValueFrom (AsInt32 (Value_I32 a OR Value_I32 b)) I32)"

definition i64Or :: "Value \<Rightarrow> Value \<Rightarrow> error + Value" where
  "i64Or a b = Inr (ValueFrom (AsInt64 (Value_I64 a OR Value_I64 b)) I64)"

definition i32Xor :: "Value \<Rightarrow> Value \<Rightarrow> error + Value" where
  "i32Xor a b = Inr (ValueFrom (AsInt32 (Value_I32 a XOR Value_I32 b)) I32)"

definition i64Xor :: "Value \<Rightarrow> Value \<Rightarrow> error + Value" where
  "i64Xor a b = Inr (ValueFrom (AsInt64 (Value_I64 a XOR Value_I64 b)) I64)"

text \<open>
  Shifts: the count is \<open>uint32(b.I32()) % 32\<close> (or \<open>% 64\<close>); \<open>>>\<close> is arithmetic on the
  signed operand and logical after the conversion to unsigned.
\<close>

definition i32Shl :: "Value \<Rightarrow> Value \<Rightarrow> error + Value" where
  "i32Shl a b = Inr (ValueFrom (AsInt32 (push_bit (unat (Value_I32 b) mod 32) (Value_I32 a))) I32)"

definition i64Shl :: "Value \<Rightarrow> Value \<Rightarrow> error + Value" where
  "i64Shl a b = Inr (ValueFrom (AsInt64 (push_bit (unat (Value_I64 b) mod 64) (Value_I64 a))) I64)"

definition i32ShrS :: "Value \<Rightarrow> Value \<Rightarrow> error + Value" where
  "i32ShrS a b = Inr (ValueFrom (AsInt32 (signed_drop_bit (unat (Value_I32 b) mod 32) (Value_I32 a))) I32)"

definition i32ShrU :: "Value \<Rightarrow> Value \<Rightarrow> error + Value" where
  "i32ShrU a b = Inr (ValueFrom (AsUint32 (drop_bit (unat (Value_I32 b) mod 32) (Value_I32 a))) I32)"

definition i64ShrS :: "Value \<Rightarrow> Value \<Rightarrow> error + Value" where
  "i64ShrS a b = Inr (ValueFrom (AsInt64 (signed_drop_bit (unat (Value_I64 b) mod 64) (Value_I64 a))) I64)"

definition i64ShrU :: "Value \<Rightarrow> Value \<Rightarrow> error + Value" where
  "i64ShrU a b = Inr (ValueFrom (AsUint64 (drop_bit (unat (Value_I64 b) mod 64) (Value_I64 a))) I64)"

text \<open>
  Rotations. \<open>bits.RotateLeft32(x, k)\<close> is \<open>s := uint(k) & 31; x<<s | x>>(32-s)\<close>, and
  \<open>rotateRight32\<close> (instr\_numeric.go:541) mirrors it; \<open>uint(k) & 31\<close> of the sign-extended
  count is the count's low five bits.
\<close>

definition RotateLeft :: "'a::len word \<Rightarrow> nat \<Rightarrow> 'a word" where
  "RotateLeft x s = push_bit s x OR drop_bit (LENGTH('a) - s) x"

definition rotateRight :: "'a::len word \<Rightarrow> nat \<Rightarrow> 'a word" where
  "rotateRight x s = drop_bit s x OR push_bit (LENGTH('a) - s) x"

definition i32RotL :: "Value \<Rightarrow> Value \<Rightarrow> error + Value" where
  "i32RotL a b = Inr (ValueFrom (AsUint32 (RotateLeft (Value_I32 a) (unat (Value_I32 b) mod 32))) I32)"

definition i64RotL :: "Value \<Rightarrow> Value \<Rightarrow> error + Value" where
  "i64RotL a b = Inr (ValueFrom (AsUint64 (RotateLeft (Value_I64 a) (unat (Value_I64 b) mod 64))) I64)"

definition i32RotR :: "Value \<Rightarrow> Value \<Rightarrow> error + Value" where
  "i32RotR a b = Inr (ValueFrom (AsUint32 (rotateRight (Value_I32 a) (unat (Value_I32 b) mod 32))) I32)"

definition i64RotR :: "Value \<Rightarrow> Value \<Rightarrow> error + Value" where
  "i64RotR a b = Inr (ValueFrom (AsUint64 (rotateRight (Value_I64 a) (unat (Value_I64 b) mod 64))) I64)"

subsection \<open>Integer comparisons and tests\<close>

definition i32Eq :: "Value \<Rightarrow> Value \<Rightarrow> bool" where "i32Eq a b = (Value_I32 a = Value_I32 b)"
definition i64Eq :: "Value \<Rightarrow> Value \<Rightarrow> bool" where "i64Eq a b = (Value_I64 a = Value_I64 b)"
definition i32Ne :: "Value \<Rightarrow> Value \<Rightarrow> bool" where "i32Ne a b = (Value_I32 a \<noteq> Value_I32 b)"
definition i64Ne :: "Value \<Rightarrow> Value \<Rightarrow> bool" where "i64Ne a b = (Value_I64 a \<noteq> Value_I64 b)"
definition i32LtS :: "Value \<Rightarrow> Value \<Rightarrow> bool" where "i32LtS a b = (Value_I32 a <s Value_I32 b)"
definition i64LtS :: "Value \<Rightarrow> Value \<Rightarrow> bool" where "i64LtS a b = (Value_I64 a <s Value_I64 b)"
definition i32LtU :: "Value \<Rightarrow> Value \<Rightarrow> bool" where "i32LtU a b = (Value_I32 a < Value_I32 b)"
definition i64LtU :: "Value \<Rightarrow> Value \<Rightarrow> bool" where "i64LtU a b = (Value_I64 a < Value_I64 b)"
definition i32GtS :: "Value \<Rightarrow> Value \<Rightarrow> bool" where "i32GtS a b = (Value_I32 b <s Value_I32 a)"
definition i64GtS :: "Value \<Rightarrow> Value \<Rightarrow> bool" where "i64GtS a b = (Value_I64 b <s Value_I64 a)"
definition i32GtU :: "Value \<Rightarrow> Value \<Rightarrow> bool" where "i32GtU a b = (Value_I32 b < Value_I32 a)"
definition i64GtU :: "Value \<Rightarrow> Value \<Rightarrow> bool" where "i64GtU a b = (Value_I64 b < Value_I64 a)"
definition i32LeS :: "Value \<Rightarrow> Value \<Rightarrow> bool" where "i32LeS a b = (Value_I32 a \<le>s Value_I32 b)"
definition i64LeS :: "Value \<Rightarrow> Value \<Rightarrow> bool" where "i64LeS a b = (Value_I64 a \<le>s Value_I64 b)"
definition i32LeU :: "Value \<Rightarrow> Value \<Rightarrow> bool" where "i32LeU a b = (Value_I32 a \<le> Value_I32 b)"
definition i64LeU :: "Value \<Rightarrow> Value \<Rightarrow> bool" where "i64LeU a b = (Value_I64 a \<le> Value_I64 b)"
definition i32GeS :: "Value \<Rightarrow> Value \<Rightarrow> bool" where "i32GeS a b = (Value_I32 b \<le>s Value_I32 a)"
definition i64GeS :: "Value \<Rightarrow> Value \<Rightarrow> bool" where "i64GeS a b = (Value_I64 b \<le>s Value_I64 a)"
definition i32GeU :: "Value \<Rightarrow> Value \<Rightarrow> bool" where "i32GeU a b = (Value_I32 b \<le> Value_I32 a)"
definition i64GeU :: "Value \<Rightarrow> Value \<Rightarrow> bool" where "i64GeU a b = (Value_I64 b \<le> Value_I64 a)"

definition i32Eqz :: "Value \<Rightarrow> bool" where "i32Eqz v = (Value_I32 v = 0)"
definition i64Eqz :: "Value \<Rightarrow> bool" where "i64Eqz v = (Value_I64 v = 0)"


section \<open>types.go: the instruction model\<close>

record block =
  blockType :: byte
  valType :: "type_ list"

definition blockTypeEmpty :: byte where "blockTypeEmpty = 0"
definition blockTypeValue :: byte where "blockTypeValue = 1"

text \<open>
  The structs \<open>opUn\<close>, \<open>opBin\<close>, \<open>opRel\<close>, \<open>opTest\<close>, \<open>opLoad\<close> and \<open>opStore\<close> hold a Go
  function value. The functions the decoder can put there are enumerated by operand type
  and operation: \<open>BinI32 DivS\<close> stands for the function \<open>i32DivS\<close>, \<open>UnF64 Sqrt\<close> for
  \<open>f64Sqrt\<close>, \<open>RelI64 LtU\<close> for \<open>i64LtU\<close>, and so on.
\<close>

datatype iunop = Clz | Ctz | Popcnt | Extend8S | Extend16S

datatype funop = Abs | Neg | Sqrt | Ceil | Floor | Trunc | Nearest

datatype unOpFn = UnI32 iunop | UnI64 iunop | UnI64Extend32S | UnF32 funop | UnF64 funop

datatype ibinop =
    Add | Sub | Mul | DivU | DivS | RemU | RemS | And | Or | Xor
  | Shl | ShrS | ShrU | RotL | RotR

datatype fbinop = FAdd | FSub | FMul | FDiv | FMin | FMax | FCopysign

datatype binFn = BinI32 ibinop | BinI64 ibinop | BinF32 fbinop | BinF64 fbinop

datatype irelop = Eq | Ne | LtS | LtU | GtS | GtU | LeS | LeU | GeS | GeU

datatype frelop = FEq | FNe | FLt | FGt | FLe | FGe

datatype relFn = RelI32 irelop | RelI64 irelop | RelF32 frelop | RelF64 frelop

datatype testFn = TestI32Eqz | TestI64Eqz

datatype loadFn =
    LdI32load | LdI64load | LdF32load | LdF64load
  | LdI32load8S | LdI32load8U | LdI32load16S | LdI32load16U
  | LdI64Load8S | LdI64Load8U | LdI64load16S | LdI64load16U | LdI64load32S | LdI64load32U

datatype storeFn =
    StI32store | StI64store | StF32store | StF64store
  | StI32store8 | StI32store16 | StI64store8 | StI64store16 | StI64store32

text \<open>
  One constructor for each type that implements the interface \<open>instr\<close>, with the fields
  of the struct in their order. A body is a list of \<open>instr option\<close>: \<open>None\<close> is the nil
  interface value.
\<close>

datatype instr =
    opUnreachable | opNop | opIf block | opLoop block | opBlock block | opElse | opEnd
  | opBr int | opBrIf int | opBrTable "int list" int
  | opReturn | opCall | opCallIndirect
  | opLocalGet int | opLocalSet int | opLocalTee int | opGlobalGet int | opGlobalSet int
  | opUn unOpFn | opBin binFn | opConst Value | opRel relFn | opTest testFn
  | opStore "32 word" "32 word" storeFn
  | opLoad "32 word" "32 word" loadFn
  | opMemorySize | opMemoryGrow | opMemoryCopy | opMemoryFill
  | opSelect | opDrop

type_synonym expr = "instr option list"

section \<open>types.go, instance.go, interpreter.go: module, store, frames\<close>

record limits =
  limits_Min :: "32 word"
  limits_Max :: "32 word"

record funcType =
  params :: "type_ list"
  results :: "type_ list"

record locals =
  locals_count :: "32 word"
  locals_valType :: type_

text \<open>The struct \<open>function\<close> (the name is an Isabelle keyword).\<close>

record function' =
  typeIdx :: "32 word"
  function_locals :: "locals list"
  body :: expr

record globalType =
  valueType :: type_
  mut :: byte

definition const' :: byte where "const' = 0x00"
definition var' :: byte where "var' = 0x01"

record externalVal =
  externalVal_kind :: byte
  externalVal_idx :: "32 word"

record exportInst =
  exportInst_name :: string
  exportInst_value :: externalVal

record moduleInst =
  signatures :: "funcType list"
  funcAddrs :: "32 word list"
  tableAddrs :: "32 word list"
  memAddrs :: "32 word list"
  globalAddrs :: "32 word list"
  elemAddrs :: "32 word list"
  dataAddrs :: "32 word list"
  exports :: "exportInst list"

definition DEFAULT_MEM_ADDR_IDX :: int where "DEFAULT_MEM_ADDR_IDX = 0"

definition PAGE_SIZE :: int where "PAGE_SIZE = 65536"

record memInst =
  memType :: limits
  mem_data :: "byte list"

record globalInst =
  globalInst_globalType :: globalType
  globalInst_value :: Value

text \<open>
  \<open>funcInst\<close>: the pointer \<open>internalFunc.module\<close> always points at the interpreter's one
  module instance and is left out.
\<close>

record funcInst =
  funcInst_funcType :: funcType
  funcInst_kind :: byte
  funcInst_code :: function'

record tableType =
  tableType_limits :: limits
  tableType_elemType :: type_

definition refFunc :: byte where "refFunc = 0x01"

record ref =
  ref_addr :: int
  ref_kind :: byte

definition zeroRef :: ref where
  "zeroRef = \<lparr>ref_addr = 0, ref_kind = 0\<rparr>"

record tableInst =
  tableInst_tableType :: tableType
  tableInst_elems :: "ref list"

text \<open>The store. Nothing is ever appended to its slices \<open>elems\<close> and \<open>datas\<close>; they are left out.\<close>

record store =
  funcs :: "funcInst list"
  tables :: "tableInst list"
  mems :: "memInst list"
  globals :: "globalInst list"

datatype labelKind = LabelKindIf | LabelKindLoop | LabelKindBlock

record label =
  kind :: labelKind
  startPc :: int
  endPc :: int

text \<open>\<open>frame.mod\<close> is a pointer to the module instance; \<open>None\<close> is nil.\<close>

record frame =
  pc :: int
  sp :: int
  insts :: expr
  labels :: "label list"
  frame_mod :: "moduleInst option"

definition zeroLabel :: label where
  "zeroLabel = \<lparr>kind = LabelKindIf, startPc = 0, endPc = 0\<rparr>"

definition zeroFrame :: frame where
  "zeroFrame = \<lparr>pc = 0, sp = 0, insts = [], labels = [], frame_mod = None\<rparr>"

text \<open>What \<open>exec\<close> receives: the frame stack, the operand stack and the store.\<close>

record machine =
  frameStack :: "frame list"
  valueStack :: "Value list"
  store :: store

section \<open>stack.go\<close>

text \<open>
  The stack is the slice \<open>inner\<close>; its top is the last element. \<open>z\<close> is the zero
  value of the element type, returned (with \<open>False\<close>) when the stack is empty.
\<close>

definition stack_Len :: "'a list \<Rightarrow> int" where
  "stack_Len s = int (length s)"

definition stack_isEmpty :: "'a list \<Rightarrow> bool" where
  "stack_isEmpty s = (stack_Len s = 0)"

definition stack_Push :: "'a list \<Rightarrow> 'a \<Rightarrow> 'a list" where
  "stack_Push s v = s @ [v]"

definition stack_Peek :: "'a \<Rightarrow> 'a list \<Rightarrow> int \<Rightarrow> ('a \<times> bool) go" where
  "stack_Peek z s depth =
     (if stack_isEmpty s then Ret (z, False)
      else case index s (stack_Len s - 1 - depth) of
             Panic p \<Rightarrow> Panic p
           | Ret x \<Rightarrow> Ret (x, True))"

text \<open>\<open>Top\<close> is \<open>Peek(0)\<close>, which cannot panic.\<close>

definition stack_Top :: "'a \<Rightarrow> 'a list \<Rightarrow> 'a \<times> bool" where
  "stack_Top z s = (if stack_isEmpty s then (z, False) else (last s, True))"

definition stack_Set :: "'a list \<Rightarrow> int \<Rightarrow> int \<Rightarrow> 'a \<Rightarrow> 'a list go" where
  "stack_Set s sp' idx v =
     (if 0 \<le> sp' + idx \<and> sp' + idx < stack_Len s then Ret (s[nat (sp' + idx) := v])
      else Panic ''index out of range'')"

definition stack_Get :: "'a list \<Rightarrow> int \<Rightarrow> int \<Rightarrow> ('a option) go" where
  "stack_Get s sp' idx =
     (if sp' + idx \<ge> stack_Len s then Ret None
      else case index s (sp' + idx) of Panic p \<Rightarrow> Panic p | Ret x \<Rightarrow> Ret (Some x))"

definition stack_Pop :: "'a \<Rightarrow> 'a list \<Rightarrow> ('a \<times> bool) \<times> 'a list" where
  "stack_Pop z s = (if stack_isEmpty s then ((z, False), s) else ((last s, True), butlast s))"

subsection \<open>The idioms of the \<open>exec\<close> methods\<close>

text \<open>
  \<open>frame, _ := frameStack.Top()\<close> yields a pointer to the top frame, or to a fresh zero
  frame when the stack is empty. \<open>curFrame\<close> reads through it; \<open>updFrame\<close> writes through
  it (a write to the fresh zero frame is lost).
\<close>

definition curFrame :: "machine \<Rightarrow> frame" where
  "curFrame m = fst (stack_Top zeroFrame (frameStack m))"

definition updFrame :: "(frame \<Rightarrow> frame) \<Rightarrow> machine \<Rightarrow> machine" where
  "updFrame f m =
     (if stack_isEmpty (frameStack m) then m
      else m\<lparr>frameStack := butlast (frameStack m) @ [f (last (frameStack m))]\<rparr>)"

definition NextStep :: "frame \<Rightarrow> frame" where
  "NextStep f = f\<lparr>pc := pc f + 1\<rparr>"

text \<open>\<open>v, _ := valueStack.Pop()\<close> and \<open>valueStack.Push(v)\<close>.\<close>

definition popValue :: "machine \<Rightarrow> Value \<times> machine" where
  "popValue m = (let ((v, ok), s) = stack_Pop zeroValue (valueStack m) in (v, m\<lparr>valueStack := s\<rparr>))"

definition pushValue :: "Value \<Rightarrow> machine \<Rightarrow> machine" where
  "pushValue v m = m\<lparr>valueStack := stack_Push (valueStack m) v\<rparr>"

text \<open>
  \<open>frame.mod.defaultMemAddr()\<close>: the address \<open>m.memAddrs[DEFAULT_MEM_ADDR_IDX]\<close>; a nil
  \<open>frame.mod\<close> or a module without memory panics.
\<close>

definition defaultMemAddr :: "machine \<Rightarrow> int go" where
  "defaultMemAddr m =
     (case frame_mod (curFrame m) of
        None \<Rightarrow> Panic ''nil pointer dereference''
      | Some mi \<Rightarrow>
          (case index (memAddrs mi) DEFAULT_MEM_ADDR_IDX of
             Panic p \<Rightarrow> Panic p
           | Ret a \<Rightarrow> Ret (uint a)))"

text \<open>
  \<open>mem := store.mems[frame.mod.defaultMemAddr()]\<close>: a copy of the \<open>memInst\<close> struct. Its
  slice \<open>data\<close> shares the backing array of the store's memory, the struct itself does not
  alias the store's: assigning to \<open>mem.data\<close> changes the copy only.
\<close>

definition defaultMem :: "machine \<Rightarrow> memInst go" where
  "defaultMem m =
     (case defaultMemAddr m of
        Panic p \<Rightarrow> Panic p
      | Ret a \<Rightarrow> index (mems (store m)) a)"


section \<open>Floating point\<close>

text \<open>
  IEEE-754 arithmetic and Go's \<open>math\<close> package are outside this embedding. A float is
  carried as its bit pattern, and what the float functions of instr\_numeric.go compute
  is a parameter \<open>fl\<close> of the interpreter: \<open>f_un fl Sqrt\<close> is \<open>f32Sqrt\<close> or \<open>f64Sqrt\<close> and so
  on, \<open>f32_to_uint32\<close> and \<open>f64_to_uint64\<close> are the numeric conversions \<open>uint32(v.F32())\<close>
  and \<open>uint64(v.F64())\<close> of \<open>f32store\<close> and \<open>f64store\<close>.
\<close>

record fops =
  f32_un :: "funop \<Rightarrow> Value \<Rightarrow> Value"
  f64_un :: "funop \<Rightarrow> Value \<Rightarrow> Value"
  f32_bin :: "fbinop \<Rightarrow> Value \<Rightarrow> Value \<Rightarrow> Value"
  f64_bin :: "fbinop \<Rightarrow> Value \<Rightarrow> Value \<Rightarrow> Value"
  f32_rel :: "frelop \<Rightarrow> Value \<Rightarrow> Value \<Rightarrow> bool"
  f64_rel :: "frelop \<Rightarrow> Value \<Rightarrow> Value \<Rightarrow> bool"
  f32_to_uint32 :: "32 word \<Rightarrow> 32 word"
  f64_to_uint64 :: "64 word \<Rightarrow> 64 word"

section \<open>Calling the function values\<close>

fun unOpFn_call :: "fops \<Rightarrow> unOpFn \<Rightarrow> Value \<Rightarrow> Value" where
  "unOpFn_call fl (UnI32 Clz) = i32Clz"
| "unOpFn_call fl (UnI32 Ctz) = i32Ctz"
| "unOpFn_call fl (UnI32 Popcnt) = i32Popcnt"
| "unOpFn_call fl (UnI32 Extend8S) = i32Extend8S"
| "unOpFn_call fl (UnI32 Extend16S) = i32Extend16S"
| "unOpFn_call fl (UnI64 Clz) = i64Clz"
| "unOpFn_call fl (UnI64 Ctz) = i64Ctz"
| "unOpFn_call fl (UnI64 Popcnt) = i64Popcnt"
| "unOpFn_call fl (UnI64 Extend8S) = i64Extend8S"
| "unOpFn_call fl (UnI64 Extend16S) = i64Extend16S"
| "unOpFn_call fl UnI64Extend32S = i64Extend32S"
| "unOpFn_call fl (UnF32 f) = f32_un fl f"
| "unOpFn_call fl (UnF64 f) = f64_un fl f"

fun binFn_call :: "fops \<Rightarrow> binFn \<Rightarrow> Value \<Rightarrow> Value \<Rightarrow> error + Value" where
  "binFn_call fl (BinI32 Add) = i32Add"
| "binFn_call fl (BinI32 Sub) = i32Sub"
| "binFn_call fl (BinI32 Mul) = i32Mul"
| "binFn_call fl (BinI32 DivU) = i32DivU"
| "binFn_call fl (BinI32 DivS) = i32DivS"
| "binFn_call fl (BinI32 RemU) = i32RemU"
| "binFn_call fl (BinI32 RemS) = i32RemS"
| "binFn_call fl (BinI32 And) = i32And"
| "binFn_call fl (BinI32 Or) = i32Or"
| "binFn_call fl (BinI32 Xor) = i32Xor"
| "binFn_call fl (BinI32 Shl) = i32Shl"
| "binFn_call fl (BinI32 ShrS) = i32ShrS"
| "binFn_call fl (BinI32 ShrU) = i32ShrU"
| "binFn_call fl (BinI32 RotL) = i32RotL"
| "binFn_call fl (BinI32 RotR) = i32RotR"
| "binFn_call fl (BinI64 Add) = i64Add"
| "binFn_call fl (BinI64 Sub) = i64Sub"
| "binFn_call fl (BinI64 Mul) = i64Mul"
| "binFn_call fl (BinI64 DivU) = i64DivU"
| "binFn_call fl (BinI64 DivS) = i64DivS"
| "binFn_call fl (BinI64 RemU) = i64RemU"
| "binFn_call fl (BinI64 RemS) = i64RemS"
| "binFn_call fl (BinI64 And) = i64And"
| "binFn_call fl (BinI64 Or) = i64Or"
| "binFn_call fl (BinI64 Xor) = i64Xor"
| "binFn_call fl (BinI64 Shl) = i64Shl"
| "binFn_call fl (BinI64 ShrS) = i64ShrS"
| "binFn_call fl (BinI64 ShrU) = i64ShrU"
| "binFn_call fl (BinI64 RotL) = i64RotL"
| "binFn_call fl (BinI64 RotR) = i64RotR"
| "binFn_call fl (BinF32 f) = (\<lambda>a b. Inr (f32_bin fl f a b))"
| "binFn_call fl (BinF64 f) = (\<lambda>a b. Inr (f64_bin fl f a b))"

fun relFn_call :: "fops \<Rightarrow> relFn \<Rightarrow> Value \<Rightarrow> Value \<Rightarrow> bool" where
  "relFn_call fl (RelI32 Eq) = i32Eq"
| "relFn_call fl (RelI32 Ne) = i32Ne"
| "relFn_call fl (RelI32 LtS) = i32LtS"
| "relFn_call fl (RelI32 LtU) = i32LtU"
| "relFn_call fl (RelI32 GtS) = i32GtS"
| "relFn_call fl (RelI32 GtU) = i32GtU"
| "relFn_call fl (RelI32 LeS) = i32LeS"
| "relFn_call fl (RelI32 LeU) = i32LeU"
| "relFn_call fl (RelI32 GeS) = i32GeS"
| "relFn_call fl (RelI32 GeU) = i32GeU"
| "relFn_call fl (RelI64 Eq) = i64Eq"
| "relFn_call fl (RelI64 Ne) = i64Ne"
| "relFn_call fl (RelI64 LtS) = i64LtS"
| "relFn_call fl (RelI64 LtU) = i64LtU"
| "relFn_call fl (RelI64 GtS) = i64GtS"
| "relFn_call fl (RelI64 GtU) = i64GtU"
| "relFn_call fl (RelI64 LeS) = i64LeS"
| "relFn_call fl (RelI64 LeU) = i64LeU"
| "relFn_call fl (RelI64 GeS) = i64GeS"
| "relFn_call fl (RelI64 GeU) = i64GeU"
| "relFn_call fl (RelF32 f) = f32_rel fl f"
| "relFn_call fl (RelF64 f) = f64_rel fl f"

fun testFn_call :: "testFn \<Rightarrow> Value \<Rightarrow> bool" where
  "testFn_call TestI32Eqz = i32Eqz"
| "testFn_call TestI64Eqz = i64Eqz"

section \<open>instance.go: linear memory\<close>

definition memInst_size :: "memInst \<Rightarrow> int" where
  "memInst_size m = int (length (mem_data m))"

definition memInst_pages :: "memInst \<Rightarrow> int" where
  "memInst_pages m = memInst_size m div PAGE_SIZE"

text \<open>
  \<open>grow\<close>: fails when a maximum is declared (\<open>Max >= 0\<close>; \<open>-1\<close> means none) and would be
  exceeded. Otherwise \<open>make\<close> allocates \<open>toPages*PAGE_SIZE\<close> zero bytes (a negative length
  panics), \<open>copy\<close> moves the old bytes in, and the receiver's \<open>data\<close> is rebound.
\<close>

definition memInst_grow :: "memInst \<Rightarrow> int \<Rightarrow> (memInst \<times> error option) go" where
  "memInst_grow m n =
     (let toPages = memInst_pages m + n in
      if 0 \<le>s limits_Max (memType m) \<and> toPages > sint (limits_Max (memType m))
      then Ret (m, Some (Errorf ''memory page is overflow. max is %d, grow size is %d''
                           [ArgInt toPages, ArgInt (sint (limits_Max (memType m)))]))
      else if toPages * PAGE_SIZE < 0 then Panic ''makeslice: len out of range''
      else let newLen = nat (toPages * PAGE_SIZE);
               data' = take newLen (mem_data m) @ replicate (newLen - length (mem_data m)) 0
           in Ret (m\<lparr>mem_data := data'\<rparr>, None))"

text \<open>
  The bounds test shared by the accessors: \<open>addr < 0 || addr+n > int32(len(m.data))\<close>, in
  32-bit signed arithmetic (the sum and the conversion of the length wrap around).
\<close>

definition outOfBounds :: "memInst \<Rightarrow> 32 word \<Rightarrow> 32 word \<Rightarrow> bool" where
  "outOfBounds m addr n = (addr <s 0 \<or> word_of_int (int (length (mem_data m))) <s addr + n)"

text \<open>The slice expression \<open>m.data[addr:]\<close>; it panics unless \<open>0 <= addr <= len(m.data)\<close>.\<close>

definition sliceFrom :: "byte list \<Rightarrow> 32 word \<Rightarrow> byte list go" where
  "sliceFrom d addr =
     (if 0 \<le> sint addr \<and> sint addr \<le> int (length d) then Ret (drop (nat (sint addr)) d)
      else Panic ''slice bounds out of range'')"

text \<open>
  \<open>binary.Read(bytes.NewBuffer(s), binary.LittleEndian, &v)\<close> for an \<open>n\<close>-byte \<open>v\<close>: the
  first \<open>n\<close> bytes of \<open>s\<close>, or an error and \<open>v = 0\<close> when \<open>s\<close> is shorter.
\<close>

definition binary_Read :: "nat \<Rightarrow> byte list \<Rightarrow> 'a::len word \<times> error option" where
  "binary_Read n s =
     (if length s < n then (0, Some (if s = [] then EOF else New ''unexpected EOF''))
      else (le_word (take n s), None))"

definition load :: "nat \<Rightarrow> memInst \<Rightarrow> 32 word \<Rightarrow> ('a::len word \<times> error option) go" where
  "load n m addr =
     (if outOfBounds m addr (of_nat n) then Ret (0, Some errOutOfBounds)
      else case sliceFrom (mem_data m) addr of
             Panic p \<Rightarrow> Panic p
           | Ret s \<Rightarrow> Ret (binary_Read n s))"

definition load8 :: "memInst \<Rightarrow> 32 word \<Rightarrow> 32 word \<Rightarrow> (8 word \<times> error option) go" where
  "load8 m addr align = load 1 m addr"

definition load16 :: "memInst \<Rightarrow> 32 word \<Rightarrow> 32 word \<Rightarrow> (16 word \<times> error option) go" where
  "load16 m addr align = load 2 m addr"

definition load32 :: "memInst \<Rightarrow> 32 word \<Rightarrow> 32 word \<Rightarrow> (32 word \<times> error option) go" where
  "load32 m addr align = load 4 m addr"

definition load64 :: "memInst \<Rightarrow> 32 word \<Rightarrow> 32 word \<Rightarrow> (64 word \<times> error option) go" where
  "load64 m addr align = load 8 m addr"

text \<open>
  \<open>bytes.NewBuffer(s)\<close> makes a buffer whose \<^emph>\<open>contents\<close> are \<open>s\<close>; \<open>Write\<close> appends after
  the contents and never fails. The memory slices come from \<open>make([]byte, n)\<close>, so
  \<open>m.data[addr:]\<close> has no spare capacity and the append moves the buffer to a new array:
  the bytes of \<open>m.data\<close> are not written. (With spare capacity the bytes would land
  behind \<open>len(m.data)\<close>, not at \<open>addr\<close>.) \<open>Buffer_Write\<close> returns the buffer's contents.
\<close>

definition Buffer_Write :: "byte list \<Rightarrow> byte list \<Rightarrow> byte list \<times> error option" where
  "Buffer_Write buf p = (buf @ p, None)"

text \<open>
  The store accessors: \<open>binary.Write(bytes.NewBuffer(m.data[addr:]), binary.LittleEndian, v)\<close>
  after the bounds test. The result is the memory instance afterwards and the error.
\<close>

definition store_n :: "nat \<Rightarrow> memInst \<Rightarrow> 32 word \<Rightarrow> 'a::len word \<Rightarrow> (memInst \<times> error option) go" where
  "store_n n m addr v =
     (if outOfBounds m addr (of_nat n) then Ret (m, Some errOutOfBounds)
      else case sliceFrom (mem_data m) addr of
             Panic p \<Rightarrow> Panic p
           | Ret s \<Rightarrow> Ret (m, snd (Buffer_Write s (le_bytes n v))))"

definition store8 :: "memInst \<Rightarrow> 32 word \<Rightarrow> 32 word \<Rightarrow> 8 word \<Rightarrow> (memInst \<times> error option) go" where
  "store8 m addr align v = store_n 1 m addr v"

definition store16 :: "memInst \<Rightarrow> 32 word \<Rightarrow> 32 word \<Rightarrow> 16 word \<Rightarrow> (memInst \<times> error option) go" where
  "store16 m addr align v = store_n 2 m addr v"

definition store32 :: "memInst \<Rightarrow> 32 word \<Rightarrow> 32 word \<Rightarrow> 32 word \<Rightarrow> (memInst \<times> error option) go" where
  "store32 m addr align v = store_n 4 m addr v"

definition store64 :: "memInst \<Rightarrow> 32 word \<Rightarrow> 32 word \<Rightarrow> 64 word \<Rightarrow> (memInst \<times> error option) go" where
  "store64 m addr align v = store_n 8 m addr v"


section \<open>instr\_memory.go\<close>

text \<open>The load functions: \<open>int32(v)\<close> of an unsigned narrow \<open>v\<close> zero-extends.\<close>

fun loadFn_call :: "loadFn \<Rightarrow> memInst \<Rightarrow> 32 word \<Rightarrow> 32 word \<Rightarrow> (Value \<times> error option) go" where
  "loadFn_call LdI32load m addr align =
     (case load32 m addr align of Panic p \<Rightarrow> Panic p
      | Ret (v, err) \<Rightarrow> Ret (ValueFromI32 v, err))"
| "loadFn_call LdI64load m addr align =
     (case load64 m addr align of Panic p \<Rightarrow> Panic p
      | Ret (v, err) \<Rightarrow> Ret (ValueFromI64 v, err))"
| "loadFn_call LdF32load m addr align =
     (case load32 m addr align of Panic p \<Rightarrow> Panic p
      | Ret (v, err) \<Rightarrow> Ret (ValueFrom (AsUint32 v) F32, err))"
| "loadFn_call LdF64load m addr align =
     (case load64 m addr align of Panic p \<Rightarrow> Panic p
      | Ret (v, err) \<Rightarrow> Ret (ValueFrom (AsUint64 v) F64, err))"
| "loadFn_call LdI32load8S m addr align =
     (case load8 m addr align of Panic p \<Rightarrow> Panic p
      | Ret (v, err) \<Rightarrow> Ret (ValueFromI32 (extendS8_32 (ucast v)), err))"
| "loadFn_call LdI32load8U m addr align =
     (case load8 m addr align of Panic p \<Rightarrow> Panic p
      | Ret (v, err) \<Rightarrow> Ret (ValueFromI32 (ucast v), err))"
| "loadFn_call LdI32load16S m addr align =
     (case load16 m addr align of Panic p \<Rightarrow> Panic p
      | Ret (v, err) \<Rightarrow> Ret (ValueFromI32 (extendS16_32 (ucast v)), err))"
| "loadFn_call LdI32load16U m addr align =
     (case load16 m addr align of Panic p \<Rightarrow> Panic p
      | Ret (v, err) \<Rightarrow> Ret (ValueFromI32 (ucast v), err))"
| "loadFn_call LdI64Load8S m addr align =
     (case load8 m addr align of Panic p \<Rightarrow> Panic p
      | Ret (v, err) \<Rightarrow> Ret (ValueFromI64 (extendS8_64 (ucast v)), err))"
| "loadFn_call LdI64Load8U m addr align =
     (case load8 m addr align of Panic p \<Rightarrow> Panic p
      | Ret (v, err) \<Rightarrow> Ret (ValueFromI64 (ucast v), err))"
| "loadFn_call LdI64load16S m addr align =
     (case load16 m addr align of Panic p \<Rightarrow> Panic p
      | Ret (v, err) \<Rightarrow> Ret (ValueFromI64 (extendS16_64 (ucast v)), err))"
| "loadFn_call LdI64load16U m addr align =
     (case load16 m addr align of Panic p \<Rightarrow> Panic p
      | Ret (v, err) \<Rightarrow> Ret (ValueFromI64 (ucast v), err))"
| "loadFn_call LdI64load32S m addr align =
     (case load32 m addr align of Panic p \<Rightarrow> Panic p
      | Ret (v, err) \<Rightarrow> Ret (ValueFromI64 (extendS32_64 (ucast v)), err))"
| "loadFn_call LdI64load32U m addr align =
     (case load32 m addr align of Panic p \<Rightarrow> Panic p
      | Ret (v, err) \<Rightarrow> Ret (ValueFromI64 (ucast v), err))"

text \<open>
  The store functions have no result: the error of the accessor is dropped. They
  receive a pointer to the caller's \<open>memInst\<close>; the result here is that \<open>memInst\<close> afterwards.
\<close>

definition dropError :: "(memInst \<times> error option) go \<Rightarrow> memInst go" where
  "dropError r = (case r of Panic p \<Rightarrow> Panic p | Ret (m, err) \<Rightarrow> Ret m)"

fun storeFn_call :: "fops \<Rightarrow> storeFn \<Rightarrow> memInst \<Rightarrow> 32 word \<Rightarrow> 32 word \<Rightarrow> Value \<Rightarrow> memInst go" where
  "storeFn_call fl StI32store m addr align v = dropError (store32 m addr align (Value_I32 v))"
| "storeFn_call fl StI64store m addr align v = dropError (store64 m addr align (Value_I64 v))"
| "storeFn_call fl StF32store m addr align v =
     dropError (store32 m addr align (f32_to_uint32 fl (Value_F32 v)))"
| "storeFn_call fl StF64store m addr align v =
     dropError (store64 m addr align (f64_to_uint64 fl (Value_F64 v)))"
| "storeFn_call fl StI32store8 m addr align v = dropError (store8 m addr align (ucast (Value_I32 v)))"
| "storeFn_call fl StI32store16 m addr align v = dropError (store16 m addr align (ucast (Value_I32 v)))"
| "storeFn_call fl StI64store8 m addr align v = dropError (store8 m addr align (ucast (Value_I64 v)))"
| "storeFn_call fl StI64store16 m addr align v = dropError (store16 m addr align (ucast (Value_I64 v)))"
| "storeFn_call fl StI64store32 m addr align v = dropError (store32 m addr align (ucast (Value_I64 v)))"

text \<open>
  \<open>opStore.exec\<close>: one \<open>Pop\<close>; the popped value is both the base of the address and the
  value handed to \<open>storeFn\<close>. \<open>mem\<close> is the local copy; nothing is written back to the
  store and \<open>nil\<close> is returned.
\<close>

definition opStore_exec :: "fops \<Rightarrow> 32 word \<Rightarrow> 32 word \<Rightarrow> storeFn \<Rightarrow> machine \<Rightarrow> (machine \<times> error option) go" where
  "opStore_exec fl offset align storeFn m =
     (case defaultMem m of
        Panic p \<Rightarrow> Panic p
      | Ret mem \<Rightarrow>
          (let (value, m1) = popValue m;
               addr = Value_I32 value + offset
           in case storeFn_call fl storeFn mem addr align value of
                Panic p \<Rightarrow> Panic p
              | Ret mem' \<Rightarrow> Ret (updFrame NextStep m1, None)))"

definition opLoad_exec :: "32 word \<Rightarrow> 32 word \<Rightarrow> loadFn \<Rightarrow> machine \<Rightarrow> (machine \<times> error option) go" where
  "opLoad_exec align offset loadFn m =
     (case defaultMem m of
        Panic p \<Rightarrow> Panic p
      | Ret mem \<Rightarrow>
          (let (baseAddr, m1) = popValue m;
               baseAddrI32 = Value_I32 baseAddr
           in if baseAddrI32 <s 0 \<or> offset <s 0 then Ret (m1, Some errOutOfBounds)
              else let addr = baseAddrI32 + offset
                   in case loadFn_call loadFn mem addr align of
                        Panic p \<Rightarrow> Panic p
                      | Ret (value, Some err) \<Rightarrow> Ret (m1, Some err)
                      | Ret (value, None) \<Rightarrow> Ret (updFrame NextStep (pushValue value m1), None)))"

text \<open>\<open>opMemorySize.exec\<close> pushes \<open>int32(mem.size())\<close>: the length in bytes.\<close>

definition opMemorySize_exec :: "machine \<Rightarrow> (machine \<times> error option) go" where
  "opMemorySize_exec m =
     (case defaultMem m of
        Panic p \<Rightarrow> Panic p
      | Ret mem \<Rightarrow>
          Ret (updFrame NextStep
                 (pushValue (ValueFrom (AsInt32 (word_of_int (memInst_size mem))) I32) m), None))"

text \<open>
  \<open>opMemoryGrow.exec\<close>: \<open>mem.grow\<close> rebinds \<open>data\<close> of the local copy \<open>mem\<close>; the store
  keeps its memory instance. \<open>currentPages\<close> and the constant \<open>-1\<close> reach \<open>ValueFrom\<close> with
  the Go type \<open>int\<close>.
\<close>

definition opMemoryGrow_exec :: "machine \<Rightarrow> (machine \<times> error option) go" where
  "opMemoryGrow_exec m =
     (case defaultMem m of
        Panic p \<Rightarrow> Panic p
      | Ret mem \<Rightarrow>
          (let (v, m1) = popValue m;
               currentPages = memInst_pages mem;
               pagesWant = sint (Value_I32 v)
           in case memInst_grow mem pagesWant of
                Panic p \<Rightarrow> Panic p
              | Ret (mem', Some err) \<Rightarrow>
                  Ret (updFrame NextStep (pushValue (ValueFrom (AsInt (- 1)) I32) m1), None)
              | Ret (mem', None) \<Rightarrow>
                  Ret (updFrame NextStep (pushValue (ValueFrom (AsInt currentPages) I32) m1), None)))"

text \<open>
  \<open>opMemoryCopy.exec\<close>: \<open>copy(mem.data[dst:], mem.data[src:src+len])\<close> with 32-bit signed
  indices. \<open>copy\<close> moves \<open>min\<close> of the two lengths, through the shared backing array, so
  this instruction does change the store's memory.
\<close>

definition opMemoryCopy_exec :: "machine \<Rightarrow> (machine \<times> error option) go" where
  "opMemoryCopy_exec m =
     (let (len, m1) = popValue m;
          (src, m2) = popValue m1;
          (dst, m3) = popValue m2
      in case defaultMemAddr m3 of
           Panic p \<Rightarrow> Panic p
         | Ret a \<Rightarrow>
            (case index (mems (store m3)) a of
               Panic p \<Rightarrow> Panic p
             | Ret mem \<Rightarrow>
                (let d = sint (Value_I32 dst);
                     lo = sint (Value_I32 src);
                     hi = sint (Value_I32 src + Value_I32 len);
                     n = int (length (mem_data mem))
                 in if d < 0 \<or> n < d \<or> lo < 0 \<or> hi < lo \<or> n < hi
                    then Panic ''slice bounds out of range''
                    else let k = min (nat (n - d)) (nat (hi - lo));
                             data' = take (nat d) (mem_data mem) @ take k (drop (nat lo) (mem_data mem))
                                     @ drop (nat d + k) (mem_data mem);
                             st = store m3
                         in Ret (updFrame NextStep
                                   (m3\<lparr>store := st\<lparr>mems := (mems st)[nat a := mem\<lparr>mem_data := data'\<rparr>]\<rparr>\<rparr>),
                                 None))))"

definition opMemoryFill_exec :: "machine \<Rightarrow> (machine \<times> error option) go" where
  "opMemoryFill_exec m = Ret (m, None)"


section \<open>instr\_control.go\<close>

text \<open>
  \<open>nextEndAddr\<close>: the scan from \<open>pc\<close>. In Go's type switch the cases \<open>*opIf\<close> and
  \<open>*opLoop\<close> have empty bodies and do not fall through: only \<open>*opBlock\<close> increments
  \<open>depth\<close>. A nil instruction matches no case. The error comes with the address \<open>-1\<close>.
\<close>

function nextEndAddr_loop :: "nat \<Rightarrow> nat \<Rightarrow> expr \<Rightarrow> error + int" where
  "nextEndAddr_loop pc' depth is =
     (if pc' < length is then
        (case is ! pc' of
           Some (opIf b) \<Rightarrow> nextEndAddr_loop (pc' + 1) depth is
         | Some (opLoop b) \<Rightarrow> nextEndAddr_loop (pc' + 1) depth is
         | Some (opBlock b) \<Rightarrow> nextEndAddr_loop (pc' + 1) (depth + 1) is
         | Some opEnd \<Rightarrow>
             (if depth = 0 then Inr (int pc') else nextEndAddr_loop (pc' + 1) (depth - 1) is)
         | _ \<Rightarrow> nextEndAddr_loop (pc' + 1) depth is)
      else Inl (Errorf ''no end instruction found'' []))"
  by pat_completeness auto
termination
  by (relation "measure (\<lambda>(pc', depth, is). length is - pc')") auto

declare nextEndAddr_loop.simps [simp del]

text \<open>A negative \<open>pc\<close> passes the loop test \<open>pc < len(insts)\<close> and \<open>insts[pc]\<close> panics.\<close>

definition nextEndAddr :: "int \<Rightarrow> expr \<Rightarrow> (error + int) go" where
  "nextEndAddr pc' is =
     (if pc' < 0 then Panic ''index out of range''
      else Ret (nextEndAddr_loop (nat pc') 0 is))"

function nextElseOrEndAddr_loop :: "nat \<Rightarrow> nat \<Rightarrow> expr \<Rightarrow> error + int" where
  "nextElseOrEndAddr_loop pc' depth is =
     (if pc' < length is then
        (case is ! pc' of
           Some (opIf b) \<Rightarrow> nextElseOrEndAddr_loop (pc' + 1) (depth + 1) is
         | Some opElse \<Rightarrow>
             (if depth = 0 then Inr (int pc') else nextElseOrEndAddr_loop (pc' + 1) depth is)
         | Some opEnd \<Rightarrow>
             (if depth = 0 then Inr (int pc') else nextElseOrEndAddr_loop (pc' + 1) (depth - 1) is)
         | _ \<Rightarrow> nextElseOrEndAddr_loop (pc' + 1) depth is)
      else Inl (Errorf ''no else or end instruction found after instr if'' []))"
  by pat_completeness auto
termination
  by (relation "measure (\<lambda>(pc', depth, is). length is - pc')") auto

declare nextElseOrEndAddr_loop.simps [simp del]

definition nextElseOrEndAddr :: "int \<Rightarrow> expr \<Rightarrow> (error + int) go" where
  "nextElseOrEndAddr pc' is =
     (if pc' < 0 then Panic ''index out of range''
      else Ret (nextElseOrEndAddr_loop (nat pc') 0 is))"

text \<open>\<open>frame.labels.Push(label{kind, startPc: frame.pc, endPc: nextPc})\<close>.\<close>

definition pushLabel :: "labelKind \<Rightarrow> int \<Rightarrow> machine \<Rightarrow> machine" where
  "pushLabel k nextPc m =
     updFrame (\<lambda>f. f\<lparr>labels := stack_Push (labels f) \<lparr>kind = k, startPc = pc f, endPc = nextPc\<rparr>\<rparr>) m"

definition opUnreachable_exec :: "machine \<Rightarrow> (machine \<times> error option) go" where
  "opUnreachable_exec m = Ret (m, Some (Errorf ''unreachable'' []))"

definition opNop_exec :: "machine \<Rightarrow> (machine \<times> error option) go" where
  "opNop_exec m = Ret (m, None)"

definition opIf_exec :: "machine \<Rightarrow> (machine \<times> error option) go" where
  "opIf_exec m =
     (let (cond, m1) = popValue m;
          fr = curFrame m1
      in case nextEndAddr (pc fr + 1) (insts fr) of
           Panic p \<Rightarrow> Panic p
         | Ret (Inl err) \<Rightarrow> Ret (m1, Some err)
         | Ret (Inr nextPc) \<Rightarrow>
            (case Value_Bool cond of
               Panic p \<Rightarrow> Panic p
             | Ret True \<Rightarrow> Ret (pushLabel LabelKindIf nextPc m1, None)
             | Ret False \<Rightarrow>
                (case nextElseOrEndAddr (pc fr + 1) (insts fr) of
                   Panic p \<Rightarrow> Panic p
                 | Ret (Inl err) \<Rightarrow> Ret (m1, Some err)
                 | Ret (Inr addr) \<Rightarrow>
                     Ret (pushLabel LabelKindIf nextPc (updFrame (\<lambda>f. f\<lparr>pc := addr\<rparr>) m1), None))))"

definition opLoop_exec :: "machine \<Rightarrow> (machine \<times> error option) go" where
  "opLoop_exec m =
     (let fr = curFrame m
      in case nextEndAddr (pc fr + 1) (insts fr) of
           Panic p \<Rightarrow> Panic p
         | Ret (Inl err) \<Rightarrow> Ret (m, Some err)
         | Ret (Inr nextPc) \<Rightarrow> Ret (pushLabel LabelKindLoop nextPc m, None))"

definition opBlock_exec :: "machine \<Rightarrow> (machine \<times> error option) go" where
  "opBlock_exec m =
     (let fr = curFrame m
      in case nextEndAddr (pc fr + 1) (insts fr) of
           Panic p \<Rightarrow> Panic p
         | Ret (Inl err) \<Rightarrow> Ret (m, Some err)
         | Ret (Inr nextPc) \<Rightarrow> Ret (updFrame NextStep (pushLabel LabelKindBlock nextPc m), None))"

definition opElse_exec :: "machine \<Rightarrow> (machine \<times> error option) go" where
  "opElse_exec m =
     (let ((label, ok), ls) = stack_Pop zeroLabel (labels (curFrame m))
      in if \<not> ok then Ret (m, Some (Errorf ''no label found when else instr'' []))
         else Ret (updFrame (\<lambda>f. f\<lparr>labels := ls, pc := endPc label\<rparr>) m, None))"

definition opEnd_exec :: "machine \<Rightarrow> (machine \<times> error option) go" where
  "opEnd_exec m =
     (let ((label, ok), ls) = stack_Pop zeroLabel (labels (curFrame m))
      in if \<not> ok then Ret (m\<lparr>frameStack := snd (stack_Pop zeroFrame (frameStack m))\<rparr>, None)
         else Ret (updFrame (\<lambda>f. f\<lparr>labels := ls, pc := endPc label\<rparr>) m, None))"

text \<open>
  \<open>br\<close>: the label stack is read through \<open>Peek\<close> and not changed; on an empty label
  stack the result is address 0 with an error.
\<close>

definition br :: "label list \<Rightarrow> Value list \<Rightarrow> int \<Rightarrow> (int \<times> error option) go" where
  "br ls vs level =
     (case stack_Peek zeroLabel ls level of
        Panic p \<Rightarrow> Panic p
      | Ret (label, ok) \<Rightarrow>
          if \<not> ok then Ret (0, Some (Errorf ''no label found level: %d'' [ArgInt level]))
          else Ret (if kind label = LabelKindLoop then startPc label else endPc label, None))"

text \<open>\<open>frame.pc, err = br(&frame.labels, valueStack, level); return err\<close>.\<close>

definition doBr :: "int \<Rightarrow> machine \<Rightarrow> (machine \<times> error option) go" where
  "doBr level m =
     (case br (labels (curFrame m)) (valueStack m) level of
        Panic p \<Rightarrow> Panic p
      | Ret (nextPc, err) \<Rightarrow> Ret (updFrame (\<lambda>f. f\<lparr>pc := nextPc\<rparr>) m, err))"

definition opBr_exec :: "int \<Rightarrow> machine \<Rightarrow> (machine \<times> error option) go" where
  "opBr_exec level m = doBr level m"

definition opBrIf_exec :: "int \<Rightarrow> machine \<Rightarrow> (machine \<times> error option) go" where
  "opBrIf_exec level m =
     (let (cond, m1) = popValue m
      in case Value_Bool cond of
           Panic p \<Rightarrow> Panic p
         | Ret True \<Rightarrow> doBr level m1
         | Ret False \<Rightarrow> Ret (updFrame NextStep m1, None))"

definition opBrTable_exec :: "int list \<Rightarrow> int \<Rightarrow> machine \<Rightarrow> (machine \<times> error option) go" where
  "opBrTable_exec labelIdxArr defaultIdx m =
     (let (idxValue, m1) = popValue m;
          idx = sint (Value_I32 idxValue)
      in if idx < int (length labelIdxArr)
         then (case index labelIdxArr idx of
                 Panic p \<Rightarrow> Panic p
               | Ret level \<Rightarrow> doBr level m1)
         else doBr defaultIdx m1)"

definition opReturn_exec :: "machine \<Rightarrow> (machine \<times> error option) go" where
  "opReturn_exec m = Ret (m, None)"

definition opCall_exec :: "machine \<Rightarrow> (machine \<times> error option) go" where
  "opCall_exec m = Ret (m, None)"

definition opCallIndirect_exec :: "machine \<Rightarrow> (machine \<times> error option) go" where
  "opCallIndirect_exec m = Ret (m, None)"

section \<open>instr\_variable.go\<close>

definition opLocalGet_exec :: "int \<Rightarrow> machine \<Rightarrow> (machine \<times> error option) go" where
  "opLocalGet_exec localIdx m =
     (case stack_Get (valueStack m) (sp (curFrame m)) localIdx of
        Panic p \<Rightarrow> Panic p
      | Ret None \<Rightarrow> Ret (m, Some (Errorf ''local variable[%d] not found'' [ArgInt localIdx]))
      | Ret (Some v) \<Rightarrow> Ret (updFrame NextStep (pushValue v m), None))"

definition opLocalSet_exec :: "int \<Rightarrow> machine \<Rightarrow> (machine \<times> error option) go" where
  "opLocalSet_exec localIdx m =
     (let (v, m1) = popValue m
      in case stack_Set (valueStack m1) (sp (curFrame m1)) localIdx v of
           Panic p \<Rightarrow> Panic p
         | Ret vs \<Rightarrow> Ret (updFrame NextStep (m1\<lparr>valueStack := vs\<rparr>), None))"

definition opLocalTee_exec :: "int \<Rightarrow> machine \<Rightarrow> (machine \<times> error option) go" where
  "opLocalTee_exec localIdx m =
     (let v = fst (stack_Top zeroValue (valueStack m))
      in case stack_Set (valueStack m) (sp (curFrame m)) localIdx v of
           Panic p \<Rightarrow> Panic p
         | Ret vs \<Rightarrow> Ret (updFrame NextStep (m\<lparr>valueStack := vs\<rparr>), None))"

text \<open>\<open>global := store.globals[frame.mod.globalAddrs[o.globalIdx]]\<close>: a copy of the struct.\<close>

definition lookupGlobal :: "int \<Rightarrow> machine \<Rightarrow> globalInst go" where
  "lookupGlobal globalIdx m =
     (case frame_mod (curFrame m) of
        None \<Rightarrow> Panic ''nil pointer dereference''
      | Some mi \<Rightarrow>
          (case index (globalAddrs mi) globalIdx of
             Panic p \<Rightarrow> Panic p
           | Ret globalAddr \<Rightarrow> index (globals (store m)) (uint globalAddr)))"

definition opGlobalGet_exec :: "int \<Rightarrow> machine \<Rightarrow> (machine \<times> error option) go" where
  "opGlobalGet_exec globalIdx m =
     (case lookupGlobal globalIdx m of
        Panic p \<Rightarrow> Panic p
      | Ret global \<Rightarrow> Ret (updFrame NextStep (pushValue (globalInst_value global) m), None))"

text \<open>
  \<open>opGlobalSet.exec\<close>: the operand is read with \<open>Top\<close> (it stays on the stack) and
  \<open>global.value = *v\<close> assigns to the local copy \<open>global\<close>, which is then dropped.
\<close>

definition opGlobalSet_exec :: "int \<Rightarrow> machine \<Rightarrow> (machine \<times> error option) go" where
  "opGlobalSet_exec globalIdx m =
     (case lookupGlobal globalIdx m of
        Panic p \<Rightarrow> Panic p
      | Ret global \<Rightarrow>
          if mut (globalInst_globalType global) = const'
          then Ret (m, Some (Errorf ''global[%d] is a const value'' [ArgInt globalIdx]))
          else let v = fst (stack_Top zeroValue (valueStack m))
               in if valueType (globalInst_globalType global) \<noteq> ValType v
                  then Ret (m, Some (Errorf ''global[%d] and value types do not match '' [ArgInt globalIdx]))
                  else let global' = global\<lparr>globalInst_value := v\<rparr>
                       in Ret (updFrame NextStep m, None))"

section \<open>The file in src/unnamed (\<open>instr\_parametric.go\<close>)\<close>

definition opSelect_exec :: "machine \<Rightarrow> (machine \<times> error option) go" where
  "opSelect_exec m =
     (let (c, m1) = popValue m;
          (v1, m2) = popValue m1;
          (v2, m3) = popValue m2
      in Ret (updFrame NextStep (pushValue (if Value_I32 c = 0 then v1 else v2) m3), None))"

definition opDrop_exec :: "machine \<Rightarrow> (machine \<times> error option) go" where
  "opDrop_exec m = (let (v, m1) = popValue m in Ret (updFrame NextStep m1, None))"

section \<open>The \<open>exec\<close> methods of instr\_numeric.go\<close>

definition opUn_exec :: "fops \<Rightarrow> unOpFn \<Rightarrow> machine \<Rightarrow> (machine \<times> error option) go" where
  "opUn_exec fl unOpFn m =
     (let (v, m1) = popValue m
      in Ret (updFrame NextStep (pushValue (unOpFn_call fl unOpFn v) m1), None))"

text \<open>\<open>opBin.exec\<close>: \<open>a\<close> is popped first (the top of the stack), then \<open>b\<close>; the result is \<open>binFn(a, b)\<close>.\<close>

definition opBin_exec :: "fops \<Rightarrow> binFn \<Rightarrow> machine \<Rightarrow> (machine \<times> error option) go" where
  "opBin_exec fl binFn m =
     (let (a, m1) = popValue m;
          (b, m2) = popValue m1
      in case binFn_call fl binFn a b of
           Inl err \<Rightarrow> Ret (m2, Some err)
         | Inr ret \<Rightarrow> Ret (updFrame NextStep (pushValue ret m2), None))"

definition opConst_exec :: "Value \<Rightarrow> machine \<Rightarrow> (machine \<times> error option) go" where
  "opConst_exec val m = Ret (updFrame NextStep (pushValue val m), None)"

definition opRel_exec :: "fops \<Rightarrow> relFn \<Rightarrow> machine \<Rightarrow> (machine \<times> error option) go" where
  "opRel_exec fl relFn m =
     (let (a, m1) = popValue m;
          (b, m2) = popValue m1
      in Ret (updFrame NextStep (pushValue (numericBool (relFn_call fl relFn a b)) m2), None))"

definition opTest_exec :: "testFn \<Rightarrow> machine \<Rightarrow> (machine \<times> error option) go" where
  "opTest_exec testFn m =
     (let (v, m1) = popValue m
      in Ret (updFrame NextStep (pushValue (numericBool (testFn_call testFn v)) m1), None))"

section \<open>interpreter.go: dispatch\<close>

text \<open>The method call \<open>instr.exec(&frameStack, &valueStack, &store)\<close> on a non-nil instruction.\<close>

fun exec :: "fops \<Rightarrow> instr \<Rightarrow> machine \<Rightarrow> (machine \<times> error option) go" where
  "exec fl opUnreachable m = opUnreachable_exec m"
| "exec fl opNop m = opNop_exec m"
| "exec fl (opIf b) m = opIf_exec m"
| "exec fl (opLoop b) m = opLoop_exec m"
| "exec fl (opBlock b) m = opBlock_exec m"
| "exec fl opElse m = opElse_exec m"
| "exec fl opEnd m = opEnd_exec m"
| "exec fl (opBr level) m = opBr_exec level m"
| "exec fl (opBrIf level) m = opBrIf_exec level m"
| "exec fl (opBrTable labelIdxArr defaultIdx) m = opBrTable_exec labelIdxArr defaultIdx m"
| "exec fl opReturn m = opReturn_exec m"
| "exec fl opCall m = opCall_exec m"
| "exec fl opCallIndirect m = opCallIndirect_exec m"
| "exec fl (opLocalGet i) m = opLocalGet_exec i m"
| "exec fl (opLocalSet i) m = opLocalSet_exec i m"
| "exec fl (opLocalTee i) m = opLocalTee_exec i m"
| "exec fl (opGlobalGet i) m = opGlobalGet_exec i m"
| "exec fl (opGlobalSet i) m = opGlobalSet_exec i m"
| "exec fl (opUn f) m = opUn_exec fl f m"
| "exec fl (opBin f) m = opBin_exec fl f m"
| "exec fl (opConst v) m = opConst_exec v m"
| "exec fl (opRel f) m = opRel_exec fl f m"
| "exec fl (opTest f) m = opTest_exec f m"
| "exec fl (opStore offset align f) m = opStore_exec fl offset align f m"
| "exec fl (opLoad align offset f) m = opLoad_exec align offset f m"
| "exec fl opMemorySize m = opMemorySize_exec m"
| "exec fl opMemoryGrow m = opMemoryGrow_exec m"
| "exec fl opMemoryCopy m = opMemoryCopy_exec m"
| "exec fl opMemoryFill m = opMemoryFill_exec m"
| "exec fl opSelect m = opSelect_exec m"
| "exec fl opDrop m = opDrop_exec m"

text \<open>
  One turn of the loop of \<open>Execute\<close>, entered with a non-empty frame stack: fetch
  \<open>frame.insts[frame.pc]\<close> (an index out of range panics) and call \<open>exec\<close> on it (a nil
  instruction panics).
\<close>

definition step :: "fops \<Rightarrow> machine \<Rightarrow> (machine \<times> error option) go" where
  "step fl m =
     (let frame = fst (stack_Top zeroFrame (frameStack m))
      in case index (insts frame) (pc frame) of
           Panic p \<Rightarrow> Panic p
         | Ret None \<Rightarrow> Panic ''nil pointer dereference''
         | Ret (Some i) \<Rightarrow> exec fl i m)"

text \<open>
  \<open>Execute\<close>: the loop has no bound in the source. The first argument is fuel, one unit
  for each instruction executed; \<open>None\<close> means the fuel ran out with frames left.
\<close>

fun Execute :: "nat \<Rightarrow> fops \<Rightarrow> machine \<Rightarrow> (machine \<times> error option) go option" where
  "Execute n fl m =
     (if stack_isEmpty (frameStack m) then Some (Ret (m, None))
      else case n of
             0 \<Rightarrow> None
           | Suc k \<Rightarrow>
              (case step fl m of
                 Panic p \<Rightarrow> Some (Panic p)
               | Ret (m', Some err) \<Rightarrow> Some (Ret (m', Some err))
               | Ret (m', None) \<Rightarrow> Execute k fl m'))"

declare Execute.simps [simp del]

section \<open>interpreter.go: invoking a function\<close>

record Interpreter =
  machine :: machine
  interp_mod :: moduleInst

text \<open>The loop that pops \<open>len(fn.funcType.results)\<close> values: \<open>results[0]\<close> is the top.\<close>

fun popResults :: "nat \<Rightarrow> Value list \<Rightarrow> Value list \<times> Value list" where
  "popResults 0 s = ([], s)"
| "popResults (Suc k) s =
     (let ((ret, ok), s') = stack_Pop zeroValue s;
          (rets, s'') = popResults k s'
      in (ret # rets, s''))"

text \<open>
  The closure returned by \<open>GetFunc\<close>, for the function instance \<open>fn\<close>. The frame is pushed
  with \<open>sp\<close> the height of the operand stack, then the arguments are pushed from the last
  to the first. On an error both stacks are reset. \<open>n\<close> is the fuel of \<open>Execute\<close>.
\<close>

definition invoke :: "nat \<Rightarrow> fops \<Rightarrow> funcInst \<Rightarrow> Value list \<Rightarrow> Interpreter
    \<Rightarrow> ((error + Value list) \<times> Interpreter) go option" where
  "invoke n fl fn args i =
     (let m = machine i;
          m1 = m\<lparr>frameStack := stack_Push (frameStack m)
                  \<lparr>pc = 0, sp = stack_Len (valueStack m), insts = body (funcInst_code fn),
                   labels = [], frame_mod = Some (interp_mod i)\<rparr>\<rparr>;
          m2 = m1\<lparr>valueStack := valueStack m1 @ rev args\<rparr>
      in case Execute n fl m2 of
           None \<Rightarrow> None
         | Some (Panic p) \<Rightarrow> Some (Panic p)
         | Some (Ret (m', Some err)) \<Rightarrow>
             Some (Ret (Inl err, i\<lparr>machine := m'\<lparr>frameStack := [], valueStack := []\<rparr>\<rparr>))
         | Some (Ret (m', None)) \<Rightarrow>
             (let (rets, s) = popResults (length (results (funcInst_funcType fn))) (valueStack m')
              in Some (Ret (Inr rets, i\<lparr>machine := m'\<lparr>valueStack := s\<rparr>\<rparr>))))"

section \<open>parser.go: instructions and expressions\<close>

subsection \<open>The reader only moves forward\<close>

lemma eatU8_fwd: "eatU8 r = (x, r') \<Longrightarrow> bytes r' = bytes r \<and> pos r \<le> pos r'"
  by (auto simp: eatU8_def split: if_splits)

lemma eatU8_Inr: "eatU8 r = (Inr b, r') \<Longrightarrow> bytes r' = bytes r \<and> pos r' = pos r + 1 \<and> pos r < length (bytes r)"
  by (auto simp: eatU8_def split: if_splits)

lemma eatU64_loop_fwd: "eatU64_loop r v s = (x, r') \<Longrightarrow> bytes r' = bytes r \<and> pos r \<le> pos r'"
proof (induction r v s rule: eatU64_loop.induct)
  case (1 r v shift)
  show ?case
  proof (cases "eatU8 r")
    case (Pair y r1)
    note e = eatU8_fwd [OF Pair]
    show ?thesis
    proof (cases y)
      case (Inl err)
      with Pair "1.prems" e show ?thesis
        by (subst (asm) eatU64_loop.simps) simp
    next
      case (Inr u8)
      show ?thesis
      proof (cases "drop_bit 7 (u8 AND 0x80) = 0")
        case True
        with Pair Inr "1.prems" e show ?thesis
          by (subst (asm) eatU64_loop.simps) (simp add: Let_def)
      next
        case False
        from "1.prems" Pair Inr False
        have "eatU64_loop r1 (v OR push_bit shift (ucast u8 AND 0x7F)) (shift + 7) = (x, r')"
          by (subst (asm) eatU64_loop.simps) (simp add: Let_def)
        from "1.IH" [OF Pair [symmetric] Inr refl refl False this] e
        show ?thesis by simp
      qed
    qed
  qed
qed

lemma eatI64_loop_fwd: "eatI64_loop r v s = (x, r') \<Longrightarrow> bytes r' = bytes r \<and> pos r \<le> pos r'"
proof (induction r v s rule: eatI64_loop.induct)
  case (1 r v shift)
  show ?case
  proof (cases "eatU8 r")
    case (Pair y r1)
    note e = eatU8_fwd [OF Pair]
    show ?thesis
    proof (cases y)
      case (Inl err)
      with Pair "1.prems" e show ?thesis
        by (subst (asm) eatI64_loop.simps) simp
    next
      case (Inr u8)
      show ?thesis
      proof (cases "drop_bit 7 (u8 AND 0x80) = 0")
        case True
        with Pair Inr "1.prems" e show ?thesis
          by (subst (asm) eatI64_loop.simps) (auto simp add: Let_def split: if_splits)
      next
        case False
        from "1.prems" Pair Inr False
        have "eatI64_loop r1 (v OR push_bit shift (ucast u8 AND 0x7F)) (shift + 7) = (x, r')"
          by (subst (asm) eatI64_loop.simps) (simp add: Let_def)
        from "1.IH" [OF Pair [symmetric] Inr refl refl False this] e
        show ?thesis by simp
      qed
    qed
  qed
qed

lemma eatU32_fwd: "eatU32 r = (x, r') \<Longrightarrow> bytes r' = bytes r \<and> pos r \<le> pos r'"
  by (auto simp: eatU32_def eatU64_def split: prod.splits sum.splits dest: eatU64_loop_fwd)

lemma eatI32_fwd: "eatI32 r = (x, r') \<Longrightarrow> bytes r' = bytes r \<and> pos r \<le> pos r'"
  by (auto simp: eatI32_def eatI64_def split: prod.splits sum.splits dest: eatI64_loop_fwd)

lemma eatI64_fwd: "eatI64 r = (x, r') \<Longrightarrow> bytes r' = bytes r \<and> pos r \<le> pos r'"
  by (auto simp: eatI64_def dest: eatI64_loop_fwd)

subsection \<open>Decoding one instruction\<close>

text \<open>\<open>memoryArgs\<close>: \<open>align\<close> and \<open>offset\<close>, both read as signed 32-bit values.\<close>

definition memoryArgs :: "leb128Reader \<Rightarrow> (error + 32 word \<times> 32 word) \<times> leb128Reader" where
  "memoryArgs r =
     (case eatI32 r of
        (Inl err, r1) \<Rightarrow> (Inl err, r1)
      | (Inr align, r1) \<Rightarrow>
          (case eatI32 r1 of
             (Inl err, r2) \<Rightarrow> (Inl err, r2)
           | (Inr offset, r2) \<Rightarrow> (Inr (align, offset), r2)))"

definition eatBlock :: "leb128Reader \<Rightarrow> (error + block) \<times> leb128Reader" where
  "eatBlock r =
     (case eatU8 r of
        (Inl err, r1) \<Rightarrow> (Inl err, r1)
      | (Inr bt, r1) \<Rightarrow>
          if bt = 0x40 then (Inr \<lparr>blockType = blockTypeEmpty, valType = []\<rparr>, r1)
          else (Inr \<lparr>blockType = blockTypeValue, valType = [bt]\<rparr>, r1))"

text \<open>
  The cases of the switch in \<open>parser.instr\<close> that read no immediate, in the order of
  the source, each with the instruction it assigns to \<open>i\<close>. A case with an empty body
  leaves \<open>i\<close> nil: \<open>None\<close>.
\<close>

definition plainOps :: "(byte \<times> instr option) list" where
  "plainOps =
     [(0x00, Some opUnreachable), (0x01, Some opNop), (0x05, Some opElse),
      (0x0C, None), (0x0D, None), (0x0E, None), (0x22, None), (0x23, None),
      (0x24, None), (0x10, None), (0x11, None), (0x45, Some (opTest TestI32Eqz)),
      (0x46, Some (opRel (RelI32 Eq))), (0x47, Some (opRel (RelI32 Ne))),
      (0x48, Some (opRel (RelI32 LtS))), (0x49, Some (opRel (RelI32 LtU))),
      (0x4A, Some (opRel (RelI32 GtS))), (0x4B, Some (opRel (RelI32 GtU))),
      (0x4C, Some (opRel (RelI32 LeS))), (0x4D, Some (opRel (RelI32 LeU))),
      (0x4E, Some (opRel (RelI32 GeS))), (0x4F, Some (opRel (RelI32 GeU))),
      (0x6A, Some (opBin (BinI32 Add))), (0x6B, Some (opBin (BinI32 Sub))),
      (0x6C, Some (opBin (BinI32 Mul))), (0x67, Some (opUn (UnI32 Clz))),
      (0x68, Some (opUn (UnI32 Ctz))), (0x69, Some (opUn (UnI32 Popcnt))),
      (0x6D, Some (opBin (BinI32 DivS))), (0x6E, Some (opBin (BinI32 DivU))),
      (0x6F, Some (opBin (BinI32 RemS))), (0x70, Some (opBin (BinI32 RemU))),
      (0x71, Some (opBin (BinI32 And))), (0x72, Some (opBin (BinI32 Or))),
      (0x73, Some (opBin (BinI32 Xor))), (0x74, Some (opBin (BinI32 Shl))),
      (0x75, Some (opBin (BinI32 ShrS))), (0x76, Some (opBin (BinI32 ShrU))),
      (0x77, Some (opBin (BinI32 RotL))), (0x78, Some (opBin (BinI32 RotR))),
      (0xC0, Some (opUn (UnI32 Extend8S))), (0xC1, Some (opUn (UnI32 Extend16S))),
      (0x50, Some (opTest TestI64Eqz)), (0x51, Some (opRel (RelI64 Eq))),
      (0x52, Some (opRel (RelI64 Ne))), (0x53, Some (opRel (RelI64 LtS))),
      (0x54, Some (opRel (RelI64 LtU))), (0x55, Some (opRel (RelI64 GtS))),
      (0x56, Some (opRel (RelI64 GtU))), (0x57, Some (opRel (RelI64 LeS))),
      (0x58, Some (opRel (RelI64 LeU))), (0x59, Some (opRel (RelI64 GeS))),
      (0x5A, Some (opRel (RelI64 GeU))), (0x79, Some (opUn (UnI64 Clz))),
      (0x7A, Some (opUn (UnI64 Ctz))), (0x7B, Some (opUn (UnI64 Popcnt))),
      (0x7C, Some (opBin (BinI64 Add))), (0x7D, Some (opBin (BinI64 Sub))),
      (0x7E, Some (opBin (BinI64 Mul))), (0x7F, Some (opBin (BinI64 DivS))),
      (0x80, Some (opBin (BinI64 DivU))), (0x81, Some (opBin (BinI64 RemS))),
      (0x82, Some (opBin (BinI64 RemU))), (0x83, Some (opBin (BinI64 And))),
      (0x84, Some (opBin (BinI64 Or))), (0x85, Some (opBin (BinI64 Xor))),
      (0x86, Some (opBin (BinI64 Shl))), (0x87, Some (opBin (BinI64 ShrS))),
      (0x88, Some (opBin (BinI64 ShrU))), (0x89, Some (opBin (BinI64 RotL))),
      (0x8A, Some (opBin (BinI64 RotR))), (0xC2, Some (opUn (UnI64 Extend8S))),
      (0xC3, Some (opUn (UnI64 Extend16S))), (0xC4, Some (opUn UnI64Extend32S)),
      (0x43, None), (0x44, None), (0x5B, Some (opRel (RelF32 FEq))),
      (0x5C, Some (opRel (RelF32 FNe))), (0x5D, Some (opRel (RelF32 FLt))),
      (0x5E, Some (opRel (RelF32 FGt))), (0x5F, Some (opRel (RelF32 FLe))),
      (0x60, Some (opRel (RelF32 FGe))), (0x8B, Some (opUn (UnF32 Abs))),
      (0x8C, Some (opUn (UnF32 Neg))), (0x8D, Some (opUn (UnF32 Ceil))),
      (0x8E, Some (opUn (UnF32 Floor))), (0x8F, Some (opUn (UnF32 Trunc))),
      (0x90, Some (opUn (UnF32 Nearest))), (0x91, Some (opUn (UnF32 Sqrt))),
      (0x92, Some (opBin (BinF32 FAdd))), (0x93, Some (opBin (BinF32 FSub))),
      (0x94, Some (opBin (BinF32 FMul))), (0x95, Some (opBin (BinF32 FDiv))),
      (0x96, Some (opBin (BinF32 FMin))), (0x97, Some (opBin (BinF32 FMax))),
      (0x99, Some (opUn (UnF64 Abs))), (0x9A, Some (opUn (UnF64 Neg))),
      (0x9B, Some (opUn (UnF64 Ceil))), (0x9C, Some (opUn (UnF64 Floor))),
      (0x9D, Some (opUn (UnF64 Trunc))), (0x9E, Some (opUn (UnF64 Nearest))),
      (0x9F, Some (opUn (UnF64 Sqrt))), (0xA0, Some (opBin (BinF64 FAdd))),
      (0xA1, Some (opBin (BinF64 FSub))), (0xA2, Some (opBin (BinF64 FMul))),
      (0xA3, Some (opBin (BinF64 FDiv))), (0xA4, Some (opBin (BinF64 FMin))),
      (0xA5, Some (opBin (BinF64 FMax))), (0xA6, Some (opBin (BinF64 FCopysign))),
      (0xA7, None), (0x61, Some (opRel (RelF64 FEq))),
      (0x62, Some (opRel (RelF64 FNe))), (0x63, Some (opRel (RelF64 FLt))),
      (0x64, Some (opRel (RelF64 FGt))), (0x65, Some (opRel (RelF64 FLe))),
      (0x66, Some (opRel (RelF64 FGe))), (0x98, Some (opBin (BinF32 FCopysign))),
      (0x0F, Some opReturn), (0x3F, Some opMemorySize), (0x40, Some opMemoryGrow),
      (0x1B, Some opSelect), (0x1A, Some opDrop), (0xA8, None), (0xA9, None),
      (0xAA, None), (0xAB, None), (0xAC, None), (0xAD, None), (0xAE, None),
      (0xAF, None), (0xB0, None), (0xB1, None), (0xB2, None), (0xB3, None),
      (0xB4, None), (0xB5, None), (0xB6, None), (0xB7, None), (0xB8, None),
      (0xB9, None), (0xBA, None), (0xBB, None), (0xBC, None), (0xBD, None),
      (0xBE, None), (0xBF, None)]"

definition loadOps :: "(byte \<times> loadFn) list" where
  "loadOps =
     [(0x28, LdI32load), (0x29, LdI64load), (0x2A, LdF32load), (0x2B, LdF64load),
      (0x2C, LdI32load8S), (0x2D, LdI32load8U), (0x2E, LdI32load16S),
      (0x2F, LdI32load16U), (0x30, LdI64Load8S), (0x31, LdI64Load8U),
      (0x32, LdI64load16S), (0x33, LdI64load16U), (0x34, LdI64load32S),
      (0x35, LdI64load32U)]"

definition storeOps :: "(byte \<times> storeFn) list" where
  "storeOps =
     [(0x36, StI32store), (0x37, StI64store), (0x38, StF32store), (0x39, StF64store),
      (0x3A, StI32store8), (0x3B, StI32store16), (0x3C, StI64store8),
      (0x3D, StI64store16), (0x3E, StI64store32)]"


text \<open>
  \<open>parser.instr\<close>: the result is the instruction (\<open>None\<close> for nil) and the flag \<open>isEnd\<close>.
  The switch has no default: an opcode with no case leaves \<open>i\<close> nil as well. The case
  \<open>0xFC\<close> drops the results of its \<open>eatU32\<close> calls, errors included.
\<close>

definition parser_instr :: "leb128Reader \<Rightarrow> (error + instr option \<times> bool) \<times> leb128Reader" where
  "parser_instr r =
     (case eatU8 r of
        (Inl err, r1) \<Rightarrow> (Inl err, r1)
      | (Inr op, r1) \<Rightarrow>
          if op = 0x02 then
            (case eatBlock r1 of
               (Inl err, r2) \<Rightarrow> (Inl err, r2)
             | (Inr b, r2) \<Rightarrow> (Inr (Some (opBlock b), False), r2))
          else if op = 0x03 then
            (case eatBlock r1 of
               (Inl err, r2) \<Rightarrow> (Inl err, r2)
             | (Inr b, r2) \<Rightarrow> (Inr (Some (opLoop b), False), r2))
          else if op = 0x04 then
            (case eatBlock r1 of
               (Inl err, r2) \<Rightarrow> (Inl err, r2)
             | (Inr b, r2) \<Rightarrow> (Inr (Some (opIf b), False), r2))
          else if op = 0x0B then (Inr (Some opEnd, True), r1)
          else if op = 0x20 then
            (case eatU32 r1 of
               (Inl err, r2) \<Rightarrow> (Inl err, r2)
             | (Inr idx, r2) \<Rightarrow> (Inr (Some (opLocalGet (uint idx)), False), r2))
          else if op = 0x21 then
            (case eatU32 r1 of
               (Inl err, r2) \<Rightarrow> (Inl err, r2)
             | (Inr idx, r2) \<Rightarrow> (Inr (Some (opLocalSet (uint idx)), False), r2))
          else if op = 0x41 then
            (case eatI32 r1 of
               (Inl err, r2) \<Rightarrow> (Inl err, r2)
             | (Inr v, r2) \<Rightarrow> (Inr (Some (opConst (ValueFromI32 v)), False), r2))
          else if op = 0x42 then
            (case eatI64 r1 of
               (Inl err, r2) \<Rightarrow> (Inl err, r2)
             | (Inr v, r2) \<Rightarrow> (Inr (Some (opConst (ValueFromI64 v)), False), r2))
          else if op = 0xFC then
            (case eatU8 r1 of
               (Inl err, r2) \<Rightarrow> (Inl err, r2)
             | (Inr kind', r2) \<Rightarrow>
                 if kind' = 10 then (Inr (Some opMemoryCopy, False), snd (eatU32 (snd (eatU32 r2))))
                 else if kind' = 11 then (Inr (Some opMemoryFill, False), snd (eatU32 r2))
                 else (Inl (Errorf ''unknown memory copy or fill kind: %d'' [ArgInt (uint kind')]), r2))
          else
            (case map_of loadOps op of
               Some loadFn \<Rightarrow>
                 (case memoryArgs r1 of
                    (Inl err, r2) \<Rightarrow> (Inl err, r2)
                  | (Inr (align, offset), r2) \<Rightarrow> (Inr (Some (opLoad align offset loadFn), False), r2))
             | None \<Rightarrow>
                 (case map_of storeOps op of
                    Some storeFn \<Rightarrow>
                      (case memoryArgs r1 of
                         (Inl err, r2) \<Rightarrow> (Inl err, r2)
                       | (Inr (align, offset), r2) \<Rightarrow>
                           (Inr (Some (opStore offset align storeFn), False), r2))
                  | None \<Rightarrow>
                      (case map_of plainOps op of
                         Some i \<Rightarrow> (Inr (i, False), r1)
                       | None \<Rightarrow> (Inr (None, False), r1)))))"

lemma memoryArgs_fwd: "memoryArgs r = (x, r') \<Longrightarrow> bytes r' = bytes r \<and> pos r \<le> pos r'"
  by (fastforce simp: memoryArgs_def split: prod.splits sum.splits dest: eatI32_fwd)

lemma eatBlock_fwd: "eatBlock r = (x, r') \<Longrightarrow> bytes r' = bytes r \<and> pos r \<le> pos r'"
  by (fastforce simp: eatBlock_def split: prod.splits sum.splits if_splits dest: eatU8_fwd)

lemma snd_eatU32_fwd: "bytes (snd (eatU32 r)) = bytes r" "p \<le> pos r \<Longrightarrow> p \<le> pos (snd (eatU32 r))"
  using eatU32_fwd [of r "fst (eatU32 r)" "snd (eatU32 r)"] by simp_all

lemma parser_instr_fwd:
  assumes "parser_instr r = (Inr x, r')"
  shows "bytes r' = bytes r \<and> pos r < pos r' \<and> pos r < length (bytes r)"
proof -
  obtain op r1 where e: "eatU8 r = (Inr op, r1)"
    using assms by (cases "eatU8 r") (auto simp: parser_instr_def split: sum.splits)
  note e1 = eatU8_Inr [OF e]
  have blk: "bytes r' = bytes r1 \<and> pos r1 \<le> pos r'"
    if "(case eatBlock r1 of (Inl err, r2) \<Rightarrow> (Inl err, r2) | (Inr b, r2) \<Rightarrow> (Inr (f b), r2)) = (Inr x, r')"
    for f :: "block \<Rightarrow> instr option \<times> bool"
    using that eatBlock_fwd [of r1] by (cases "eatBlock r1") (auto split: sum.splits)
  have u32: "bytes r' = bytes r1 \<and> pos r1 \<le> pos r'"
    if "(case eatU32 r1 of (Inl err, r2) \<Rightarrow> (Inl err, r2) | (Inr b, r2) \<Rightarrow> (Inr (f b), r2)) = (Inr x, r')"
    for f :: "32 word \<Rightarrow> instr option \<times> bool"
    using that eatU32_fwd [of r1] by (cases "eatU32 r1") (auto split: sum.splits)
  have i32: "bytes r' = bytes r1 \<and> pos r1 \<le> pos r'"
    if "(case eatI32 r1 of (Inl err, r2) \<Rightarrow> (Inl err, r2) | (Inr b, r2) \<Rightarrow> (Inr (f b), r2)) = (Inr x, r')"
    for f :: "32 word \<Rightarrow> instr option \<times> bool"
    using that eatI32_fwd [of r1] by (cases "eatI32 r1") (auto split: sum.splits)
  have i64: "bytes r' = bytes r1 \<and> pos r1 \<le> pos r'"
    if "(case eatI64 r1 of (Inl err, r2) \<Rightarrow> (Inl err, r2) | (Inr b, r2) \<Rightarrow> (Inr (f b), r2)) = (Inr x, r')"
    for f :: "64 word \<Rightarrow> instr option \<times> bool"
    using that eatI64_fwd [of r1] by (cases "eatI64 r1") (auto split: sum.splits)
  have ma: "bytes r' = bytes r1 \<and> pos r1 \<le> pos r'"
    if "(case memoryArgs r1 of (Inl err, r2) \<Rightarrow> (Inl err, r2)
         | (Inr (align, offset), r2) \<Rightarrow> (Inr (f align offset), r2)) = (Inr x, r')"
    for f :: "32 word \<Rightarrow> 32 word \<Rightarrow> instr option \<times> bool"
    using that memoryArgs_fwd [of r1] by (cases "memoryArgs r1") (auto split: sum.splits)
  have fc: "bytes r' = bytes r1 \<and> pos r1 \<le> pos r'"
    if "(case eatU8 r1 of (Inl err, r2) \<Rightarrow> (Inl err, r2)
         | (Inr kind', r2) \<Rightarrow>
             if kind' = 10 then (Inr (Some opMemoryCopy, False), snd (eatU32 (snd (eatU32 r2))))
             else if kind' = 11 then (Inr (Some opMemoryFill, False), snd (eatU32 r2))
             else (Inl (Errorf ''unknown memory copy or fill kind: %d'' [ArgInt (uint kind')]), r2))
        = (Inr x, r')"
    using that eatU8_fwd [of r1]
    by (cases "eatU8 r1") (auto split: sum.splits if_splits simp: snd_eatU32_fwd)
  have "bytes r' = bytes r1 \<and> pos r1 \<le> pos r'"
    using assms unfolding parser_instr_def e prod.case sum.case
    by (simp split: if_splits option.splits add: blk u32 i32 i64 ma fc)
  with e1 show ?thesis by simp
qed

text \<open>\<open>parser.expr\<close>: instructions are appended until one comes with \<open>isEnd\<close>.\<close>

function expr_loop :: "leb128Reader \<Rightarrow> expr \<Rightarrow> (error + expr) \<times> leb128Reader" where
  "expr_loop r e =
     (case parser_instr r of
        (Inl err, r') \<Rightarrow> (Inl err, r')
      | (Inr (i, isEnd), r') \<Rightarrow>
          if isEnd then (Inr (e @ [i]), r') else expr_loop r' (e @ [i]))"
  by pat_completeness auto
termination
proof (relation "measure (\<lambda>(r, e). length (bytes r) - pos r)")
  show "wf (measure (\<lambda>(r, e). length (bytes r) - pos r))" by simp
next
  fix r :: leb128Reader and e :: expr and x r' xa i isEnd
  assume "(x, r') = parser_instr r" "x = Inr xa" "(i, isEnd) = xa" "\<not> isEnd"
  then have "parser_instr r = (Inr (i, isEnd), r')" by simp
  from parser_instr_fwd [OF this]
  show "((r', e @ [i]), (r, e)) \<in> measure (\<lambda>(r, e). length (bytes r) - pos r)"
    by (auto intro: diff_less_mono2)
qed

declare expr_loop.simps [simp del]

definition parser_expr :: "leb128Reader \<Rightarrow> (error + expr) \<times> leb128Reader" where
  "parser_expr r = expr_loop r []"

section \<open>types.go: the decoded module\<close>

record custom =
  custom_name :: string
  custom_data :: "byte list"

text \<open>\<open>table\<close> embeds \<open>tableType\<close> and \<open>mem\<close> embeds \<open>memType\<close>, which holds \<open>limits\<close>.\<close>

type_synonym table = tableType

type_synonym mem = limits

record global =
  global_type :: globalType
  initExpr :: expr

record elem =
  elem_tableIdx :: "32 word"
  elem_offset :: expr
  elem_init :: "32 word list"

record data' =
  data_memIdx :: "32 word"
  data_offset :: expr
  data_init :: "byte list"

record importDesc =
  importDesc_typeIdx :: "32 word"
  importDesc_table :: table
  importDesc_mem :: mem
  importDesc_global :: globalType

record import' =
  import_module :: string
  import_name :: string
  import_kind :: byte
  import_importDesc :: importDesc

definition exportImportKindFunc :: byte where "exportImportKindFunc = 0x00"
definition exportImportKindTable :: byte where "exportImportKindTable = 0x01"
definition exportImportKindMem :: byte where "exportImportKindMem = 0x02"
definition exportImportKindGlobal :: byte where "exportImportKindGlobal = 0x03"

record export =
  export_name :: string
  export_kind :: byte
  export_idx :: "32 word"

record module =
  module_custom :: custom
  module_types :: "funcType list"
  module_funcs :: "function' list"
  module_tables :: "table list"
  module_mems :: "mem list"
  module_globals :: "global list"
  module_elems :: "elem list"
  module_datas :: "data' list"
  module_start :: "32 word"
  module_imports :: "import' list"
  module_exports :: "export list"

definition zeroLimits :: limits where
  "zeroLimits = \<lparr>limits_Min = 0, limits_Max = 0\<rparr>"

definition zeroGlobalType :: globalType where
  "zeroGlobalType = \<lparr>valueType = 0, mut = 0\<rparr>"

definition zeroImportDesc :: importDesc where
  "zeroImportDesc = \<lparr>importDesc_typeIdx = 0,
     importDesc_table = \<lparr>tableType_limits = zeroLimits, tableType_elemType = 0\<rparr>,
     importDesc_mem = zeroLimits, importDesc_global = zeroGlobalType\<rparr>"

text \<open>The zero \<open>module{}\<close> that \<open>parse\<close> starts from.\<close>

definition zeroModule :: module where
  "zeroModule = \<lparr>module_custom = \<lparr>custom_name = [], custom_data = []\<rparr>, module_types = [],
     module_funcs = [], module_tables = [], module_mems = [], module_globals = [],
     module_elems = [], module_datas = [], module_start = 0, module_imports = [],
     module_exports = []\<rparr>"

section \<open>parser.go: sections\<close>

text \<open>
  A method of the parser reads from the reader and returns a value or an error. The
  sequencing \<open>x, err := p.f(); if err != nil { return ..., err }\<close> is \<open>bindP\<close>; a
  \<open>for i := uint32(0); i < count; i++\<close> loop that fills a slice element by element is
  \<open>repeatP\<close>. (A count too large for \<open>make\<close> to allocate is not modelled.)
\<close>

type_synonym 'a parser = "leb128Reader \<Rightarrow> (error + 'a) \<times> leb128Reader"

definition bindP :: "'a parser \<Rightarrow> ('a \<Rightarrow> 'b parser) \<Rightarrow> 'b parser" where
  "bindP p f r = (case p r of (Inl err, r') \<Rightarrow> (Inl err, r') | (Inr x, r') \<Rightarrow> f x r')"

definition retP :: "'a \<Rightarrow> 'a parser" where
  "retP x r = (Inr x, r)"

definition failP :: "error \<Rightarrow> 'a parser" where
  "failP e r = (Inl e, r)"

fun repeatP :: "nat \<Rightarrow> 'a parser \<Rightarrow> 'a list parser" where
  "repeatP 0 p = retP []"
| "repeatP (Suc n) p = bindP p (\<lambda>x. bindP (repeatP n p) (\<lambda>xs. retP (x # xs)))"

definition errInvalidWASMBinary :: error where
  "errInvalidWASMBinary = New ''invalid wasm binary magic''"

definition WASM_MAGIC :: "32 word" where
  "WASM_MAGIC = 0x6d736100"

definition header :: "(32 word \<times> 32 word) parser" where
  "header =
     bindP (\<lambda>r. eatBytes r 4) (\<lambda>magicBytes.
     bindP (\<lambda>r. eatBytes r 4) (\<lambda>versionBytes.
     retP (le_word magicBytes, le_word versionBytes)))"

definition sectionHeader :: "(byte \<times> 32 word) parser" where
  "sectionHeader = bindP eatU8 (\<lambda>sid. bindP eatU32 (\<lambda>len. retP (sid, len)))"

definition name :: "string parser" where
  "name = bindP eatU32 (\<lambda>len. (\<lambda>r. eatString r len))"

text \<open>\<open>customSection\<close>: the payload length is \<open>length - uint32(len(c.name) + 4)\<close>, in \<open>uint32\<close>.\<close>

definition customSection :: "32 word \<Rightarrow> custom parser" where
  "customSection len =
     bindP name (\<lambda>nm.
     bindP (\<lambda>r. eatBytes r (len - of_nat (length nm + 4))) (\<lambda>d.
     retP \<lparr>custom_name = nm, custom_data = d\<rparr>))"

definition funcTypeP :: "funcType parser" where
  "funcTypeP =
     bindP eatU8 (\<lambda>ft.
       if 0x60 \<noteq> ft then failP (Errorf ''invalid func type %x'' [ArgInt (uint ft)])
       else
         bindP eatU32 (\<lambda>paramsCount.
         bindP (repeatP (unat paramsCount) eatU8) (\<lambda>ps.
         bindP eatU32 (\<lambda>resultsCount.
         bindP (repeatP (unat resultsCount) eatU8) (\<lambda>rs.
         retP \<lparr>params = ps, results = rs\<rparr>)))))"

definition typeSection :: "funcType list parser" where
  "typeSection = bindP eatU32 (\<lambda>count. repeatP (unat count) funcTypeP)"

definition funcSection :: "function' list parser" where
  "funcSection =
     bindP eatU32 (\<lambda>count.
       repeatP (unat count)
         (bindP eatU32 (\<lambda>idx. retP \<lparr>typeIdx = idx, function_locals = [], body = []\<rparr>)))"

text \<open>\<open>limits\<close>: a flag, the minimum and, unless the flag is 0, the maximum; \<open>-1\<close> stands for none.\<close>

definition limitsP :: "limits parser" where
  "limitsP =
     bindP eatU32 (\<lambda>flag.
     bindP eatU32 (\<lambda>mn.
       if flag = 0 then retP \<lparr>limits_Min = mn, limits_Max = - 1\<rparr>
       else bindP eatU32 (\<lambda>mx. retP \<lparr>limits_Min = mn, limits_Max = mx\<rparr>)))"

definition tableP :: "table parser" where
  "tableP =
     bindP eatU8 (\<lambda>elemType.
     bindP limitsP (\<lambda>l.
     retP \<lparr>tableType_limits = l, tableType_elemType = elemType\<rparr>))"

definition tableSection :: "table list parser" where
  "tableSection = bindP eatU32 (\<lambda>count. repeatP (unat count) tableP)"

definition memoryP :: "mem parser" where
  "memoryP = limitsP"

definition memorySection :: "mem list parser" where
  "memorySection = bindP eatU32 (\<lambda>count. repeatP (unat count) memoryP)"

definition globalTypeP :: "globalType parser" where
  "globalTypeP = bindP eatU8 (\<lambda>vt. bindP eatU8 (\<lambda>m. retP \<lparr>valueType = vt, mut = m\<rparr>))"

definition globalSection :: "global list parser" where
  "globalSection =
     bindP eatU32 (\<lambda>count.
       repeatP (unat count)
         (bindP globalTypeP (\<lambda>t.
          bindP parser_expr (\<lambda>e.
          retP \<lparr>global_type = t, initExpr = e\<rparr>))))"

definition elemSection :: "elem list parser" where
  "elemSection =
     bindP eatU32 (\<lambda>count.
       repeatP (unat count)
         (bindP eatU32 (\<lambda>tableIdx.
          bindP parser_expr (\<lambda>off.
          bindP eatU32 (\<lambda>funcIdxCount.
          bindP (repeatP (unat funcIdxCount) eatU32) (\<lambda>init.
          retP \<lparr>elem_tableIdx = tableIdx, elem_offset = off, elem_init = init\<rparr>))))))"

definition dataSection :: "data' list parser" where
  "dataSection =
     bindP eatU32 (\<lambda>count.
       repeatP (unat count)
         (bindP eatU32 (\<lambda>memIdx.
          bindP parser_expr (\<lambda>off.
          bindP eatU32 (\<lambda>initCount.
          bindP (\<lambda>r. eatBytes r initCount) (\<lambda>init.
          retP \<lparr>data_memIdx = memIdx, data_offset = off, data_init = init\<rparr>))))))"

text \<open>
  \<open>importSection\<close>: the switch on the kind has no default; an unknown kind reads nothing.
  The kind is read into a local variable only: the field \<open>kind\<close> of the import keeps its
  zero value.
\<close>

definition importDescP :: "byte \<Rightarrow> importDesc parser" where
  "importDescP k =
     (if k = exportImportKindFunc then
        bindP eatU32 (\<lambda>t. retP (zeroImportDesc\<lparr>importDesc_typeIdx := t\<rparr>))
      else if k = exportImportKindTable then
        bindP tableP (\<lambda>t. retP (zeroImportDesc\<lparr>importDesc_table := t\<rparr>))
      else if k = exportImportKindMem then
        bindP memoryP (\<lambda>t. retP (zeroImportDesc\<lparr>importDesc_mem := t\<rparr>))
      else if k = exportImportKindGlobal then
        bindP globalTypeP (\<lambda>t. retP (zeroImportDesc\<lparr>importDesc_global := t\<rparr>))
      else retP zeroImportDesc)"

definition importSection :: "import' list parser" where
  "importSection =
     bindP eatU32 (\<lambda>count.
       repeatP (unat count)
         (bindP name (\<lambda>md.
          bindP name (\<lambda>nm.
          bindP eatU8 (\<lambda>k.
          bindP (importDescP k) (\<lambda>d.
          retP \<lparr>import_module = md, import_name = nm, import_kind = 0, import_importDesc = d\<rparr>))))))"

definition exportSection :: "export list parser" where
  "exportSection =
     bindP eatU32 (\<lambda>count.
       repeatP (unat count)
         (bindP name (\<lambda>nm.
          bindP eatU8 (\<lambda>k.
          bindP eatU32 (\<lambda>idx.
          retP \<lparr>export_name = nm, export_kind = k, export_idx = idx\<rparr>)))))"

definition startSection :: "32 word parser" where
  "startSection = eatU32"

text \<open>
  \<open>codeSection\<close> fills the functions of the function section in place. Three of its
  error returns are \<open>return nil\<close>: when the count of local groups, a group's count or a
  group's type cannot be read, the section ends without an error and the functions keep
  what was written so far. \<open>localGroups n\<close> reads \<open>n\<close> groups into a slice of \<open>n\<close> zero
  entries; its flag is \<open>False\<close> when it stopped early.
\<close>

definition zeroLocals :: locals where
  "zeroLocals = \<lparr>locals_count = 0, locals_valType = 0\<rparr>"

fun localGroups :: "nat \<Rightarrow> leb128Reader \<Rightarrow> (locals list \<times> bool) \<times> leb128Reader" where
  "localGroups 0 r = (([], True), r)"
| "localGroups (Suc n) r =
     (case eatU32 r of
        (Inl err, r1) \<Rightarrow> ((replicate (Suc n) zeroLocals, False), r1)
      | (Inr typeCount, r1) \<Rightarrow>
          (case eatU8 r1 of
             (Inl err, r2) \<Rightarrow>
               ((\<lparr>locals_count = typeCount, locals_valType = 0\<rparr> # replicate n zeroLocals, False), r2)
           | (Inr vt, r2) \<Rightarrow>
               (case localGroups n r2 of
                  ((ls, ok), r3) \<Rightarrow> ((\<lparr>locals_count = typeCount, locals_valType = vt\<rparr> # ls, ok), r3))))"

text \<open>\<open>codeBodies i n fs\<close>: the loop of \<open>codeSection\<close> at index \<open>i\<close> with \<open>n\<close> functions to go.\<close>

fun codeBodies :: "nat \<Rightarrow> nat \<Rightarrow> function' list \<Rightarrow> function' list parser" where
  "codeBodies i 0 fs r = (Inr fs, r)"
| "codeBodies i (Suc n) fs r =
     (case eatU32 r of
        (Inl err, r1) \<Rightarrow> (Inl err, r1)
      | (Inr sz, r1) \<Rightarrow>
          (case eatU32 r1 of
             (Inl err, r2) \<Rightarrow> (Inr fs, r2)
           | (Inr localsCount, r2) \<Rightarrow>
               (case localGroups (unat localsCount) r2 of
                  ((ls, False), r3) \<Rightarrow> (Inr (fs[i := (fs ! i)\<lparr>function_locals := ls\<rparr>]), r3)
                | ((ls, True), r3) \<Rightarrow>
                    (case parser_expr r3 of
                       (Inl err, r4) \<Rightarrow> (Inl err, r4)
                     | (Inr b, r4) \<Rightarrow>
                         codeBodies (i + 1) n (fs[i := (fs ! i)\<lparr>function_locals := ls, body := b\<rparr>]) r4))))"

definition codeSection :: "function' list \<Rightarrow> function' list parser" where
  "codeSection fs =
     bindP eatU32 (\<lambda>count.
       if count \<noteq> of_nat (length fs)
       then failP (Errorf ''function count mismatch: codeLen(%d) != funcLen(%d)''
                     [ArgInt (uint count), ArgInt (int (length fs))])
       else codeBodies 0 (unat count) fs)"

text \<open>
  The switch of \<open>parse\<close> over the section id. It has no default: an id above 11 reads
  nothing and is no error.
\<close>

definition section' :: "byte \<Rightarrow> 32 word \<Rightarrow> module \<Rightarrow> module parser" where
  "section' sid len m =
     (if sid = 0x00 then bindP (customSection len) (\<lambda>x. retP (m\<lparr>module_custom := x\<rparr>))
      else if sid = 0x01 then bindP typeSection (\<lambda>x. retP (m\<lparr>module_types := x\<rparr>))
      else if sid = 0x02 then bindP importSection (\<lambda>x. retP (m\<lparr>module_imports := x\<rparr>))
      else if sid = 0x03 then bindP funcSection (\<lambda>x. retP (m\<lparr>module_funcs := x\<rparr>))
      else if sid = 0x04 then bindP tableSection (\<lambda>x. retP (m\<lparr>module_tables := x\<rparr>))
      else if sid = 0x05 then bindP memorySection (\<lambda>x. retP (m\<lparr>module_mems := x\<rparr>))
      else if sid = 0x06 then bindP globalSection (\<lambda>x. retP (m\<lparr>module_globals := x\<rparr>))
      else if sid = 0x07 then bindP exportSection (\<lambda>x. retP (m\<lparr>module_exports := x\<rparr>))
      else if sid = 0x08 then bindP startSection (\<lambda>x. retP (m\<lparr>module_start := x\<rparr>))
      else if sid = 0x09 then bindP elemSection (\<lambda>x. retP (m\<lparr>module_elems := x\<rparr>))
      else if sid = 0x0a then bindP (codeSection (module_funcs m)) (\<lambda>x. retP (m\<lparr>module_funcs := x\<rparr>))
      else if sid = 0x0b then bindP dataSection (\<lambda>x. retP (m\<lparr>module_datas := x\<rparr>))
      else retP m)"

subsection \<open>Every parser moves the reader forward\<close>

definition fwd :: "'a parser \<Rightarrow> bool" where
  "fwd p = (\<forall>r x r'. p r = (x, r') \<longrightarrow> bytes r' = bytes r \<and> pos r \<le> pos r')"

lemma fwdI: "(\<And>r x r'. p r = (x, r') \<Longrightarrow> bytes r' = bytes r \<and> pos r \<le> pos r') \<Longrightarrow> fwd p"
  by (simp add: fwd_def)

lemma fwdD: "fwd p \<Longrightarrow> p r = (x, r') \<Longrightarrow> bytes r' = bytes r \<and> pos r \<le> pos r'"
  by (simp add: fwd_def)

lemma fwd_retP [simp]: "fwd (retP x)"
  by (simp add: fwd_def retP_def)

lemma fwd_failP [simp]: "fwd (failP e)"
  by (simp add: fwd_def failP_def)

lemma fwd_bindP [intro!]:
  assumes "fwd p" and "\<And>x. fwd (f x)"
  shows "fwd (bindP p f)"
proof (rule fwdI)
  fix r x r'
  assume a: "bindP p f r = (x, r')"
  obtain y r1 where p: "p r = (y, r1)" by (cases "p r")
  note p1 = fwdD [OF assms(1) p]
  show "bytes r' = bytes r \<and> pos r \<le> pos r'"
  proof (cases y)
    case (Inl err)
    with a p p1 show ?thesis by (simp add: bindP_def)
  next
    case (Inr v)
    with a p have "f v r1 = (x, r')" by (simp add: bindP_def)
    from fwdD [OF assms(2) this] p1 show ?thesis by simp
  qed
qed

lemma fwd_repeatP [intro!]: "fwd p \<Longrightarrow> fwd (repeatP n p)"
  by (induction n) auto

lemma fwd_if [intro!]: "fwd p \<Longrightarrow> fwd q \<Longrightarrow> fwd (if c then p else q)"
  by simp

lemma fwd_eatU8 [simp]: "fwd eatU8"
  by (rule fwdI) (rule eatU8_fwd)

lemma fwd_eatU32 [simp]: "fwd eatU32"
  by (rule fwdI) (rule eatU32_fwd)

lemma fwd_eatBytes [simp]: "fwd (\<lambda>r. eatBytes r n)"
  by (rule fwdI) (auto simp: eatBytes_def Let_def split: if_splits)

lemma fwd_eatString [simp]: "fwd (\<lambda>r. eatString r n)"
  by (rule fwdI) (auto simp: eatString_def eatBytes_def Let_def split: if_splits)

lemma parser_instr_fwd_any:
  assumes "parser_instr r = (y, r')"
  shows "bytes r' = bytes r \<and> pos r \<le> pos r'"
proof -
  obtain o1 r1 where e: "eatU8 r = (o1, r1)" by (cases "eatU8 r")
  note e1 = eatU8_fwd [OF e]
  show ?thesis
  proof (cases o1)
    case (Inl err)
    with assms e e1 show ?thesis by (simp add: parser_instr_def)
  next
    case (Inr op)
    have blk: "bytes r' = bytes r1 \<and> pos r1 \<le> pos r'"
      if "(case eatBlock r1 of (Inl err, r2) \<Rightarrow> (Inl err, r2) | (Inr b, r2) \<Rightarrow> (Inr (f b), r2)) = (y, r')"
      for f :: "block \<Rightarrow> instr option \<times> bool"
      using that eatBlock_fwd [of r1] by (cases "eatBlock r1") (auto split: sum.splits)
    have u32: "bytes r' = bytes r1 \<and> pos r1 \<le> pos r'"
      if "(case eatU32 r1 of (Inl err, r2) \<Rightarrow> (Inl err, r2) | (Inr b, r2) \<Rightarrow> (Inr (f b), r2)) = (y, r')"
      for f :: "32 word \<Rightarrow> instr option \<times> bool"
      using that eatU32_fwd [of r1] by (cases "eatU32 r1") (auto split: sum.splits)
    have i32: "bytes r' = bytes r1 \<and> pos r1 \<le> pos r'"
      if "(case eatI32 r1 of (Inl err, r2) \<Rightarrow> (Inl err, r2) | (Inr b, r2) \<Rightarrow> (Inr (f b), r2)) = (y, r')"
      for f :: "32 word \<Rightarrow> instr option \<times> bool"
      using that eatI32_fwd [of r1] by (cases "eatI32 r1") (auto split: sum.splits)
    have i64: "bytes r' = bytes r1 \<and> pos r1 \<le> pos r'"
      if "(case eatI64 r1 of (Inl err, r2) \<Rightarrow> (Inl err, r2) | (Inr b, r2) \<Rightarrow> (Inr (f b), r2)) = (y, r')"
      for f :: "64 word \<Rightarrow> instr option \<times> bool"
      using that eatI64_fwd [of r1] by (cases "eatI64 r1") (auto split: sum.splits)
    have ma: "bytes r' = bytes r1 \<and> pos r1 \<le> pos r'"
      if "(case memoryArgs r1 of (Inl err, r2) \<Rightarrow> (Inl err, r2)
           | (Inr (align, offset), r2) \<Rightarrow> (Inr (f align offset), r2)) = (y, r')"
      for f :: "32 word \<Rightarrow> 32 word \<Rightarrow> instr option \<times> bool"
      using that memoryArgs_fwd [of r1] by (cases "memoryArgs r1") (auto split: sum.splits)
    have fc: "bytes r' = bytes r1 \<and> pos r1 \<le> pos r'"
      if "(case eatU8 r1 of (Inl err, r2) \<Rightarrow> (Inl err, r2)
           | (Inr kind', r2) \<Rightarrow>
               if kind' = 10 then (Inr (Some opMemoryCopy, False), snd (eatU32 (snd (eatU32 r2))))
               else if kind' = 11 then (Inr (Some opMemoryFill, False), snd (eatU32 r2))
               else (Inl (Errorf ''unknown memory copy or fill kind: %d'' [ArgInt (uint kind')]), r2))
          = (y, r')"
      using that eatU8_fwd [of r1]
      by (cases "eatU8 r1") (auto split: sum.splits if_splits simp: snd_eatU32_fwd)
    have "bytes r' = bytes r1 \<and> pos r1 \<le> pos r'"
      using assms unfolding parser_instr_def e Inr prod.case sum.case
      by (simp split: if_splits option.splits add: blk u32 i32 i64 ma fc)
    with e1 show ?thesis by simp
  qed
qed

lemma fwd_parser_expr [simp]: "fwd parser_expr"
proof -
  have "expr_loop r e = (x, r') \<Longrightarrow> bytes r' = bytes r \<and> pos r \<le> pos r'" for r e x r'
  proof (induction r e rule: expr_loop.induct)
    case (1 r e)
    obtain y r1 where p: "parser_instr r = (y, r1)" by (cases "parser_instr r")
    show ?case
    proof (cases y)
      case (Inl err)
      with "1.prems" p have "r' = r1"
        by (subst (asm) expr_loop.simps) simp
      with parser_instr_fwd_any [OF p] show ?thesis by simp
    next
      case (Inr v)
      obtain i isEnd where v: "v = (i, isEnd)" by (cases v)
      note f = parser_instr_fwd [OF p [unfolded Inr v]]
      show ?thesis
      proof (cases isEnd)
        case True
        with "1.prems" p Inr v f show ?thesis
          by (subst (asm) expr_loop.simps) auto
      next
        case False
        with "1.prems" p Inr v have "expr_loop r1 (e @ [i]) = (x, r')"
          by (subst (asm) expr_loop.simps) simp
        from "1.IH" [OF p [symmetric] Inr v [symmetric] False this] f
        show ?thesis by simp
      qed
    qed
  qed
  then show ?thesis
    by (auto intro!: fwdI simp: parser_expr_def)
qed

lemma fwd_name [simp]: "fwd name"
  unfolding name_def by auto

lemma fwd_limitsP [simp]: "fwd limitsP"
  unfolding limitsP_def by auto

lemma fwd_tableP [simp]: "fwd tableP"
  unfolding tableP_def by auto

lemma fwd_globalTypeP [simp]: "fwd globalTypeP"
  unfolding globalTypeP_def by auto

lemma fwd_localGroups: "localGroups n r = (x, r') \<Longrightarrow> bytes r' = bytes r \<and> pos r \<le> pos r'"
proof (induction n arbitrary: r x r')
  case 0
  then show ?case by simp
next
  case (Suc n)
  obtain y r1 where a: "eatU32 r = (y, r1)" by (cases "eatU32 r")
  note a1 = eatU32_fwd [OF a]
  show ?case
  proof (cases y)
    case (Inl err)
    with Suc.prems a a1 show ?thesis by auto
  next
    case (Inr typeCount)
    obtain z r2 where b: "eatU8 r1 = (z, r2)" by (cases "eatU8 r1")
    note b1 = eatU8_fwd [OF b]
    show ?thesis
    proof (cases z)
      case (Inl err)
      with Suc.prems a Inr b a1 b1 show ?thesis by auto
    next
      case vt: (Inr vt)
      obtain w r3 where c: "localGroups n r2 = (w, r3)" by (cases "localGroups n r2")
      from Suc.IH [OF c] Suc.prems a Inr b vt c a1 b1 show ?thesis
        by (auto split: prod.splits)
    qed
  qed
qed

lemma fwd_codeBodies: "fwd (codeBodies i n fs)"
proof (induction n arbitrary: i fs)
  case 0
  show ?case by (rule fwdI) simp
next
  case (Suc n)
  show ?case
  proof (rule fwdI)
    fix r x r'
    assume a: "codeBodies i (Suc n) fs r = (x, r')"
    obtain y1 r1 where e1: "eatU32 r = (y1, r1)" by (cases "eatU32 r")
    note f1 = eatU32_fwd [OF e1]
    show "bytes r' = bytes r \<and> pos r \<le> pos r'"
    proof (cases y1)
      case (Inl err)
      with a e1 f1 show ?thesis by simp
    next
      case (Inr sz)
      obtain y2 r2 where e2: "eatU32 r1 = (y2, r2)" by (cases "eatU32 r1")
      note f2 = eatU32_fwd [OF e2]
      show ?thesis
      proof (cases y2)
        case (Inl err)
        with a e1 Inr e2 f1 f2 show ?thesis by simp
      next
        case lc: (Inr localsCount)
        obtain ls ok r3 where e3: "localGroups (unat localsCount) r2 = ((ls, ok), r3)"
          by (cases "localGroups (unat localsCount) r2") auto
        note f3 = fwd_localGroups [OF e3]
        show ?thesis
        proof (cases ok)
          case False
          with a e1 Inr e2 lc e3 f1 f2 f3 show ?thesis by simp
        next
          case True
          obtain y4 r4 where e4: "parser_expr r3 = (y4, r4)" by (cases "parser_expr r3")
          note f4 = fwdD [OF fwd_parser_expr e4]
          show ?thesis
          proof (cases y4)
            case (Inl err)
            with a e1 Inr e2 lc e3 True e4 f1 f2 f3 f4 show ?thesis by simp
          next
            case b: (Inr b)
            with a e1 Inr e2 lc e3 True e4
            have "codeBodies (i + 1) n (fs[i := (fs ! i)\<lparr>function_locals := ls, body := b\<rparr>]) r4 = (x, r')"
              by simp
            from fwdD [OF Suc.IH this] f1 f2 f3 f4 show ?thesis by simp
          qed
        qed
      qed
    qed
  qed
qed

lemma fwd_section': "fwd (section' sid len m)"
  unfolding section'_def customSection_def typeSection_def importSection_def funcSection_def
    tableSection_def memorySection_def globalSection_def exportSection_def startSection_def
    elemSection_def codeSection_def dataSection_def funcTypeP_def importDescP_def memoryP_def
  by (auto intro!: fwd_codeBodies)

lemma sectionHeader_Inr:
  assumes "sectionHeader r = (Inr x, r')"
  shows "bytes r' = bytes r \<and> pos r < pos r' \<and> pos r < length (bytes r)"
proof -
  obtain sid r1 where e: "eatU8 r = (Inr sid, r1)"
    using assms by (cases "eatU8 r") (auto simp: sectionHeader_def bindP_def split: sum.splits)
  from assms e have "bindP eatU32 (\<lambda>len. retP (sid, len)) r1 = (Inr x, r')"
    by (simp add: sectionHeader_def bindP_def)
  then have "bytes r' = bytes r1 \<and> pos r1 \<le> pos r'"
    by (intro fwdD [of "bindP eatU32 (\<lambda>len. retP (sid, len))"]) auto
  with eatU8_Inr [OF e] show ?thesis by simp
qed

subsection \<open>\<open>parse\<close>\<close>

text \<open>
  The loop of \<open>parse\<close>: a section header that cannot be read ends the loop (the only
  error the reader gives is \<open>io.EOF\<close>); an error of a section ends the parse.
\<close>

function sections :: "module \<Rightarrow> module parser" where
  "sections m r =
     (case sectionHeader r of
        (Inl err, r1) \<Rightarrow> if err = EOF then (Inr m, r1) else (Inl err, r1)
      | (Inr (sid, len), r1) \<Rightarrow>
          (case section' sid len m r1 of
             (Inl err, r2) \<Rightarrow> (Inl err, r2)
           | (Inr m', r2) \<Rightarrow> sections m' r2))"
  by pat_completeness auto
termination
proof (relation "measure (\<lambda>(m, r). length (bytes r) - pos r)")
  show "wf (measure (\<lambda>(m, r). length (bytes r) - pos r))" by simp
next
  fix m :: module and r :: leb128Reader and x r1 xa sid len xb r2 m'
  assume "(x, r1) = sectionHeader r" "x = Inr xa" "(sid, len) = xa"
    "(xb, r2) = section' sid len m r1" "xb = Inr m'"
  then have h: "sectionHeader r = (Inr (sid, len), r1)" and s: "section' sid len m r1 = (Inr m', r2)"
    by simp_all
  from sectionHeader_Inr [OF h] fwdD [OF fwd_section' s]
  show "((m', r2), (m, r)) \<in> measure (\<lambda>(m, r). length (bytes r) - pos r)"
    by (auto intro: diff_less_mono2)
qed

declare sections.simps [simp del]

definition parse :: "module parser" where
  "parse =
     bindP header (\<lambda>(magic, version).
       if magic \<noteq> WASM_MAGIC \<or> version \<noteq> 1 then failP errInvalidWASMBinary
       else sections zeroModule)"


section \<open>interpreter.go: instantiation\<close>

text \<open>
  \<open>newStoreAndModuleInst\<close> builds the store \<open>s\<close> and the module instance \<open>modInst\<close>
  while the closure \<open>eval\<close> runs initialiser expressions on the interpreter's operand
  stack, against the store and the module instance as built so far. The three are
  threaded through as \<open>ist\<close>.
\<close>

type_synonym ist = "store \<times> moduleInst \<times> Value list"

definition internalFunc :: byte where "internalFunc = 0x01"

definition externalFunc :: byte where "externalFunc = 0x02"

definition zeroStore :: store where
  "zeroStore = \<lparr>funcs = [], tables = [], mems = [], globals = []\<rparr>"

definition zeroModuleInst :: moduleInst where
  "zeroModuleInst = \<lparr>signatures = [], funcAddrs = [], tableAddrs = [], memAddrs = [],
     globalAddrs = [], elemAddrs = [], dataAddrs = [], exports = []\<rparr>"

text \<open>
  \<open>eval\<close>: every instruction of the expression is executed once, in order, on a mock
  frame without instructions; the program counter plays no part. A nil instruction is a
  call through a nil interface.
\<close>

fun eval_loop :: "fops \<Rightarrow> expr \<Rightarrow> machine \<Rightarrow> (machine \<times> error option) go" where
  "eval_loop fl [] m = Ret (m, None)"
| "eval_loop fl (i # rest) m =
     (case i of
        None \<Rightarrow> Panic ''nil pointer dereference''
      | Some ins \<Rightarrow>
          (case exec fl ins m of
             Panic p \<Rightarrow> Panic p
           | Ret (m', Some err) \<Rightarrow> Ret (m', Some err)
           | Ret (m', None) \<Rightarrow> eval_loop fl rest m'))"

definition eval :: "fops \<Rightarrow> expr \<Rightarrow> ist \<Rightarrow> ((error + Value) \<times> ist) go" where
  "eval fl e st =
     (case st of (s, modInst, vs) \<Rightarrow>
        (case eval_loop fl e
                \<lparr>frameStack = stack_Push [] \<lparr>pc = 0, sp = stack_Len vs, insts = [], labels = [],
                                              frame_mod = Some modInst\<rparr>,
                 valueStack = vs, store = s\<rparr> of
           Panic p \<Rightarrow> Panic p
         | Ret (m', Some err) \<Rightarrow> Ret (Inl err, (store m', modInst, valueStack m'))
         | Ret (m', None) \<Rightarrow>
             (let ((v, ok), vs') = stack_Pop zeroValue (valueStack m')
              in Ret (Inr v, (store m', modInst, vs')))))"

text \<open>The loop over \<open>m.globals\<close>, at index \<open>i\<close>.\<close>

fun instGlobals :: "fops \<Rightarrow> nat \<Rightarrow> global list \<Rightarrow> ist \<Rightarrow> (error option \<times> ist) go" where
  "instGlobals fl i [] st = Ret (None, st)"
| "instGlobals fl i (g # gs) st =
     (case eval fl (initExpr g) st of
        Panic p \<Rightarrow> Panic p
      | Ret (Inl err, st') \<Rightarrow> Ret (Some err, st')
      | Ret (Inr gv, (s, modInst, vs)) \<Rightarrow>
          instGlobals fl (i + 1) gs
            (s\<lparr>globals := globals s @ [\<lparr>globalInst_globalType = global_type g, globalInst_value = gv\<rparr>]\<rparr>,
             modInst\<lparr>globalAddrs := globalAddrs modInst @ [of_nat i]\<rparr>, vs))"

text \<open>The loop over \<open>m.funcs\<close>: \<open>m.types[f.typeIdx]\<close> is an index expression.\<close>

fun instFuncs :: "funcType list \<Rightarrow> nat \<Rightarrow> function' list \<Rightarrow> ist \<Rightarrow> ist go" where
  "instFuncs types i [] st = Ret st"
| "instFuncs types i (f # fs) (s, modInst, vs) =
     (case index types (uint (typeIdx f)) of
        Panic p \<Rightarrow> Panic p
      | Ret t \<Rightarrow>
          instFuncs types (i + 1) fs
            (s\<lparr>funcs := funcs s @ [\<lparr>funcInst_funcType = t, funcInst_kind = internalFunc, funcInst_code = f\<rparr>]\<rparr>,
             modInst\<lparr>funcAddrs := funcAddrs modInst @ [of_nat i]\<rparr>, vs))"

text \<open>The loop over \<open>m.mems\<close>: \<open>mem.limits.Min * uint32(PAGE_SIZE)\<close> is computed in \<open>uint32\<close>.\<close>

fun instMems :: "nat \<Rightarrow> mem list \<Rightarrow> ist \<Rightarrow> ist" where
  "instMems i [] st = st"
| "instMems i (mem # ms) (s, modInst, vs) =
     (let min' = limits_Min mem * (word_of_int PAGE_SIZE :: 32 word)
      in instMems (i + 1) ms
           (s\<lparr>mems := mems s @ [\<lparr>memType = mem, mem_data = replicate (unat min') 0\<rparr>]\<rparr>,
            modInst\<lparr>memAddrs := memAddrs modInst @ [of_nat i]\<rparr>, vs))"

text \<open>\<open>for i, funcIdx := range elem.init { elems[i+offset] = ref{...} }\<close>.\<close>

fun setRefs :: "ref list \<Rightarrow> int \<Rightarrow> nat \<Rightarrow> 32 word list \<Rightarrow> ref list go" where
  "setRefs elems offset i [] = Ret elems"
| "setRefs elems offset i (funcIdx # rest) =
     (let k = int i + offset
      in if 0 \<le> k \<and> k < int (length elems)
         then setRefs (elems[nat k := \<lparr>ref_addr = uint funcIdx, ref_kind = refFunc\<rparr>]) offset (i + 1) rest
         else Panic ''index out of range'')"

text \<open>
  The inner loop of the table loop, over all element segments of the module (whatever
  their table index). The offset is read from the value before the error is looked at.
\<close>

fun tableElems :: "fops \<Rightarrow> elem list \<Rightarrow> ref list \<Rightarrow> ist \<Rightarrow> ((error + ref list) \<times> ist) go" where
  "tableElems fl [] elems st = Ret (Inr elems, st)"
| "tableElems fl (el # els) elems st =
     (case eval fl (elem_offset el) st of
        Panic p \<Rightarrow> Panic p
      | Ret (Inl err, st') \<Rightarrow> Ret (Inl err, st')
      | Ret (Inr offsetVal, st') \<Rightarrow>
          (let offset = sint (Value_I32 offsetVal);
               n = offset + int (length (elem_init el));
               elems' = (if int (length elems) \<le> n
                         then elems @ replicate (nat n - length elems) zeroRef else elems)
           in case setRefs elems' offset 0 (elem_init el) of
                Panic p \<Rightarrow> Panic p
              | Ret elems'' \<Rightarrow> tableElems fl els elems'' st'))"

fun instTables :: "fops \<Rightarrow> elem list \<Rightarrow> nat \<Rightarrow> table list \<Rightarrow> ist \<Rightarrow> (error option \<times> ist) go" where
  "instTables fl els i [] st = Ret (None, st)"
| "instTables fl els i (tab # tabs) (s, modInst, vs) =
     (case tableElems fl els (replicate (unat (limits_Min (tableType_limits tab))) zeroRef)
             (s, modInst\<lparr>tableAddrs := tableAddrs modInst @ [of_nat i]\<rparr>, vs) of
        Panic p \<Rightarrow> Panic p
      | Ret (Inl err, st') \<Rightarrow> Ret (Some err, st')
      | Ret (Inr elems, (s', modInst', vs')) \<Rightarrow>
          instTables fl els (i + 1) tabs
            (s'\<lparr>tables := tables s' @
                   [\<lparr>tableInst_tableType = \<lparr>tableType_limits = tableType_limits tab,
                                              tableType_elemType = tableType_elemType tab\<rparr>,
                     tableInst_elems = elems\<rparr>]\<rparr>,
             modInst', vs'))"

text \<open>
  The loop over \<open>m.datas\<close>. \<open>mem\<close> is a copy of the memory instance whose \<open>data\<close> shares
  the backing array with the store's, so \<open>copy(mem.data[offset:], data.init)\<close> writes into
  the store. The slice expression panics on a negative offset.
\<close>

fun instDatas :: "fops \<Rightarrow> nat \<Rightarrow> data' list \<Rightarrow> ist \<Rightarrow> (error option \<times> ist) go" where
  "instDatas fl i [] st = Ret (None, st)"
| "instDatas fl i (d # ds) (s0, modInst0, vs0) =
     (case eval fl (data_offset d) (s0, modInst0\<lparr>dataAddrs := dataAddrs modInst0 @ [of_nat i]\<rparr>, vs0) of
        Panic p \<Rightarrow> Panic p
      | Ret (Inl err, st') \<Rightarrow> Ret (Some err, st')
      | Ret (Inr offsetVal, (s, modInst, vs)) \<Rightarrow>
          (let offset = sint (Value_I32 offsetVal)
           in case index (mems s) (uint (data_memIdx d)) of
                Panic p \<Rightarrow> Panic p
              | Ret mem \<Rightarrow>
                  if int (length (mem_data mem)) < offset + int (length (data_init d))
                  then Ret (Some (Errorf ''data is too large to fit in memory'' []), (s, modInst, vs))
                  else if offset < 0 then Panic ''slice bounds out of range''
                  else instDatas fl (i + 1) ds
                         (s\<lparr>mems := (mems s)[unat (data_memIdx d) :=
                               mem\<lparr>mem_data := take (nat offset) (mem_data mem) @ data_init d
                                     @ drop (nat offset + length (data_init d)) (mem_data mem)\<rparr>]\<rparr>,
                          modInst, vs)))"

definition instExports :: "export list \<Rightarrow> exportInst list" where
  "instExports es =
     map (\<lambda>e. \<lparr>exportInst_name = export_name e,
               exportInst_value = \<lparr>externalVal_kind = export_kind e, externalVal_idx = export_idx e\<rparr>\<rparr>) es"

definition newStoreAndModuleInst :: "fops \<Rightarrow> Value list \<Rightarrow> module \<Rightarrow> (error option \<times> ist) go" where
  "newStoreAndModuleInst fl vs0 m =
     (case instGlobals fl 0 (module_globals m) (zeroStore, zeroModuleInst, vs0) of
        Panic p \<Rightarrow> Panic p
      | Ret (Some err, st) \<Rightarrow> Ret (Some err, st)
      | Ret (None, st1) \<Rightarrow>
     (case instFuncs (module_types m) 0 (module_funcs m) st1 of
        Panic p \<Rightarrow> Panic p
      | Ret st2 \<Rightarrow>
     (case instMems 0 (module_mems m) st2 of (s3, modInst3, vs3) \<Rightarrow>
     (case instTables fl (module_elems m) 0 (module_tables m)
             (s3, modInst3\<lparr>elemAddrs := elemAddrs modInst3 @ map of_nat [0 ..< length (module_elems m)]\<rparr>, vs3) of
        Panic p \<Rightarrow> Panic p
      | Ret (Some err, st) \<Rightarrow> Ret (Some err, st)
      | Ret (None, st4) \<Rightarrow>
     (case instDatas fl 0 (module_datas m) st4 of
        Panic p \<Rightarrow> Panic p
      | Ret (Some err, st) \<Rightarrow> Ret (Some err, st)
      | Ret (None, (s5, modInst5, vs5)) \<Rightarrow>
          Ret (None, (s5, modInst5\<lparr>exports := exports modInst5 @ instExports (module_exports m),
                                   signatures := module_types m\<rparr>, vs5)))))))"

text \<open>The zero \<open>Interpreter{}\<close>.\<close>

definition zeroInterpreter :: Interpreter where
  "zeroInterpreter = \<lparr>machine = \<lparr>frameStack = [], valueStack = [], store = zeroStore\<rparr>,
     interp_mod = zeroModuleInst\<rparr>"

text \<open>
  \<open>NewInterpreter\<close> returns the interpreter together with the error. On an error of
  instantiation the interpreter keeps what \<open>eval\<close> left on its operand stack and has no
  store and no module instance.
\<close>

definition NewInterpreter :: "fops \<Rightarrow> byte list \<Rightarrow> (Interpreter \<times> error option) go" where
  "NewInterpreter fl bs =
     (case parse \<lparr>bytes = bs, pos = 0\<rparr> of
        (Inl err, r) \<Rightarrow> Ret (zeroInterpreter, Some err)
      | (Inr m, r) \<Rightarrow>
          (case newStoreAndModuleInst fl [] m of
             Panic p \<Rightarrow> Panic p
           | Ret (Some err, (s, modInst, vs)) \<Rightarrow>
               Ret (zeroInterpreter\<lparr>machine := (machine zeroInterpreter)\<lparr>valueStack := vs\<rparr>\<rparr>, Some err)
           | Ret (None, (s, modInst, vs)) \<Rightarrow>
               Ret (\<lparr>machine = \<lparr>frameStack = [], valueStack = vs, store = s\<rparr>, interp_mod = modInst\<rparr>, None)))"

text \<open>
  \<open>GetFunc\<close>: the first export with the name decides. The result is the function instance
  the returned closure runs; the closure itself is \<open>invoke\<close>.
\<close>

fun findExport :: "string \<Rightarrow> exportInst list \<Rightarrow> (error + int)" where
  "findExport fnName [] = Inr (- 1)"
| "findExport fnName (e # es) =
     (if exportInst_name e = fnName
      then (if externalVal_kind (exportInst_value e) \<noteq> exportImportKindFunc
            then Inl (Errorf ''%s not a func'' [ArgStr fnName])
            else Inr (uint (externalVal_idx (exportInst_value e))))
      else findExport fnName es)"

definition GetFunc :: "Interpreter \<Rightarrow> string \<Rightarrow> (error + funcInst) go" where
  "GetFunc i fnName =
     (case findExport fnName (exports (interp_mod i)) of
        Inl err \<Rightarrow> Ret (Inl err)
      | Inr fnIdx \<Rightarrow>
          if fnIdx < 0 then Ret (Inl (Errorf ''can't find %s func'' [ArgStr fnName]))
          else (case index (funcAddrs (interp_mod i)) fnIdx of
                  Panic p \<Rightarrow> Panic p
                | Ret fnAddr \<Rightarrow>
                    (case index (funcs (store (machine i))) (uint fnAddr) of
                       Panic p \<Rightarrow> Panic p
                     | Ret fn \<Rightarrow> Ret (Inr fn))))"


section \<open>Concrete inputs\<close>

definition emptyModuleInst :: moduleInst where
  "emptyModuleInst = \<lparr>signatures = [], funcAddrs = [], tableAddrs = [], memAddrs = [],
     globalAddrs = [], elemAddrs = [], dataAddrs = [], exports = []\<rparr>"

text \<open>
  The memory instance \<open>newStoreAndModuleInst\<close> builds for \<open>(memory 1)\<close>, one page of zero
  bytes without a maximum, and the one for \<open>(memory 1 2)\<close>.
\<close>

definition onePage :: memInst where
  "onePage = \<lparr>memType = \<lparr>limits_Min = 1, limits_Max = - 1\<rparr>, mem_data = replicate 65536 0\<rparr>"

definition onePageMax2 :: memInst where
  "onePageMax2 = \<lparr>memType = \<lparr>limits_Min = 1, limits_Max = 2\<rparr>, mem_data = replicate 65536 0\<rparr>"

text \<open>
  A machine in the middle of a call: one frame at \<open>pc\<close> 0 over the body \<open>is\<close>, the
  operand stack \<open>vs\<close> (top last), and a store with the one memory \<open>mem\<close>.
\<close>

definition memMachine :: "expr \<Rightarrow> Value list \<Rightarrow> memInst \<Rightarrow> machine" where
  "memMachine is vs mem =
     \<lparr>frameStack = [\<lparr>pc = 0, sp = 0, insts = is, labels = [],
                      frame_mod = Some (emptyModuleInst\<lparr>memAddrs := [0]\<rparr>)\<rparr>],
      valueStack = vs,
      store = \<lparr>funcs = [], tables = [], mems = [mem], globals = []\<rparr>\<rparr>"

text \<open>One frame at \<open>pc\<close> 0 over the body \<open>is\<close> with the label stack \<open>ls\<close> (top last).\<close>

definition ctlMachine :: "expr \<Rightarrow> label list \<Rightarrow> Value list \<Rightarrow> machine" where
  "ctlMachine is ls vs =
     \<lparr>frameStack = [\<lparr>pc = 0, sp = 0, insts = is, labels = ls, frame_mod = Some emptyModuleInst\<rparr>],
      valueStack = vs,
      store = \<lparr>funcs = [], tables = [], mems = [], globals = []\<rparr>\<rparr>"

definition outerBlock :: label where
  "outerBlock = \<lparr>kind = LabelKindBlock, startPc = 0, endPc = 5\<rparr>"

definition innerLoop :: label where
  "innerLoop = \<lparr>kind = LabelKindLoop, startPc = 1, endPc = 4\<rparr>"

text \<open>One frame, and a store with the one global \<open>g\<close>.\<close>

definition globalMachine :: "expr \<Rightarrow> Value list \<Rightarrow> globalInst \<Rightarrow> machine" where
  "globalMachine is vs g =
     \<lparr>frameStack = [\<lparr>pc = 0, sp = 0, insts = is, labels = [],
                      frame_mod = Some (emptyModuleInst\<lparr>globalAddrs := [0]\<rparr>)\<rparr>],
      valueStack = vs,
      store = \<lparr>funcs = [], tables = [], mems = [], globals = [g]\<rparr>\<rparr>"

text \<open>A global of value type \<open>I32\<close> with mutability \<open>m\<close> holding \<open>v\<close>.\<close>

definition i32Global :: "byte \<Rightarrow> 32 word \<Rightarrow> globalInst" where
  "i32Global m v = \<lparr>globalInst_globalType = \<lparr>valueType = I32, mut = m\<rparr>, globalInst_value = ValueFromI32 v\<rparr>"

text \<open>
  A function of the shape the test suite exports for every binary operator,
  \<open>(func (param i32 i32) (result i32) local.get 0 local.get 1 <op>)\<close>, as in cmd/wasmgo.go.
\<close>

definition binopFunc :: "binFn \<Rightarrow> funcInst" where
  "binopFunc f =
     \<lparr>funcInst_funcType = \<lparr>params = [0x7F, 0x7F], results = [0x7F]\<rparr>,
      funcInst_kind = 0x01,
      funcInst_code = \<lparr>typeIdx = 0, function_locals = [],
                       body = [Some (opLocalGet 0), Some (opLocalGet 1), Some (opBin f), Some opEnd]\<rparr>\<rparr>"

text \<open>
  A function instance without parameters or locals, with the result types \<open>res\<close> and
  the decoded body \<open>is\<close>.
\<close>

definition funcOf :: "type_ list \<Rightarrow> expr \<Rightarrow> funcInst" where
  "funcOf res is =
     \<lparr>funcInst_funcType = \<lparr>params = [], results = res\<rparr>, funcInst_kind = internalFunc,
      funcInst_code = \<lparr>typeIdx = 0, function_locals = [], body = is\<rparr>\<rparr>"

text \<open>
  The interpreter that \<open>NewInterpreter\<close> builds for a module with the globals \<open>gs\<close> whose
  one function \<open>fn\<close> is exported as \<open>f\<close>.
\<close>

definition interpreterOf :: "globalInst list \<Rightarrow> funcInst \<Rightarrow> Interpreter" where
  "interpreterOf gs fn =
     \<lparr>machine = \<lparr>frameStack = [], valueStack = [],
                  store = \<lparr>funcs = [fn], tables = [], mems = [], globals = gs\<rparr>\<rparr>,
      interp_mod = \<lparr>signatures = [funcInst_funcType fn], funcAddrs = [0], tableAddrs = [],
                    memAddrs = [], globalAddrs = map of_nat [0 ..< length gs], elemAddrs = [],
                    dataAddrs = [],
                    exports = [\<lparr>exportInst_name = ''f'',
                                exportInst_value = \<lparr>externalVal_kind = exportImportKindFunc,
                                                     externalVal_idx = 0\<rparr>\<rparr>]\<rparr>\<rparr>"

text \<open>
  The binary of \<open>(module (func (export "f") (result res) code))\<close>: the header, the type
  section with the one type \<open>[] \<rightarrow> res\<close>, the function section, the export section and
  the code section with one body without locals. \<open>code\<close> is the bytes of the body with
  its final \<open>end\<close>. The sizes are written in one byte each.
\<close>

definition funcModule :: "byte list \<Rightarrow> byte list \<Rightarrow> byte list" where
  "funcModule res code =
     [0x00, 0x61, 0x73, 0x6D, 0x01, 0x00, 0x00, 0x00,
      0x01, of_nat (length res + 4), 0x01, 0x60, 0x00, of_nat (length res)] @ res @
     [0x03, 0x02, 0x01, 0x00,
      0x07, 0x05, 0x01, 0x01, 0x66, 0x00, 0x00,
      0x0A, of_nat (length code + 3), 0x01, of_nat (length code + 1), 0x00] @ code"

text \<open>
  The binary of
  \<open>(module (global (mut i32) (i32.const 5))
     (func (export "f") (result i32) i32.const 7 global.set 0 global.get 0))\<close>:
  as above, with the global section between the function and the export section.
\<close>

definition globalModule :: "byte list" where
  "globalModule =
     [0x00, 0x61, 0x73, 0x6D, 0x01, 0x00, 0x00, 0x00,
      0x01, 0x05, 0x01, 0x60, 0x00, 0x01, 0x7F,
      0x03, 0x02, 0x01, 0x00,
      0x06, 0x06, 0x01, 0x7F, 0x01, 0x41, 0x05, 0x0B,
      0x07, 0x05, 0x01, 0x01, 0x66, 0x00, 0x00,
      0x0A, 0x0A, 0x01, 0x08, 0x00, 0x41, 0x07, 0x24, 0x00, 0x23, 0x00, 0x0B]"

text \<open>
  Float operations for modules that execute no float instruction: the parameter of the
  interpreter at a value.
\<close>

definition noFloats :: fops where
  "noFloats = \<lparr>f32_un = (\<lambda>f v. v), f64_un = (\<lambda>f v. v), f32_bin = (\<lambda>f a b. a),
     f64_bin = (\<lambda>f a b. a), f32_rel = (\<lambda>f a b. False), f64_rel = (\<lambda>f a b. False),
     f32_to_uint32 = (\<lambda>w. w), f64_to_uint64 = (\<lambda>w. w)\<rparr>"

text \<open>The opcodes whose case in \<open>parser.instr\<close> has an empty body.\<close>

definition stubOpcodes :: "byte list" where
  "stubOpcodes =
     [0x0C, 0x0D, 0x0E, 0x22, 0x23, 0x24, 0x10, 0x11, 0x43, 0x44, 0xA7,
      0xA8, 0xA9, 0xAA, 0xAB, 0xAC, 0xAD, 0xAE, 0xAF, 0xB0, 0xB1, 0xB2, 0xB3,
      0xB4, 0xB5, 0xB6, 0xB7, 0xB8, 0xB9, 0xBA, 0xBB, 0xBC, 0xBD, 0xBE, 0xBF]"

text \<open>Those of them without an immediate: \<open>i32.wrap_i64\<close> and the conversions.\<close>

definition convOpcodes :: "byte list" where
  "convOpcodes =
     [0xA7, 0xA8, 0xA9, 0xAA, 0xAB, 0xAC, 0xAD, 0xAE, 0xAF, 0xB0, 0xB1, 0xB2, 0xB3,
      0xB4, 0xB5, 0xB6, 0xB7, 0xB8, 0xB9, 0xBA, 0xBB, 0xBC, 0xBD, 0xBE, 0xBF]"


section \<open>Verification: helper facts\<close>

lemmas stack_defs = stack_Push_def stack_isEmpty_def stack_Len_def stack_Top_def stack_Pop_def
  stack_Get_def stack_Set_def stack_Peek_def index_def curFrame_def updFrame_def NextStep_def
  popValue_def pushValue_def

lemmas mem_defs = defaultMem_def defaultMemAddr_def DEFAULT_MEM_ADDR_IDX_def emptyModuleInst_def
  memMachine_def

subsection \<open>Little-endian payloads\<close>

lemma ucast_ucast_byte: "(ucast (ucast (x :: 'a::len word) :: byte) :: 'a word) = take_bit 8 x"
  by (rule bit_eqI) (auto simp add: bit_simps)

lemma take_bit_split8: "take_bit 8 x OR push_bit 8 (take_bit m (drop_bit 8 x)) = take_bit (8 + m) (x :: 'a::len word)"
  by (rule bit_eqI) (auto simp add: bit_simps)

lemma le_word_map:
  "(le_word (map (\<lambda>i. ucast (drop_bit (8 * i) w)) [k..<k + n]) :: 'a::len word)
     = take_bit (8 * n) (drop_bit (8 * k) w)"
proof (induction n arbitrary: k)
  case 0
  show ?case by simp
next
  case (Suc n)
  have u: "[k..<k + Suc n] = k # [Suc k..<Suc k + n]"
    by (simp add: upt_conv_Cons)
  have d: "drop_bit (8 * Suc k) w = drop_bit 8 (drop_bit (8 * k) w)"
    by (simp add: drop_bit_drop_bit)
  show ?case
    unfolding u list.map le_word.simps Suc.IH ucast_ucast_byte d take_bit_split8
    by simp
qed

lemma le_word_le_bytes: "(le_word (le_bytes n w) :: 'a::len word) = take_bit (8 * n) w"
  using le_word_map [of w 0 n] by (simp add: le_bytes_def)

lemma length_le_bytes [simp]: "length (le_bytes n w) = n"
  by (simp add: le_bytes_def)

lemma read_le_le_bytes: "LENGTH('a::len) \<le> 8 * n \<Longrightarrow> read_le n (le_bytes n w) = (w :: 'a word)"
  by (simp add: read_le_def le_word_le_bytes take_bit_word_eq_self)

lemma Value_I32_le_bytes [simp]: "Value_I32 \<lparr>ValType = t, data = le_bytes 4 (w :: 32 word)\<rparr> = w"
  by (simp add: Value_I32_def read_le_le_bytes)

lemma Value_I64_le_bytes [simp]: "Value_I64 \<lparr>ValType = t, data = le_bytes 8 (w :: 64 word)\<rparr> = w"
  by (simp add: Value_I64_def read_le_le_bytes)

lemma Value_I32_ValueFromI32 [simp]: "Value_I32 (ValueFromI32 w) = w"
  by (simp add: ValueFromI32_def)

lemma Value_I64_ValueFromI64 [simp]: "Value_I64 (ValueFromI64 w) = w"
  by (simp add: ValueFromI64_def)

lemma value_int_zero: "Value_I32 (ValueFrom (AsInt k) I32) = 0"
  by (simp add: Value_I32_def read_le_def)

subsection \<open>Signed division\<close>

lemma go_quo_rem: "go_quo a b * b + go_rem a b = a"
proof -
  have "go_quo a b * b + go_rem a b = word_of_int (sint a sdiv sint b * sint b + sint a smod sint b)"
    by (simp add: go_quo_def go_rem_def)
  also have "\<dots> = a"
    by (simp only: sdiv_mult_smod_eq) simp
  finally show ?thesis .
qed

lemma go_rem_min_m1: "go_rem a (- 1) = 0"
  by (simp add: go_rem_def signed_modulo_int_def)


lemma err_distinct: "errIntegerDivideByZero \<noteq> errIntegerOverflow"
  by (simp add: errIntegerDivideByZero_def errIntegerOverflow_def)

lemma go_quo_m7_2: "go_quo (- 7 :: 32 word) 2 = - 3" "go_rem (- 7 :: 32 word) 2 = - 1"
  by (simp_all add: go_quo_def go_rem_def signed_divide_int_def signed_modulo_int_def)

subsection \<open>The LEB128 loops in closed form\<close>

lemma hi_bit_test: "(drop_bit 7 (u8 AND 0x80) = 0) = (\<not> bit (u8::byte) 7)"
  by (simp add: and_one_eq bit_iff_odd_drop_bit even_iff_mod_2_eq_zero)

lemma bit6_test: "(drop_bit 3 (u8 AND 0x40) \<noteq> 0) = bit (u8::byte) 6"
proof -
  have "drop_bit 3 (u8 AND 0x40) = (if bit u8 6 then 8 else 0)"
  proof (rule bit_eqI)
    fix n
    have h: "bit (64::byte) (3 + n) = (n = 3)"
      using bit_push_bit_iff[of 6 "1::byte" "3 + n"] by (auto simp: bit_1_iff)
    have h8: "bit (8::byte) n = (n = 3)"
      using bit_push_bit_iff[of 3 "1::byte" "n"] by (auto simp: bit_1_iff)
    show "bit (drop_bit 3 (u8 AND 0x40)) n = bit (if bit u8 6 then 8 else 0 :: byte) n"
      using h h8 by (auto simp add: bit_and_iff bit_drop_bit_eq simp del: drop_bit_and)
  qed
  then show ?thesis
    by (simp del: drop_bit_and)
qed

lemma leb_loopU:
  "eatU64_loop r v shift =
     (case leb_group (drop (pos r) (bytes r)) of
        None \<Rightarrow> (Inl EOF, r\<lparr>pos := max (pos r) (length (bytes r))\<rparr>)
      | Some g \<Rightarrow> (Inr (v OR push_bit shift (concat7 g)), r\<lparr>pos := pos r + length g\<rparr>))"
proof (induction r v shift rule: eatU64_loop.induct)
  case (1 r v shift)
  show ?case
  proof (cases "pos r \<ge> length (bytes r)")
    case True
    then show ?thesis
      by (subst eatU64_loop.simps) (simp add: eatU8_def max_def)
  next
    case False
    then have d: "drop (pos r) (bytes r) = bytes r ! pos r # drop (Suc (pos r)) (bytes r)"
      by (simp add: Cons_nth_drop_Suc)
    have e: "eatU8 r = (Inr (bytes r ! pos r), r\<lparr>pos := pos r + 1\<rparr>)"
      using False by (simp add: eatU8_def)
    show ?thesis
    proof (cases "bit (bytes r ! pos r) 7")
      case True
      have ih: "eatU64_loop (r\<lparr>pos := pos r + 1\<rparr>) (v OR push_bit shift (ucast (bytes r ! pos r) AND 0x7F)) (shift + 7) =
         (case leb_group (drop (Suc (pos r)) (bytes r)) of
        None \<Rightarrow> (Inl EOF, r\<lparr>pos := max (Suc (pos r)) (length (bytes r))\<rparr>)
      | Some g \<Rightarrow> (Inr ((v OR push_bit shift (ucast (bytes r ! pos r) AND 0x7F)) OR push_bit (shift + 7) (concat7 g)), r\<lparr>pos := Suc (pos r) + length g\<rparr>))"
        using 1[OF e[symmetric] refl refl refl] True by (simp add: hi_bit_test del: drop_bit_and push_bit_and split: option.split)
      have m: "max (Suc (pos r)) (length (bytes r)) = max (pos r) (length (bytes r))"
        using False by simp
      have "eatU64_loop r v shift = eatU64_loop (r\<lparr>pos := pos r + 1\<rparr>) (v OR push_bit shift (ucast (bytes r ! pos r) AND 0x7F)) (shift + 7)"
        using True by (subst eatU64_loop.simps) (simp add: e hi_bit_test Let_def del: drop_bit_and push_bit_and)
      then show ?thesis
        unfolding ih d using True
        by (simp add: m push_bit_add or.assoc del: push_bit_and split: option.splits)
    next
      case False
      then show ?thesis
        by (subst eatU64_loop.simps) (simp add: e d hi_bit_test Let_def del: drop_bit_and push_bit_and)
    qed
  qed
qed

lemma leb_loopI:
  "eatI64_loop r v shift =
     (case leb_group (drop (pos r) (bytes r)) of
        None \<Rightarrow> (Inl EOF, r\<lparr>pos := max (pos r) (length (bytes r))\<rparr>)
      | Some g \<Rightarrow> (Inr ((v OR push_bit shift (concat7 g)) OR
                        (if bit (last g) 6 then push_bit (shift + 7 * length g) (- 1) else 0)),
                   r\<lparr>pos := pos r + length g\<rparr>))"
proof (induction r v shift rule: eatI64_loop.induct)
  case (1 r v shift)
  show ?case
  proof (cases "pos r \<ge> length (bytes r)")
    case True
    then show ?thesis
      by (subst eatI64_loop.simps) (simp add: eatU8_def max_def)
  next
    case False
    then have d: "drop (pos r) (bytes r) = bytes r ! pos r # drop (Suc (pos r)) (bytes r)"
      by (simp add: Cons_nth_drop_Suc)
    have e: "eatU8 r = (Inr (bytes r ! pos r), r\<lparr>pos := pos r + 1\<rparr>)"
      using False by (simp add: eatU8_def)
    show ?thesis
    proof (cases "bit (bytes r ! pos r) 7")
      case True
      have ih: "eatI64_loop (r\<lparr>pos := pos r + 1\<rparr>) (v OR push_bit shift (ucast (bytes r ! pos r) AND 0x7F)) (shift + 7) =
         (case leb_group (drop (Suc (pos r)) (bytes r)) of
        None \<Rightarrow> (Inl EOF, r\<lparr>pos := max (Suc (pos r)) (length (bytes r))\<rparr>)
      | Some g \<Rightarrow> (Inr (((v OR push_bit shift (ucast (bytes r ! pos r) AND 0x7F)) OR push_bit (shift + 7) (concat7 g)) OR
               (if bit (last g) 6 then push_bit (shift + 7 + 7 * length g) (- 1) else 0)), r\<lparr>pos := Suc (pos r) + length g\<rparr>))"
        using 1[OF e[symmetric] refl refl refl] True by (simp add: hi_bit_test del: drop_bit_and push_bit_and split: option.split)
      have m: "max (Suc (pos r)) (length (bytes r)) = max (pos r) (length (bytes r))"
        using False by simp
      have g: "leb_group xs = Some g \<Longrightarrow> g \<noteq> []" for xs g
        by (cases xs) (auto split: if_splits)
      have "eatI64_loop r v shift = eatI64_loop (r\<lparr>pos := pos r + 1\<rparr>) (v OR push_bit shift (ucast (bytes r ! pos r) AND 0x7F)) (shift + 7)"
        using True by (subst eatI64_loop.simps) (simp add: e hi_bit_test Let_def del: drop_bit_and push_bit_and)
      then show ?thesis
        unfolding ih d using True
        by (auto simp add: m push_bit_add or.assoc add.assoc dest: g simp del: push_bit_and split: option.splits)
    next
      case False
      then show ?thesis
        by (subst eatI64_loop.simps) (simp add: e d hi_bit_test bit6_test Let_def del: drop_bit_and push_bit_and)
    qed
  qed
qed

lemma leb_group_None: "(leb_group bs = None) = (\<forall>b\<in>set bs. bit b 7)"
  by (induction bs) auto


section \<open>Decoding and running whole modules\<close>

lemma char_of_102: "char_of (102 :: nat) = CHR ''f''"
  by code_simp

lemmas parse_defs = parse_def header_def bindP_def retP_def failP_def eatBytes_def
  le_word.simps WASM_MAGIC_def sections.simps sectionHeader_def eatU8_def eatU32_def eatU64_def
  eatU64_loop.simps section'_def typeSection_def funcTypeP_def funcSection_def exportSection_def
  globalSection_def globalTypeP_def name_def eatString_def codeSection_def zeroModule_def Let_def
  char_of_102 parser_expr_def expr_loop.simps parser_instr_def eatI32_def eatI64_def
  eatI64_loop.simps eatBlock_def loadOps_def storeOps_def plainOps_def

lemmas inst_defs = NewInterpreter_def newStoreAndModuleInst_def zeroStore_def zeroModuleInst_def
  index_def instExports_def interpreterOf_def funcOf_def exportImportKindFunc_def

lemmas run_defs = invoke_def Execute.simps step_def stack_defs index_def curFrame_def
  updFrame_def NextStep_def pushValue_def popValue_def opConst_exec_def opEnd_exec_def
  interpreterOf_def funcOf_def Let_def

text \<open>\<open>GetFunc\<close> on the interpreter of a module that exports its one function as \<open>f\<close>.\<close>

lemma GetFunc_interpreterOf: "GetFunc (interpreterOf gs fn) ''f'' = Ret (Inr fn)"
  by (simp add: GetFunc_def interpreterOf_def index_def exportImportKindFunc_def)

text \<open>A nil instruction under the program counter: the call through the nil interface panics.\<close>

lemma Execute_nil:
  assumes "\<not> stack_isEmpty (frameStack m)"
    and "index (insts (curFrame m)) (pc (curFrame m)) = Ret None"
  shows "Execute (Suc n) fl m = Some (Panic ''nil pointer dereference'')"
  using assms by (subst Execute.simps) (simp add: step_def curFrame_def)

text \<open>
  The body \<open>const x; const y; <binary operator>; end\<close>: \<open>opBin.exec\<close> pops \<open>y\<close> into \<open>a\<close> and
  \<open>x\<close> into \<open>b\<close>, so the function called is \<open>binFn(y, x)\<close>.
\<close>

lemma invoke_const_bin:
  "invoke (Suc (Suc (Suc (Suc n)))) fl
     (funcOf [t] [Some (opConst x), Some (opConst y), Some (opBin f), Some opEnd]) []
     (interpreterOf gs fn)
   = (case binFn_call fl f y x of
        Inl err \<Rightarrow> Some (Ret (Inl err, interpreterOf gs fn))
      | Inr v \<Rightarrow> Some (Ret (Inr [v], interpreterOf gs fn)))"
  by (simp add: run_defs opBin_exec_def split: sum.splits)

text \<open>Every instruction that \<open>parser.instr\<close> builds comes from one of these cases.\<close>

lemma plain_no_branch:
  "map_of plainOps op \<noteq> Some (Some (opBr l))"
  "map_of plainOps op \<noteq> Some (Some (opBrIf l))"
  "map_of plainOps op \<noteq> Some (Some (opBrTable ls d))"
  "map_of plainOps op \<noteq> Some (Some (opGlobalGet g))"
  "map_of plainOps op \<noteq> Some (Some (opGlobalSet g))"
proof -
  have "Some (opBr l) \<notin> snd ` set plainOps" "Some (opBrIf l) \<notin> snd ` set plainOps"
    "Some (opBrTable ls d) \<notin> snd ` set plainOps" "Some (opGlobalGet g) \<notin> snd ` set plainOps"
    "Some (opGlobalSet g) \<notin> snd ` set plainOps"
    by (simp_all add: plainOps_def)
  then show "map_of plainOps op \<noteq> Some (Some (opBr l))"
    "map_of plainOps op \<noteq> Some (Some (opBrIf l))"
    "map_of plainOps op \<noteq> Some (Some (opBrTable ls d))"
    "map_of plainOps op \<noteq> Some (Some (opGlobalGet g))"
    "map_of plainOps op \<noteq> Some (Some (opGlobalSet g))"
    by (auto dest!: map_of_SomeD intro: rev_image_eqI)
qed

lemma parser_instr_cases:
  assumes "parser_instr r = (Inr (Some i, e), r')"
  shows "(\<exists>op. map_of plainOps op = Some (Some i)) \<or> (\<exists>b. i = opBlock b) \<or> (\<exists>b. i = opLoop b)
    \<or> (\<exists>b. i = opIf b) \<or> i = opEnd \<or> (\<exists>k. i = opLocalGet k) \<or> (\<exists>k. i = opLocalSet k)
    \<or> (\<exists>v. i = opConst v) \<or> i = opMemoryCopy \<or> i = opMemoryFill
    \<or> (\<exists>a off f. i = opLoad a off f) \<or> (\<exists>a off f. i = opStore a off f)"
proof -
  obtain op r1 where e: "eatU8 r = (Inr op, r1)"
    using assms by (cases "eatU8 r") (auto simp: parser_instr_def split: sum.splits)
  have one: "\<exists>b. x = f b"
    if "(case p of (Inl err, r2) \<Rightarrow> (Inl err, r2) | (Inr b, r2) \<Rightarrow> (Inr (f b), r2)) = (Inr x, r')"
    for f :: "'b \<Rightarrow> instr option \<times> bool" and p :: "(error + 'b) \<times> leb128Reader" and x
    using that by (cases p) (auto split: sum.splits)
  have two: "\<exists>a b. x = f a b"
    if "(case p of (Inl err, r2) \<Rightarrow> (Inl err, r2) | (Inr (a, b), r2) \<Rightarrow> (Inr (f a b), r2)) = (Inr x, r')"
    for f :: "32 word \<Rightarrow> 32 word \<Rightarrow> instr option \<times> bool" and p x
    using that by (cases p) (auto split: sum.splits)
  have fc: "x = (Some opMemoryCopy, False) \<or> x = (Some opMemoryFill, False)"
    if "(case eatU8 r1 of (Inl err, r2) \<Rightarrow> (Inl err, r2)
         | (Inr kind', r2) \<Rightarrow>
             if kind' = 10 then (Inr (Some opMemoryCopy, False), snd (eatU32 (snd (eatU32 r2))))
             else if kind' = 11 then (Inr (Some opMemoryFill, False), snd (eatU32 r2))
             else (Inl (Errorf ''unknown memory copy or fill kind: %d'' [ArgInt (uint kind')]), r2))
        = (Inr x, r')" for x
    using that by (cases "eatU8 r1") (auto split: sum.splits if_splits)
  show ?thesis
    using assms unfolding parser_instr_def e prod.case sum.case
    by (auto split: if_splits option.splits dest!: one two fc)
qed

lemma parser_never:
  "fst (parser_instr r) \<noteq> Inr (Some (opBr l), e)"
  "fst (parser_instr r) \<noteq> Inr (Some (opBrIf l), e)"
  "fst (parser_instr r) \<noteq> Inr (Some (opBrTable ls d), e)"
  "fst (parser_instr r) \<noteq> Inr (Some (opGlobalGet g), e)"
  "fst (parser_instr r) \<noteq> Inr (Some (opGlobalSet g), e)"
  using parser_instr_cases [of r _ e "snd (parser_instr r)"] plain_no_branch
  by (auto simp: prod_eq_iff)

text \<open>\<open>(func (export "f") br 0)\<close>: the opcode of \<open>br\<close> and its immediate 0.\<close>

lemma br_module:
  "NewInterpreter fl (funcModule [] [0x0C, 0x00, 0x0B])
   = Ret (interpreterOf [] (funcOf [] [None, Some opUnreachable, Some opEnd]), None)"
  by (simp add: funcModule_def parse_defs inst_defs)

lemma invoke_nil_first:
  "invoke (Suc n) fl (funcOf res (None # is)) [] (interpreterOf gs fn)
   = Some (Panic ''nil pointer dereference'')"
  by (simp add: invoke_def funcOf_def interpreterOf_def Execute.simps step_def stack_defs index_def)

text \<open>\<open>i32.const 7; <nil>; ...\<close>: the constant is pushed, then the nil instruction is called.\<close>

lemma invoke_nil_second:
  "invoke (Suc (Suc n)) fl (funcOf res (Some (opConst v) # None # is)) [] (interpreterOf gs fn)
   = Some (Panic ''nil pointer dereference'')"
  by (simp add: run_defs)


section \<open>C1: i32.store followed by i32.load8\_u\<close>

lemma store32_right_address: "store32 onePage 0 2 0x01020304 = Ret (onePage, None)"
  by (simp add: store32_def store_n_def outOfBounds_def onePage_def sliceFrom_def Buffer_Write_def
      word_sless_alt)

lemma store_i32_body:
  "Execute 6 fl (memMachine
      [Some (opStore 0 2 StI32store), Some (opConst (ValueFromI32 0)), Some (opLoad 0 0 LdI32load8U),
       Some (opConst (ValueFromI32 3)), Some (opLoad 0 0 LdI32load8U), Some opEnd]
      [ValueFromI32 0, ValueFromI32 0x01020304] onePage)
   = Some (Ret (\<lparr>frameStack = [], valueStack = [ValueFromI32 0, ValueFromI32 0, ValueFromI32 0],
                  store = \<lparr>funcs = [], tables = [], mems = [onePage], globals = []\<rparr>\<rparr>, None))"
  by (simp add: Execute.simps step_def mem_defs stack_defs Let_def
       opStore_exec_def store32_def store_n_def outOfBounds_def onePage_def dropError_def
       opConst_exec_def opLoad_exec_def load8_def load_def sliceFrom_def binary_Read_def opEnd_exec_def
       word_sless_alt)

text \<open>
  Claim C1 says that after \<open>i32.store\<close> with base address 0 and value \<open>0x01020304\<close>,
  \<open>i32.load8_u\<close> at address 0 yields 4 and at address 3 yields 1. Evaluated on the code:
  on a one-page zero memory with the operands 0 and \<open>0x01020304\<close> on the stack, the body
  \<open>i32.store; i32.const 0; i32.load8_u; i32.const 3; i32.load8_u; end\<close> runs to completion,
  both loads push 0, the base operand is still on the stack and the memory is the one
  it started with. The accessor \<open>store32\<close> called with the right address 0 leaves the
  memory unchanged as well.
\<close>

theorem i32_store_leaves_memory_unchanged:
  "Execute 6 fl (memMachine
      [Some (opStore 0 2 StI32store), Some (opConst (ValueFromI32 0)), Some (opLoad 0 0 LdI32load8U),
       Some (opConst (ValueFromI32 3)), Some (opLoad 0 0 LdI32load8U), Some opEnd]
      [ValueFromI32 0, ValueFromI32 0x01020304] onePage)
   = Some (Ret (\<lparr>frameStack = [], valueStack = [ValueFromI32 0, ValueFromI32 0, ValueFromI32 0],
                  store = \<lparr>funcs = [], tables = [], mems = [onePage], globals = []\<rparr>\<rparr>, None))
   \<and> store32 onePage 0 2 0x01020304 = Ret (onePage, None)"
  using store_i32_body store32_right_address by simp

section \<open>C2: memory.grow and memory.size\<close>

lemma grow_ok:
  "opMemoryGrow_exec (memMachine is [ValueFromI32 2] onePage)
   = Ret (updFrame NextStep (memMachine is [ValueFrom (AsInt 1) I32] onePage), None)"
  by (simp add: opMemoryGrow_exec_def mem_defs stack_defs onePage_def memInst_grow_def
      memInst_pages_def memInst_size_def PAGE_SIZE_def Let_def word_sle_eq)

lemma size_bytes:
  "opMemorySize_exec (memMachine is vs onePage)
   = Ret (updFrame NextStep (memMachine is (vs @ [ValueFrom (AsInt32 65536) I32]) onePage), None)"
  by (simp add: opMemorySize_exec_def mem_defs stack_defs onePage_def memInst_size_def)

lemma grow_fail:
  "opMemoryGrow_exec (memMachine is [ValueFromI32 2] onePageMax2)
   = Ret (updFrame NextStep (memMachine is [ValueFrom (AsInt (- 1)) I32] onePageMax2), None)"
  by (simp add: opMemoryGrow_exec_def mem_defs stack_defs onePageMax2_def memInst_grow_def
      memInst_pages_def memInst_size_def PAGE_SIZE_def Let_def word_sle_eq)

text \<open>
  Claim C2 says that on a memory with \<open>min = 1\<close>, \<open>memory.grow 2\<close> pushes 1, a following
  \<open>memory.size\<close> pushes 3, and a growth past the maximum pushes -1 and leaves the size
  unchanged. Evaluated on the code: \<open>memory.grow 2\<close> pushes a value with an empty payload,
  which reads as 0, and the store still holds the one-page memory; \<open>memory.size\<close> on one
  page pushes 65536, the length in bytes; on a memory with maximum 2 the failed growth
  pushes an empty payload again (it reads as 0, not -1), and the memory is unchanged.
\<close>

theorem memory_grow_on_the_code:
  "opMemoryGrow_exec (memMachine is [ValueFromI32 2] onePage)
     = Ret (updFrame NextStep (memMachine is [ValueFrom (AsInt 1) I32] onePage), None)
   \<and> data (ValueFrom (AsInt 1) I32) = [] \<and> Value_I32 (ValueFrom (AsInt 1) I32) = 0
   \<and> opMemorySize_exec (memMachine is vs onePage)
     = Ret (updFrame NextStep (memMachine is (vs @ [ValueFrom (AsInt32 65536) I32]) onePage), None)
   \<and> opMemoryGrow_exec (memMachine is [ValueFromI32 2] onePageMax2)
     = Ret (updFrame NextStep (memMachine is [ValueFrom (AsInt (- 1)) I32] onePageMax2), None)
   \<and> Value_I32 (ValueFrom (AsInt (- 1)) I32) = 0"
  by (intro conjI grow_ok size_bytes grow_fail value_int_zero) simp

section \<open>C3: instructions that do not move the program counter\<close>

lemma nop_loops: "Execute n fl (ctlMachine [Some opNop, Some opEnd] [] []) = None"
proof (induction n)
  case 0
  show ?case by (simp add: Execute.simps ctlMachine_def stack_defs)
next
  case (Suc n)
  then show ?case
    by (subst Execute.simps) (simp add: ctlMachine_def stack_defs step_def opNop_exec_def)
qed

lemma if_stays:
  "opIf_exec (ctlMachine [Some (opIf b), Some (opConst (ValueFromI32 1)), Some opEnd, Some opEnd] []
                [ValueFromI32 1])
   = Ret (ctlMachine [Some (opIf b), Some (opConst (ValueFromI32 1)), Some opEnd, Some opEnd]
            [\<lparr>kind = LabelKindIf, startPc = 0, endPc = 2\<rparr>] [], None)"
  by (simp add: opIf_exec_def ctlMachine_def stack_defs nextEndAddr_def nextEndAddr_loop.simps
      Value_Bool_def ValueFromI32_def pushLabel_def Let_def I32_def I64_def Value_I32_def
      read_le_le_bytes)

lemma if_again:
  "Execute 2 fl (ctlMachine [Some (opIf b), Some (opConst (ValueFromI32 1)), Some opEnd, Some opEnd] []
                  [ValueFromI32 1])
   = Some (Panic ''value must be int type'')"
  by (simp add: Execute.simps step_def opIf_exec_def ctlMachine_def stack_defs nextEndAddr_def
      nextEndAddr_loop.simps Value_Bool_def ValueFromI32_def pushLabel_def Let_def I32_def I64_def
      Value_I32_def read_le_le_bytes zeroValue_def)

text \<open>
  Claim C3 says that every successful step advances \<open>pc\<close> by one, jumps, or pops the
  frame, that \<open>nop\<close> advances \<open>pc\<close> by one and that \<open>if\<close> with a non-zero condition enters
  the then-branch. Evaluated on the code: \<open>opNop.exec\<close> returns the machine it was given,
  so \<open>Execute\<close> on the body \<open>nop; end\<close> returns for no amount of fuel; \<open>if\<close> with
  condition 1 pushes its label and leaves \<open>pc\<close> at the \<open>if\<close> itself, and the second turn of
  the loop executes the same \<open>if\<close> on the emptied operand stack and panics.
\<close>

theorem nop_and_if_leave_pc_unchanged:
  "opNop_exec m = Ret (m, None)
   \<and> Execute n fl (ctlMachine [Some opNop, Some opEnd] [] []) = None
   \<and> opIf_exec (ctlMachine [Some (opIf b), Some (opConst (ValueFromI32 1)), Some opEnd, Some opEnd] []
                  [ValueFromI32 1])
     = Ret (ctlMachine [Some (opIf b), Some (opConst (ValueFromI32 1)), Some opEnd, Some opEnd]
              [\<lparr>kind = LabelKindIf, startPc = 0, endPc = 2\<rparr>] [], None)
   \<and> Execute 2 fl (ctlMachine [Some (opIf b), Some (opConst (ValueFromI32 1)), Some opEnd, Some opEnd] []
                    [ValueFromI32 1])
     = Some (Panic ''value must be int type'')"
  using nop_loops if_stays if_again by (simp add: opNop_exec_def)

section \<open>C4: bounds checks of loads and stores\<close>

lemma store_no_trap_neg:
  "opStore_exec fl 0 2 StI32store (memMachine is [ValueFromI32 (- 1), ValueFromI32 5] onePage)
   = Ret (updFrame NextStep (memMachine is [ValueFromI32 (- 1)] onePage), None)"
  by (simp add: opStore_exec_def mem_defs stack_defs onePage_def store32_def store_n_def
      outOfBounds_def sliceFrom_def dropError_def Let_def word_sless_alt)

lemma store_no_trap_oob:
  "opStore_exec fl 0 2 StI32store (memMachine is [ValueFromI32 65536, ValueFromI32 65536] onePage)
   = Ret (updFrame NextStep (memMachine is [ValueFromI32 65536] onePage), None)"
  by (simp add: opStore_exec_def mem_defs stack_defs onePage_def store32_def store_n_def
      outOfBounds_def sliceFrom_def dropError_def Let_def word_sless_alt)

lemma load_oob_trap:
  "opLoad_exec 2 0 LdI32load (memMachine is [ValueFromI32 65536] onePage)
   = Ret (memMachine is [] onePage, Some (New ''out of bounds memory access''))"
  by (simp add: opLoad_exec_def mem_defs stack_defs onePage_def load32_def load_def
      outOfBounds_def sliceFrom_def Let_def word_sless_alt errOutOfBounds_def)

lemma load_panic:
  "opLoad_exec 2 0 LdI32load (memMachine is [ValueFromI32 0x7FFFFFFC] onePage)
   = Panic ''slice bounds out of range''"
  by (simp add: opLoad_exec_def mem_defs stack_defs onePage_def load32_def load_def
      outOfBounds_def sliceFrom_def Let_def word_sless_alt)

text \<open>
  Claim C4 says that every load and store traps with \<open>out of bounds memory access\<close> when
  the base operand is negative, the offset is negative or the access ends behind the
  memory. Evaluated on the code, on a one-page memory: \<open>i32.store\<close> with base -1 (value
  5) and \<open>i32.store\<close> with base 65536 (value 65536) both return no error and advance \<open>pc\<close>,
  with the base operand left on the stack; \<open>i32.load\<close> at 65536 does trap with that
  message; \<open>i32.load\<close> at \<open>0x7FFFFFFC\<close> passes the bounds test, whose sum wraps around,
  and panics on the slice expression.
\<close>

theorem store_returns_no_trap:
  "opStore_exec fl 0 2 StI32store (memMachine is [ValueFromI32 (- 1), ValueFromI32 5] onePage)
     = Ret (updFrame NextStep (memMachine is [ValueFromI32 (- 1)] onePage), None)
   \<and> opStore_exec fl 0 2 StI32store (memMachine is [ValueFromI32 65536, ValueFromI32 65536] onePage)
     = Ret (updFrame NextStep (memMachine is [ValueFromI32 65536] onePage), None)
   \<and> opLoad_exec 2 0 LdI32load (memMachine is [ValueFromI32 65536] onePage)
     = Ret (memMachine is [] onePage, Some (New ''out of bounds memory access''))
   \<and> opLoad_exec 2 0 LdI32load (memMachine is [ValueFromI32 0x7FFFFFFC] onePage)
     = Panic ''slice bounds out of range''"
  using store_no_trap_neg store_no_trap_oob load_oob_trap load_panic by simp


section \<open>C5: br and the label stack\<close>

lemma block_br_module:
  "NewInterpreter fl (funcModule [] [0x02, 0x40, 0x0C, 0x00, 0x0B, 0x0B])
   = Ret (interpreterOf []
       (funcOf [] [Some (opBlock \<lparr>blockType = blockTypeEmpty, valType = []\<rparr>), None,
                   Some opUnreachable, Some opEnd]), None)"
  by (simp add: funcModule_def parse_defs inst_defs)

lemma block_br_panics:
  "invoke (Suc (Suc n)) fl
     (funcOf [] [Some (opBlock \<lparr>blockType = blockTypeEmpty, valType = []\<rparr>), None,
                 Some opUnreachable, Some opEnd]) [] (interpreterOf gs fn)
   = Some (Panic ''nil pointer dereference'')"
  by (simp add: run_defs opBlock_exec_def nextEndAddr_def nextEndAddr_loop.simps pushLabel_def)

lemma br_keeps_labels:
  "opBr_exec 0 (ctlMachine is [outerBlock, innerLoop] vs)
     = Ret (updFrame (\<lambda>f. f\<lparr>pc := 1\<rparr>) (ctlMachine is [outerBlock, innerLoop] vs), None)"
  "opBr_exec 1 (ctlMachine is [outerBlock, innerLoop] vs)
     = Ret (updFrame (\<lambda>f. f\<lparr>pc := 5\<rparr>) (ctlMachine is [outerBlock, innerLoop] vs), None)"
  by (simp_all add: opBr_exec_def doBr_def br_def ctlMachine_def stack_defs outerBlock_def
      innerLoop_def)

text \<open>
  Claim C5 says that \<open>br L\<close> resolves the \<open>L\<close>-th label from the top, sets \<open>pc\<close> to its
  \<open>startPc\<close> (loop) or \<open>endPc\<close> (otherwise), and pops all labels of depth at most \<open>L\<close>.
  Evaluated on the code: the cases of \<open>br\<close>, \<open>br_if\<close> and \<open>br_table\<close> in \<open>parser.instr\<close> are
  empty, so no instruction the decoder builds is an \<open>opBr\<close>, \<open>opBrIf\<close> or \<open>opBrTable\<close>,
  whatever the bytes. The module \<open>(func (export "f") br 0)\<close> is accepted with the body
  nil, \<open>unreachable\<close> (the immediate 0 read as an opcode), \<open>end\<close>, and calling \<open>f\<close> panics
  on the nil instruction; \<open>(func (export "f") (block (br 0)))\<close> is accepted with the body
  \<open>block\<close>, nil, \<open>unreachable\<close>, \<open>end\<close>, and calling \<open>f\<close> enters the block and panics on
  the nil instruction. In a run of the program no label is resolved by a branch, \<open>pc\<close>
  is not set and no label is popped. The method \<open>opBr.exec\<close> itself, which the program
  never calls, pops no label either: on a frame with a loop label (start 1, end 4) on top
  of a block label (start 0, end 5) it sets \<open>pc\<close> to 1 for level 0 and to 5 for level 1
  and leaves both labels on the label stack.
\<close>

theorem br_is_not_decoded_and_pops_no_label:
  "fst (parser_instr r) \<noteq> Inr (Some (opBr l), e)
   \<and> fst (parser_instr r) \<noteq> Inr (Some (opBrIf l), e)
   \<and> fst (parser_instr r) \<noteq> Inr (Some (opBrTable ls d), e)
   \<and> NewInterpreter fl (funcModule [] [0x0C, 0x00, 0x0B])
     = Ret (interpreterOf [] (funcOf [] [None, Some opUnreachable, Some opEnd]), None)
   \<and> GetFunc (interpreterOf [] (funcOf [] [None, Some opUnreachable, Some opEnd])) ''f''
     = Ret (Inr (funcOf [] [None, Some opUnreachable, Some opEnd]))
   \<and> invoke (Suc n) fl (funcOf [] [None, Some opUnreachable, Some opEnd]) []
       (interpreterOf [] (funcOf [] [None, Some opUnreachable, Some opEnd]))
     = Some (Panic ''nil pointer dereference'')
   \<and> NewInterpreter fl (funcModule [] [0x02, 0x40, 0x0C, 0x00, 0x0B, 0x0B])
     = Ret (interpreterOf []
         (funcOf [] [Some (opBlock \<lparr>blockType = blockTypeEmpty, valType = []\<rparr>), None,
                     Some opUnreachable, Some opEnd]), None)
   \<and> invoke (Suc (Suc n)) fl
       (funcOf [] [Some (opBlock \<lparr>blockType = blockTypeEmpty, valType = []\<rparr>), None,
                   Some opUnreachable, Some opEnd]) []
       (interpreterOf []
         (funcOf [] [Some (opBlock \<lparr>blockType = blockTypeEmpty, valType = []\<rparr>), None,
                     Some opUnreachable, Some opEnd]))
     = Some (Panic ''nil pointer dereference'')
   \<and> opBr_exec 0 (ctlMachine is [outerBlock, innerLoop] vs)
     = Ret (updFrame (\<lambda>f. f\<lparr>pc := 1\<rparr>) (ctlMachine is [outerBlock, innerLoop] vs), None)
   \<and> opBr_exec 1 (ctlMachine is [outerBlock, innerLoop] vs)
     = Ret (updFrame (\<lambda>f. f\<lparr>pc := 5\<rparr>) (ctlMachine is [outerBlock, innerLoop] vs), None)
   \<and> map labels (frameStack (updFrame (\<lambda>f. f\<lparr>pc := 5\<rparr>) (ctlMachine is [outerBlock, innerLoop] vs)))
     = [[outerBlock, innerLoop]]"
  by (intro conjI parser_never br_module GetFunc_interpreterOf invoke_nil_first block_br_module
      block_br_panics br_keeps_labels) (simp add: ctlMachine_def stack_defs updFrame_def)


section \<open>C6: global.set and global.get\<close>

lemma global_module:
  "NewInterpreter fl globalModule
   = Ret (interpreterOf
       [\<lparr>globalInst_globalType = \<lparr>valueType = 0x7F, mut = var'\<rparr>, globalInst_value = ValueFromI32 5\<rparr>]
       (funcOf [0x7F] [Some (opConst (ValueFromI32 7)), None, Some opUnreachable, None,
                       Some opUnreachable, Some opEnd]), None)"
  by (simp add: globalModule_def parse_defs inst_defs instGlobals.simps eval_def stack_defs
      exec.simps opConst_exec_def opEnd_exec_def curFrame_def updFrame_def pushValue_def
      NextStep_def var'_def)

lemma decoded_global_mismatch:
  "opGlobalSet_exec 0 (globalMachine is [ValueFromI32 7]
       \<lparr>globalInst_globalType = \<lparr>valueType = 0x7F, mut = var'\<rparr>, globalInst_value = ValueFromI32 5\<rparr>)
   = Ret (globalMachine is [ValueFromI32 7]
            \<lparr>globalInst_globalType = \<lparr>valueType = 0x7F, mut = var'\<rparr>, globalInst_value = ValueFromI32 5\<rparr>,
          Some (Errorf ''global[%d] and value types do not match '' [ArgInt 0]))"
  by (simp add: opGlobalSet_exec_def lookupGlobal_def globalMachine_def stack_defs
      emptyModuleInst_def var'_def const'_def ValueFromI32_def Let_def I32_def index_def curFrame_def)

lemma global_set_lost:
  "opGlobalSet_exec 0 (globalMachine is [ValueFromI32 7] (i32Global var' 0))
     = Ret (updFrame NextStep (globalMachine is [ValueFromI32 7] (i32Global var' 0)), None)"
  "opGlobalGet_exec 0 (updFrame NextStep (globalMachine is [ValueFromI32 7] (i32Global var' 0)))
     = Ret (updFrame NextStep (updFrame NextStep
              (globalMachine is [ValueFromI32 7, ValueFromI32 0] (i32Global var' 0))), None)"
  by (simp_all add: opGlobalSet_exec_def opGlobalGet_exec_def lookupGlobal_def globalMachine_def
      stack_defs i32Global_def emptyModuleInst_def var'_def const'_def ValueFromI32_def Let_def)

lemma global_set_errors:
  "opGlobalSet_exec 0 (globalMachine is [ValueFromI32 7] (i32Global const' 0))
     = Ret (globalMachine is [ValueFromI32 7] (i32Global const' 0),
            Some (Errorf ''global[%d] is a const value'' [ArgInt 0]))"
  "opGlobalSet_exec 0 (globalMachine is [ValueFromI64 7] (i32Global var' 0))
     = Ret (globalMachine is [ValueFromI64 7] (i32Global var' 0),
            Some (Errorf ''global[%d] and value types do not match '' [ArgInt 0]))"
  by (simp_all add: opGlobalSet_exec_def opGlobalGet_exec_def lookupGlobal_def globalMachine_def
      stack_defs i32Global_def emptyModuleInst_def var'_def const'_def ValueFromI32_def
      ValueFromI64_def Let_def I32_def I64_def)

text \<open>
  Claim C6 says that \<open>global.set i\<close> writes the top operand into the \<open>i\<close>-th global of the
  store, so that \<open>global.get i\<close> then pushes it, and that it fails on an immutable global
  and on a value of another type. Evaluated on the code: the cases of \<open>global.get\<close> and
  \<open>global.set\<close> in \<open>parser.instr\<close> are empty, so no instruction the decoder builds is an
  \<open>opGlobalGet\<close> or \<open>opGlobalSet\<close>, whatever the bytes. The module with a mutable \<open>i32\<close>
  global initialised to 5 and the function \<open>i32.const 7; global.set 0; global.get 0\<close> is
  accepted, with the global holding 5 and the body \<open>i32.const 7\<close>, nil, \<open>unreachable\<close>,
  nil, \<open>unreachable\<close>, \<open>end\<close>; calling the function pushes 7 and panics on the nil
  instruction. In a run of the program nothing is written to a global, nothing is read
  from one and neither error is returned. The methods themselves, which the program
  never calls, do not write either. On the global as decoded, whose type byte is \<open>0x7F\<close>,
  \<open>opGlobalSet.exec\<close> with the operand 7 (tagged \<open>I32\<close>, that is \<open>0x70\<close>) returns the type
  error. On a mutable global tagged \<open>I32\<close> holding 0 it succeeds, the store still holds 0
  and the operand is still on the stack, and \<open>opGlobalGet.exec\<close> then pushes 0; on an
  immutable global and on an \<open>I64\<close> operand it returns its two errors.
\<close>

theorem global_set_is_not_decoded_and_writes_nothing:
  "fst (parser_instr r) \<noteq> Inr (Some (opGlobalGet g), e)
   \<and> fst (parser_instr r) \<noteq> Inr (Some (opGlobalSet g), e)
   \<and> NewInterpreter fl globalModule
     = Ret (interpreterOf
         [\<lparr>globalInst_globalType = \<lparr>valueType = 0x7F, mut = var'\<rparr>, globalInst_value = ValueFromI32 5\<rparr>]
         (funcOf [0x7F] [Some (opConst (ValueFromI32 7)), None, Some opUnreachable, None,
                         Some opUnreachable, Some opEnd]), None)
   \<and> GetFunc (interpreterOf
         [\<lparr>globalInst_globalType = \<lparr>valueType = 0x7F, mut = var'\<rparr>, globalInst_value = ValueFromI32 5\<rparr>]
         (funcOf [0x7F] [Some (opConst (ValueFromI32 7)), None, Some opUnreachable, None,
                         Some opUnreachable, Some opEnd])) ''f''
     = Ret (Inr (funcOf [0x7F] [Some (opConst (ValueFromI32 7)), None, Some opUnreachable, None,
                                Some opUnreachable, Some opEnd]))
   \<and> invoke (Suc (Suc n)) fl
       (funcOf [0x7F] [Some (opConst (ValueFromI32 7)), None, Some opUnreachable, None,
                       Some opUnreachable, Some opEnd]) []
       (interpreterOf
         [\<lparr>globalInst_globalType = \<lparr>valueType = 0x7F, mut = var'\<rparr>, globalInst_value = ValueFromI32 5\<rparr>]
         (funcOf [0x7F] [Some (opConst (ValueFromI32 7)), None, Some opUnreachable, None,
                         Some opUnreachable, Some opEnd]))
     = Some (Panic ''nil pointer dereference'')
   \<and> opGlobalSet_exec 0 (globalMachine is [ValueFromI32 7]
         \<lparr>globalInst_globalType = \<lparr>valueType = 0x7F, mut = var'\<rparr>, globalInst_value = ValueFromI32 5\<rparr>)
     = Ret (globalMachine is [ValueFromI32 7]
              \<lparr>globalInst_globalType = \<lparr>valueType = 0x7F, mut = var'\<rparr>, globalInst_value = ValueFromI32 5\<rparr>,
            Some (Errorf ''global[%d] and value types do not match '' [ArgInt 0]))
   \<and> opGlobalSet_exec 0 (globalMachine is [ValueFromI32 7] (i32Global var' 0))
     = Ret (updFrame NextStep (globalMachine is [ValueFromI32 7] (i32Global var' 0)), None)
   \<and> opGlobalGet_exec 0 (updFrame NextStep (globalMachine is [ValueFromI32 7] (i32Global var' 0)))
     = Ret (updFrame NextStep (updFrame NextStep
              (globalMachine is [ValueFromI32 7, ValueFromI32 0] (i32Global var' 0))), None)
   \<and> opGlobalSet_exec 0 (globalMachine is [ValueFromI32 7] (i32Global const' 0))
     = Ret (globalMachine is [ValueFromI32 7] (i32Global const' 0),
            Some (Errorf ''global[%d] is a const value'' [ArgInt 0]))
   \<and> opGlobalSet_exec 0 (globalMachine is [ValueFromI64 7] (i32Global var' 0))
     = Ret (globalMachine is [ValueFromI64 7] (i32Global var' 0),
            Some (Errorf ''global[%d] and value types do not match '' [ArgInt 0]))"
  by (intro conjI parser_never global_module GetFunc_interpreterOf invoke_nil_second
      decoded_global_mismatch global_set_lost global_set_errors)


section \<open>C7: integer division and remainder\<close>

text \<open>The Go functions, with \<open>a\<close> their first and \<open>b\<close> their second argument.\<close>

lemma div_by_zero_iff:
  "(i32DivS a b = Inl errIntegerDivideByZero) = (Value_I32 b = 0)"
  "(i32DivU a b = Inl errIntegerDivideByZero) = (Value_I32 b = 0)"
  "(i32RemS a b = Inl errIntegerDivideByZero) = (Value_I32 b = 0)"
  "(i32RemU a b = Inl errIntegerDivideByZero) = (Value_I32 b = 0)"
  "(i64DivS a b = Inl errIntegerDivideByZero) = (Value_I64 b = 0)"
  "(i64DivU a b = Inl errIntegerDivideByZero) = (Value_I64 b = 0)"
  "(i64RemS a b = Inl errIntegerDivideByZero) = (Value_I64 b = 0)"
  "(i64RemU a b = Inl errIntegerDivideByZero) = (Value_I64 b = 0)"
  using err_distinct
  by (auto simp: i32DivS_def i32DivU_def i32RemS_def i32RemU_def i64DivS_def i64DivU_def
      i64RemS_def i64RemU_def Let_def)

lemma div_overflow:
  "Value_I32 a = - (2 ^ 31) \<and> Value_I32 b = - 1 \<longrightarrow>
     i32DivS a b = Inl errIntegerOverflow \<and> i32RemS a b = Inr (ValueFrom (AsInt32 0) I32)"
  "Value_I64 a = - (2 ^ 63) \<and> Value_I64 b = - 1 \<longrightarrow>
     i64DivS a b = Inl errIntegerOverflow \<and> i64RemS a b = Inr (ValueFrom (AsInt64 0) I64)"
  by (simp_all add: i32DivS_def i32RemS_def i64DivS_def i64RemS_def Let_def go_rem_min_m1)

lemma div_rem_identity:
  "Value_I32 b \<noteq> 0 \<and> \<not> (Value_I32 a = - (2 ^ 31) \<and> Value_I32 b = - 1) \<longrightarrow>
     (\<exists>q r p s. i32DivS a b = Inr q \<and> i32RemS a b = Inr r \<and> i32Mul q b = Inr p \<and> i32Add p r = Inr s
        \<and> Value_I32 s = Value_I32 a)"
  "Value_I64 b \<noteq> 0 \<and> \<not> (Value_I64 a = - (2 ^ 63) \<and> Value_I64 b = - 1) \<longrightarrow>
     (\<exists>q r p s. i64DivS a b = Inr q \<and> i64RemS a b = Inr r \<and> i64Mul q b = Inr p \<and> i64Add p r = Inr s
        \<and> Value_I64 s = Value_I64 a)"
  by (auto simp: i32DivS_def i32RemS_def i32Mul_def i32Add_def
      i64DivS_def i64RemS_def i64Mul_def i64Add_def Let_def go_quo_rem)

text \<open>The instructions, on operands pushed as constants.\<close>

lemma div_module:
  "NewInterpreter fl (funcModule [0x7F] [0x41, 0x05, 0x41, 0x00, 0x6D, 0x0B])
   = Ret (interpreterOf [] (funcOf [0x7F]
       [Some (opConst (ValueFromI32 5)), Some (opConst (ValueFromI32 0)), Some (opBin (BinI32 DivS)),
        Some opEnd]), None)"
  by (simp add: funcModule_def parse_defs inst_defs)

lemma const_bin_traps:
  "(invoke (Suc (Suc (Suc (Suc n)))) fl
      (funcOf [t] [Some (opConst x), Some (opConst y), Some (opBin f), Some opEnd]) []
      (interpreterOf gs fn)
    = Some (Ret (Inl err, interpreterOf gs fn)))
   = (binFn_call fl f y x = Inl err)"
  by (simp add: invoke_const_bin split: sum.splits)

lemma const_div_values:
  "invoke (Suc (Suc (Suc (Suc n)))) fl
     (funcOf [t] [Some (opConst (ValueFromI32 5)), Some (opConst (ValueFromI32 0)),
                  Some (opBin (BinI32 DivS)), Some opEnd]) [] (interpreterOf gs fn)
   = Some (Ret (Inr [ValueFromI32 0], interpreterOf gs fn))"
  "invoke (Suc (Suc (Suc (Suc n)))) fl
     (funcOf [t] [Some (opConst (ValueFromI32 0)), Some (opConst (ValueFromI32 5)),
                  Some (opBin (BinI32 DivS)), Some opEnd]) [] (interpreterOf gs fn)
   = Some (Ret (Inl (New ''integer divide by zero''), interpreterOf gs fn))"
  "invoke (Suc (Suc (Suc (Suc n)))) fl
     (funcOf [t] [Some (opConst (ValueFromI32 (- (2 ^ 31)))), Some (opConst (ValueFromI32 (- 1))),
                  Some (opBin (BinI32 DivS)), Some opEnd]) [] (interpreterOf gs fn)
   = Some (Ret (Inr [ValueFromI32 0], interpreterOf gs fn))"
  "invoke (Suc (Suc (Suc (Suc n)))) fl
     (funcOf [t] [Some (opConst (ValueFromI32 (- 1))), Some (opConst (ValueFromI32 (- (2 ^ 31)))),
                  Some (opBin (BinI32 DivS)), Some opEnd]) [] (interpreterOf gs fn)
   = Some (Ret (Inl (New ''integer overflow''), interpreterOf gs fn))"
  "invoke (Suc (Suc (Suc (Suc n)))) fl
     (funcOf [t] [Some (opConst (ValueFromI32 (- (2 ^ 31)))), Some (opConst (ValueFromI32 (- 1))),
                  Some (opBin (BinI32 RemS)), Some opEnd]) [] (interpreterOf gs fn)
   = Some (Ret (Inr [ValueFromI32 (- 1)], interpreterOf gs fn))"
  by (simp_all add: invoke_const_bin i32DivS_def i32RemS_def Let_def go_quo_def go_rem_def
      signed_divide_int_def signed_modulo_int_def ValueFromI32_def errIntegerDivideByZero_def
      errIntegerOverflow_def)

text \<open>\<open>(7 div_s 2) * 2 + (7 rem_s 2)\<close> as a function body.\<close>

lemma identity_module:
  "NewInterpreter fl (funcModule [0x7F]
       [0x41, 0x07, 0x41, 0x02, 0x6D, 0x41, 0x02, 0x6C, 0x41, 0x07, 0x41, 0x02, 0x6F, 0x6A, 0x0B])
   = Ret (interpreterOf [] (funcOf [0x7F]
       [Some (opConst (ValueFromI32 7)), Some (opConst (ValueFromI32 2)), Some (opBin (BinI32 DivS)),
        Some (opConst (ValueFromI32 2)), Some (opBin (BinI32 Mul)),
        Some (opConst (ValueFromI32 7)), Some (opConst (ValueFromI32 2)), Some (opBin (BinI32 RemS)),
        Some (opBin (BinI32 Add)), Some opEnd]), None)"
  by (simp add: funcModule_def parse_defs inst_defs)

lemma identity_run:
  "invoke (10 + n) fl (funcOf [0x7F]
       [Some (opConst (ValueFromI32 7)), Some (opConst (ValueFromI32 2)), Some (opBin (BinI32 DivS)),
        Some (opConst (ValueFromI32 2)), Some (opBin (BinI32 Mul)),
        Some (opConst (ValueFromI32 7)), Some (opConst (ValueFromI32 2)), Some (opBin (BinI32 RemS)),
        Some (opBin (BinI32 Add)), Some opEnd]) [] (interpreterOf gs fn)
   = Some (Ret (Inr [ValueFromI32 2], interpreterOf gs fn))"
proof -
  have n: "10 + n = Suc (Suc (Suc (Suc (Suc (Suc (Suc (Suc (Suc (Suc n)))))))))"
    by simp
  show ?thesis
    unfolding n
    by (simp add: run_defs opBin_exec_def i32DivS_def i32RemS_def i32Mul_def i32Add_def go_quo_def
        go_rem_def signed_divide_int_def signed_modulo_int_def ValueFromI32_def)
qed

text \<open>
  Claim C7 says that \<open>div_s\<close>, \<open>div_u\<close>, \<open>rem_s\<close> and \<open>rem_u\<close> trap with
  \<open>integer divide by zero\<close> exactly when the divisor is 0, that \<open>div_s\<close> of the least
  integer and -1 traps with \<open>integer overflow\<close> while \<open>rem_s\<close> of them is 0, and that
  \<open>(a div_s b) * b + (a rem_s b)\<close> is \<open>a\<close>. Evaluated on the code: \<open>opBin.exec\<close> pops the
  top of the stack into \<open>a\<close>, the value below it into \<open>b\<close>, and calls \<open>binFn(a, b)\<close>; the Go
  functions divide their first argument by their second. With the operands pushed in the
  order of the claim, \<open>x\<close> first and \<open>y\<close> second, every binary instruction therefore
  computes \<open>binFn(y, x)\<close>, and each of the eight instructions traps with
  \<open>integer divide by zero\<close> exactly when the first operand \<open>x\<close>, the dividend, is 0. The
  module \<open>(func (export "f") (result i32) i32.const 5 i32.const 0 i32.div_s)\<close> is
  accepted and \<open>f\<close> returns 0 without a trap; \<open>0 div_s 5\<close> traps; the least integer
  \<open>div_s\<close> -1 returns 0 and -1 \<open>div_s\<close> the least integer traps with \<open>integer overflow\<close>;
  the least integer \<open>rem_s\<close> -1 returns -1; and the body computing
  \<open>(7 div_s 2) * 2 + (7 rem_s 2)\<close> returns 2.
\<close>

theorem division_divides_the_second_operand_by_the_first:
  "invoke (Suc (Suc (Suc (Suc n)))) fl
       (funcOf [t] [Some (opConst x), Some (opConst y), Some (opBin f), Some opEnd]) []
       (interpreterOf gs fn)
     = (case binFn_call fl f y x of
          Inl err \<Rightarrow> Some (Ret (Inl err, interpreterOf gs fn))
        | Inr v \<Rightarrow> Some (Ret (Inr [v], interpreterOf gs fn)))
   \<and> binFn_call fl (BinI32 DivS) = i32DivS \<and> binFn_call fl (BinI32 DivU) = i32DivU
   \<and> binFn_call fl (BinI32 RemS) = i32RemS \<and> binFn_call fl (BinI32 RemU) = i32RemU
   \<and> binFn_call fl (BinI64 DivS) = i64DivS \<and> binFn_call fl (BinI64 DivU) = i64DivU
   \<and> binFn_call fl (BinI64 RemS) = i64RemS \<and> binFn_call fl (BinI64 RemU) = i64RemU
   \<and> (i32DivS y x = Inl errIntegerDivideByZero) = (Value_I32 x = 0)
   \<and> (i32DivU y x = Inl errIntegerDivideByZero) = (Value_I32 x = 0)
   \<and> (i32RemS y x = Inl errIntegerDivideByZero) = (Value_I32 x = 0)
   \<and> (i32RemU y x = Inl errIntegerDivideByZero) = (Value_I32 x = 0)
   \<and> (i64DivS y x = Inl errIntegerDivideByZero) = (Value_I64 x = 0)
   \<and> (i64DivU y x = Inl errIntegerDivideByZero) = (Value_I64 x = 0)
   \<and> (i64RemS y x = Inl errIntegerDivideByZero) = (Value_I64 x = 0)
   \<and> (i64RemU y x = Inl errIntegerDivideByZero) = (Value_I64 x = 0)
   \<and> (invoke (Suc (Suc (Suc (Suc n)))) fl
         (funcOf [t] [Some (opConst x), Some (opConst y), Some (opBin (BinI32 DivS)), Some opEnd]) []
         (interpreterOf gs fn)
       = Some (Ret (Inl errIntegerDivideByZero, interpreterOf gs fn)))
     = (Value_I32 x = 0)
   \<and> (invoke (Suc (Suc (Suc (Suc n)))) fl
         (funcOf [t] [Some (opConst x), Some (opConst y), Some (opBin (BinI32 DivU)), Some opEnd]) []
         (interpreterOf gs fn)
       = Some (Ret (Inl errIntegerDivideByZero, interpreterOf gs fn)))
     = (Value_I32 x = 0)
   \<and> (invoke (Suc (Suc (Suc (Suc n)))) fl
         (funcOf [t] [Some (opConst x), Some (opConst y), Some (opBin (BinI32 RemS)), Some opEnd]) []
         (interpreterOf gs fn)
       = Some (Ret (Inl errIntegerDivideByZero, interpreterOf gs fn)))
     = (Value_I32 x = 0)
   \<and> (invoke (Suc (Suc (Suc (Suc n)))) fl
         (funcOf [t] [Some (opConst x), Some (opConst y), Some (opBin (BinI32 RemU)), Some opEnd]) []
         (interpreterOf gs fn)
       = Some (Ret (Inl errIntegerDivideByZero, interpreterOf gs fn)))
     = (Value_I32 x = 0)
   \<and> (invoke (Suc (Suc (Suc (Suc n)))) fl
         (funcOf [t] [Some (opConst x), Some (opConst y), Some (opBin (BinI64 DivS)), Some opEnd]) []
         (interpreterOf gs fn)
       = Some (Ret (Inl errIntegerDivideByZero, interpreterOf gs fn)))
     = (Value_I64 x = 0)
   \<and> (invoke (Suc (Suc (Suc (Suc n)))) fl
         (funcOf [t] [Some (opConst x), Some (opConst y), Some (opBin (BinI64 DivU)), Some opEnd]) []
         (interpreterOf gs fn)
       = Some (Ret (Inl errIntegerDivideByZero, interpreterOf gs fn)))
     = (Value_I64 x = 0)
   \<and> (invoke (Suc (Suc (Suc (Suc n)))) fl
         (funcOf [t] [Some (opConst x), Some (opConst y), Some (opBin (BinI64 RemS)), Some opEnd]) []
         (interpreterOf gs fn)
       = Some (Ret (Inl errIntegerDivideByZero, interpreterOf gs fn)))
     = (Value_I64 x = 0)
   \<and> (invoke (Suc (Suc (Suc (Suc n)))) fl
         (funcOf [t] [Some (opConst x), Some (opConst y), Some (opBin (BinI64 RemU)), Some opEnd]) []
         (interpreterOf gs fn)
       = Some (Ret (Inl errIntegerDivideByZero, interpreterOf gs fn)))
     = (Value_I64 x = 0)
   \<and> errIntegerDivideByZero = New ''integer divide by zero''
   \<and> NewInterpreter fl (funcModule [0x7F] [0x41, 0x05, 0x41, 0x00, 0x6D, 0x0B])
     = Ret (interpreterOf [] (funcOf [0x7F]
         [Some (opConst (ValueFromI32 5)), Some (opConst (ValueFromI32 0)),
          Some (opBin (BinI32 DivS)), Some opEnd]), None)
   \<and> GetFunc (interpreterOf [] (funcOf [0x7F]
         [Some (opConst (ValueFromI32 5)), Some (opConst (ValueFromI32 0)),
          Some (opBin (BinI32 DivS)), Some opEnd])) ''f''
     = Ret (Inr (funcOf [0x7F]
         [Some (opConst (ValueFromI32 5)), Some (opConst (ValueFromI32 0)),
          Some (opBin (BinI32 DivS)), Some opEnd]))
   \<and> invoke (Suc (Suc (Suc (Suc n)))) fl
       (funcOf [0x7F] [Some (opConst (ValueFromI32 5)), Some (opConst (ValueFromI32 0)),
                       Some (opBin (BinI32 DivS)), Some opEnd]) []
       (interpreterOf [] (funcOf [0x7F]
         [Some (opConst (ValueFromI32 5)), Some (opConst (ValueFromI32 0)),
          Some (opBin (BinI32 DivS)), Some opEnd]))
     = Some (Ret (Inr [ValueFromI32 0], interpreterOf [] (funcOf [0x7F]
         [Some (opConst (ValueFromI32 5)), Some (opConst (ValueFromI32 0)),
          Some (opBin (BinI32 DivS)), Some opEnd])))
   \<and> invoke (Suc (Suc (Suc (Suc n)))) fl
       (funcOf [t] [Some (opConst (ValueFromI32 0)), Some (opConst (ValueFromI32 5)),
                    Some (opBin (BinI32 DivS)), Some opEnd]) [] (interpreterOf gs fn)
     = Some (Ret (Inl (New ''integer divide by zero''), interpreterOf gs fn))
   \<and> invoke (Suc (Suc (Suc (Suc n)))) fl
       (funcOf [t] [Some (opConst (ValueFromI32 (- (2 ^ 31)))), Some (opConst (ValueFromI32 (- 1))),
                    Some (opBin (BinI32 DivS)), Some opEnd]) [] (interpreterOf gs fn)
     = Some (Ret (Inr [ValueFromI32 0], interpreterOf gs fn))
   \<and> invoke (Suc (Suc (Suc (Suc n)))) fl
       (funcOf [t] [Some (opConst (ValueFromI32 (- 1))), Some (opConst (ValueFromI32 (- (2 ^ 31)))),
                    Some (opBin (BinI32 DivS)), Some opEnd]) [] (interpreterOf gs fn)
     = Some (Ret (Inl (New ''integer overflow''), interpreterOf gs fn))
   \<and> invoke (Suc (Suc (Suc (Suc n)))) fl
       (funcOf [t] [Some (opConst (ValueFromI32 (- (2 ^ 31)))), Some (opConst (ValueFromI32 (- 1))),
                    Some (opBin (BinI32 RemS)), Some opEnd]) [] (interpreterOf gs fn)
     = Some (Ret (Inr [ValueFromI32 (- 1)], interpreterOf gs fn))
   \<and> NewInterpreter fl (funcModule [0x7F]
         [0x41, 0x07, 0x41, 0x02, 0x6D, 0x41, 0x02, 0x6C, 0x41, 0x07, 0x41, 0x02, 0x6F, 0x6A, 0x0B])
     = Ret (interpreterOf [] (funcOf [0x7F]
         [Some (opConst (ValueFromI32 7)), Some (opConst (ValueFromI32 2)), Some (opBin (BinI32 DivS)),
          Some (opConst (ValueFromI32 2)), Some (opBin (BinI32 Mul)),
          Some (opConst (ValueFromI32 7)), Some (opConst (ValueFromI32 2)), Some (opBin (BinI32 RemS)),
          Some (opBin (BinI32 Add)), Some opEnd]), None)
   \<and> invoke (10 + n) fl (funcOf [0x7F]
         [Some (opConst (ValueFromI32 7)), Some (opConst (ValueFromI32 2)), Some (opBin (BinI32 DivS)),
          Some (opConst (ValueFromI32 2)), Some (opBin (BinI32 Mul)),
          Some (opConst (ValueFromI32 7)), Some (opConst (ValueFromI32 2)), Some (opBin (BinI32 RemS)),
          Some (opBin (BinI32 Add)), Some opEnd]) [] (interpreterOf gs fn)
     = Some (Ret (Inr [ValueFromI32 2], interpreterOf gs fn))"
proof (intro conjI invoke_const_bin div_by_zero_iff div_module GetFunc_interpreterOf
    const_div_values identity_module identity_run)
  show "errIntegerDivideByZero = New ''integer divide by zero''"
    by (simp add: errIntegerDivideByZero_def)
qed (simp_all add: const_bin_traps div_by_zero_iff)


section \<open>C8: shift counts\<close>

lemma unat_plus_width32: "unat (k + 32 :: 32 word) mod 32 = unat k mod 32"
proof -
  have "unat (k + 32) = (unat k + 32) mod 2 ^ 32"
    by (simp add: unat_word_ariths)
  moreover have "((unat k + 32) mod 2 ^ 32) mod 32 = (unat k + 32) mod 32"
    by (rule mod_mod_cancel) simp
  ultimately show ?thesis by simp
qed

lemma unat_plus_width64: "unat (k + 64 :: 64 word) mod 64 = unat k mod 64"
proof -
  have "unat (k + 64) = (unat k + 64) mod 2 ^ 64"
    by (simp add: unat_word_ariths)
  moreover have "((unat k + 64) mod 2 ^ 64) mod 64 = (unat k + 64) mod 64"
    by (rule mod_mod_cancel) simp
  ultimately show ?thesis by simp
qed

text \<open>The Go functions, with \<open>a\<close> their first and \<open>b\<close> their second argument.\<close>

lemma shl_values:
  "i32Shl a b = Inr (ValueFrom (AsInt32 (Value_I32 a * 2 ^ (unat (Value_I32 b) mod 32))) I32)"
  "i64Shl a b = Inr (ValueFrom (AsInt64 (Value_I64 a * 2 ^ (unat (Value_I64 b) mod 64))) I64)"
  "i32ShrU a b = Inr (ValueFrom (AsUint32 (Value_I32 a div 2 ^ (unat (Value_I32 b) mod 32))) I32)"
  "i64ShrU a b = Inr (ValueFrom (AsUint64 (Value_I64 a div 2 ^ (unat (Value_I64 b) mod 64))) I64)"
  by (simp_all add: i32Shl_def i64Shl_def i32ShrU_def i64ShrU_def push_bit_eq_mult drop_bit_eq_div)

lemma shr_s_values:
  "\<exists>v. i32ShrS a b = Inr v \<and> sint (Value_I32 v) = sint (Value_I32 a) div 2 ^ (unat (Value_I32 b) mod 32)"
  "\<exists>v. i64ShrS a b = Inr v \<and> sint (Value_I64 v) = sint (Value_I64 a) div 2 ^ (unat (Value_I64 b) mod 64)"
  by (simp_all add: i32ShrS_def i64ShrS_def sint_signed_drop_bit_eq drop_bit_eq_div)

lemma shift_periodic:
  "i32Shl a (ValueFromI32 (k + 32)) = i32Shl a (ValueFromI32 k)"
  "i32ShrS a (ValueFromI32 (k + 32)) = i32ShrS a (ValueFromI32 k)"
  "i32ShrU a (ValueFromI32 (k + 32)) = i32ShrU a (ValueFromI32 k)"
  "i64Shl a (ValueFromI64 (k' + 64)) = i64Shl a (ValueFromI64 k')"
  "i64ShrS a (ValueFromI64 (k' + 64)) = i64ShrS a (ValueFromI64 k')"
  "i64ShrU a (ValueFromI64 (k' + 64)) = i64ShrU a (ValueFromI64 k')"
  by (simp_all add: i32Shl_def i64Shl_def i32ShrU_def i64ShrU_def i32ShrS_def i64ShrS_def
      unat_plus_width32 unat_plus_width64)

lemma shl_examples:
  "i32Shl (ValueFromI32 1) (ValueFromI32 32) = Inr (ValueFromI32 1)"
  "i32Shl (ValueFromI32 1) (ValueFromI32 33) = Inr (ValueFromI32 2)"
  by (simp_all add: i32Shl_def ValueFromI32_def)

text \<open>The instructions, on operands pushed as constants: \<open>x\<close> first, \<open>y\<close> second.\<close>

lemma const_shift:
  "invoke (Suc (Suc (Suc (Suc n)))) fl
     (funcOf [t] [Some (opConst (ValueFromI32 x)), Some (opConst (ValueFromI32 y)),
                  Some (opBin (BinI32 Shl)), Some opEnd]) [] (interpreterOf gs fn)
   = Some (Ret (Inr [ValueFrom (AsInt32 (y * 2 ^ (unat x mod 32))) I32], interpreterOf gs fn))"
  "invoke (Suc (Suc (Suc (Suc n)))) fl
     (funcOf [t] [Some (opConst (ValueFromI32 x)), Some (opConst (ValueFromI32 y)),
                  Some (opBin (BinI32 ShrU)), Some opEnd]) [] (interpreterOf gs fn)
   = Some (Ret (Inr [ValueFrom (AsUint32 (y div 2 ^ (unat x mod 32))) I32], interpreterOf gs fn))"
  "invoke (Suc (Suc (Suc (Suc n)))) fl
     (funcOf [t] [Some (opConst (ValueFromI64 x')), Some (opConst (ValueFromI64 y')),
                  Some (opBin (BinI64 Shl)), Some opEnd]) [] (interpreterOf gs fn)
   = Some (Ret (Inr [ValueFrom (AsInt64 (y' * 2 ^ (unat x' mod 64))) I64], interpreterOf gs fn))"
  "invoke (Suc (Suc (Suc (Suc n)))) fl
     (funcOf [t] [Some (opConst (ValueFromI64 x')), Some (opConst (ValueFromI64 y')),
                  Some (opBin (BinI64 ShrU)), Some opEnd]) [] (interpreterOf gs fn)
   = Some (Ret (Inr [ValueFrom (AsUint64 (y' div 2 ^ (unat x' mod 64))) I64], interpreterOf gs fn))"
  by (simp_all add: invoke_const_bin shl_values)

lemma const_shift_s:
  "\<exists>v. invoke (Suc (Suc (Suc (Suc n)))) fl
          (funcOf [t] [Some (opConst (ValueFromI32 x)), Some (opConst (ValueFromI32 y)),
                       Some (opBin (BinI32 ShrS)), Some opEnd]) [] (interpreterOf gs fn)
        = Some (Ret (Inr [v], interpreterOf gs fn))
      \<and> sint (Value_I32 v) = sint y div 2 ^ (unat x mod 32)"
  "\<exists>v. invoke (Suc (Suc (Suc (Suc n)))) fl
          (funcOf [t] [Some (opConst (ValueFromI64 x')), Some (opConst (ValueFromI64 y')),
                       Some (opBin (BinI64 ShrS)), Some opEnd]) [] (interpreterOf gs fn)
        = Some (Ret (Inr [v], interpreterOf gs fn))
      \<and> sint (Value_I64 v) = sint y' div 2 ^ (unat x' mod 64)"
  using shr_s_values(1) [of "ValueFromI32 y" "ValueFromI32 x"]
    shr_s_values(2) [of "ValueFromI64 y'" "ValueFromI64 x'"]
  by (auto simp: invoke_const_bin)

lemma shl_modules:
  "NewInterpreter fl (funcModule [0x7F] [0x41, 0x01, 0x41, 0x20, 0x74, 0x0B])
   = Ret (interpreterOf [] (funcOf [0x7F]
       [Some (opConst (ValueFromI32 1)), Some (opConst (ValueFromI32 32)), Some (opBin (BinI32 Shl)),
        Some opEnd]), None)"
  "NewInterpreter fl (funcModule [0x7F] [0x41, 0x01, 0x41, 0x21, 0x74, 0x0B])
   = Ret (interpreterOf [] (funcOf [0x7F]
       [Some (opConst (ValueFromI32 1)), Some (opConst (ValueFromI32 33)), Some (opBin (BinI32 Shl)),
        Some opEnd]), None)"
  by (simp_all add: funcModule_def parse_defs inst_defs)

lemma shl_runs:
  "invoke (Suc (Suc (Suc (Suc n)))) fl
     (funcOf [t] [Some (opConst (ValueFromI32 1)), Some (opConst (ValueFromI32 32)),
                  Some (opBin (BinI32 Shl)), Some opEnd]) [] (interpreterOf gs fn)
   = Some (Ret (Inr [ValueFromI32 64], interpreterOf gs fn))"
  "invoke (Suc (Suc (Suc (Suc n)))) fl
     (funcOf [t] [Some (opConst (ValueFromI32 1)), Some (opConst (ValueFromI32 33)),
                  Some (opBin (BinI32 Shl)), Some opEnd]) [] (interpreterOf gs fn)
   = Some (Ret (Inr [ValueFromI32 66], interpreterOf gs fn))"
  by (simp_all add: invoke_const_bin i32Shl_def ValueFromI32_def)

text \<open>The function of the test suite, whose operands are parameters.\<close>

lemma invoke_shl:
  "invoke 4 fl (binopFunc (BinI32 Shl)) [ValueFromI32 1, ValueFromI32 32]
     (interpreterOf [] (binopFunc (BinI32 Shl)))
   = Some (Ret (Inr [ValueFromI32 1],
        (interpreterOf [] (binopFunc (BinI32 Shl)))
          \<lparr>machine := (machine (interpreterOf [] (binopFunc (BinI32 Shl))))
             \<lparr>valueStack := [ValueFromI32 32, ValueFromI32 1]\<rparr>\<rparr>))"
  by (simp add: invoke_def binopFunc_def interpreterOf_def Execute.simps step_def stack_Push_def
      stack_isEmpty_def stack_Len_def stack_Top_def index_def opLocalGet_exec_def stack_Get_def curFrame_def
       pushValue_def updFrame_def NextStep_def opBin_exec_def popValue_def stack_Pop_def
       opEnd_exec_def Let_def i32Shl_def ValueFromI32_def)

text \<open>
  Claim C8 says that the shift instructions take the count modulo the bit width and that
  \<open>1 i32.shl 32\<close> is 1 and \<open>1 i32.shl 33\<close> is 2. Evaluated on the code: the Go functions
  shift their first argument by their second taken modulo the width, and adding the
  width to the count changes no result; \<open>i32Shl(1, 32)\<close> is 1 and \<open>i32Shl(1, 33)\<close> is 2.
  \<open>opBin.exec\<close> pops the top of the stack into the first argument and the value below it
  into the second, so with the operands pushed in the order of the claim, \<open>x\<close> first and
  \<open>y\<close> second, each of the six shift instructions shifts \<open>y\<close> by \<open>x\<close> modulo the width.
  The module \<open>(func (export "f") (result i32) i32.const 1 i32.const 32 i32.shl)\<close> is
  accepted and \<open>f\<close> returns 64; with the count 33 it returns 66. The function of the test
  suite, \<open>local.get 0; local.get 1; i32.shl\<close>, called with the arguments 1 and 32 returns
  1: the call pushes the arguments last to first, so \<open>local.get 0\<close> reads the second
  argument, and the two exchanges cancel; the arguments are left on the operand stack.
\<close>

theorem shift_takes_the_first_operand_as_count:
  "i32Shl a b = Inr (ValueFrom (AsInt32 (Value_I32 a * 2 ^ (unat (Value_I32 b) mod 32))) I32)
   \<and> i64Shl a b = Inr (ValueFrom (AsInt64 (Value_I64 a * 2 ^ (unat (Value_I64 b) mod 64))) I64)
   \<and> i32ShrU a b = Inr (ValueFrom (AsUint32 (Value_I32 a div 2 ^ (unat (Value_I32 b) mod 32))) I32)
   \<and> i64ShrU a b = Inr (ValueFrom (AsUint64 (Value_I64 a div 2 ^ (unat (Value_I64 b) mod 64))) I64)
   \<and> (\<exists>v. i32ShrS a b = Inr v
          \<and> sint (Value_I32 v) = sint (Value_I32 a) div 2 ^ (unat (Value_I32 b) mod 32))
   \<and> (\<exists>v. i64ShrS a b = Inr v
          \<and> sint (Value_I64 v) = sint (Value_I64 a) div 2 ^ (unat (Value_I64 b) mod 64))
   \<and> i32Shl a (ValueFromI32 (k + 32)) = i32Shl a (ValueFromI32 k)
   \<and> i32ShrS a (ValueFromI32 (k + 32)) = i32ShrS a (ValueFromI32 k)
   \<and> i32ShrU a (ValueFromI32 (k + 32)) = i32ShrU a (ValueFromI32 k)
   \<and> i64Shl a (ValueFromI64 (k' + 64)) = i64Shl a (ValueFromI64 k')
   \<and> i64ShrS a (ValueFromI64 (k' + 64)) = i64ShrS a (ValueFromI64 k')
   \<and> i64ShrU a (ValueFromI64 (k' + 64)) = i64ShrU a (ValueFromI64 k')
   \<and> i32Shl (ValueFromI32 1) (ValueFromI32 32) = Inr (ValueFromI32 1)
   \<and> i32Shl (ValueFromI32 1) (ValueFromI32 33) = Inr (ValueFromI32 2)
   \<and> invoke (Suc (Suc (Suc (Suc n)))) fl
       (funcOf [t] [Some (opConst vx), Some (opConst vy), Some (opBin f), Some opEnd]) []
       (interpreterOf gs fn)
     = (case binFn_call fl f vy vx of
          Inl err \<Rightarrow> Some (Ret (Inl err, interpreterOf gs fn))
        | Inr v \<Rightarrow> Some (Ret (Inr [v], interpreterOf gs fn)))
   \<and> invoke (Suc (Suc (Suc (Suc n)))) fl
       (funcOf [t] [Some (opConst (ValueFromI32 x)), Some (opConst (ValueFromI32 y)),
                    Some (opBin (BinI32 Shl)), Some opEnd]) [] (interpreterOf gs fn)
     = Some (Ret (Inr [ValueFrom (AsInt32 (y * 2 ^ (unat x mod 32))) I32], interpreterOf gs fn))
   \<and> invoke (Suc (Suc (Suc (Suc n)))) fl
       (funcOf [t] [Some (opConst (ValueFromI32 x)), Some (opConst (ValueFromI32 y)),
                    Some (opBin (BinI32 ShrU)), Some opEnd]) [] (interpreterOf gs fn)
     = Some (Ret (Inr [ValueFrom (AsUint32 (y div 2 ^ (unat x mod 32))) I32], interpreterOf gs fn))
   \<and> (\<exists>v. invoke (Suc (Suc (Suc (Suc n)))) fl
          (funcOf [t] [Some (opConst (ValueFromI32 x)), Some (opConst (ValueFromI32 y)),
                       Some (opBin (BinI32 ShrS)), Some opEnd]) [] (interpreterOf gs fn)
        = Some (Ret (Inr [v], interpreterOf gs fn))
      \<and> sint (Value_I32 v) = sint y div 2 ^ (unat x mod 32))
   \<and> invoke (Suc (Suc (Suc (Suc n)))) fl
       (funcOf [t] [Some (opConst (ValueFromI64 x')), Some (opConst (ValueFromI64 y')),
                    Some (opBin (BinI64 Shl)), Some opEnd]) [] (interpreterOf gs fn)
     = Some (Ret (Inr [ValueFrom (AsInt64 (y' * 2 ^ (unat x' mod 64))) I64], interpreterOf gs fn))
   \<and> invoke (Suc (Suc (Suc (Suc n)))) fl
       (funcOf [t] [Some (opConst (ValueFromI64 x')), Some (opConst (ValueFromI64 y')),
                    Some (opBin (BinI64 ShrU)), Some opEnd]) [] (interpreterOf gs fn)
     = Some (Ret (Inr [ValueFrom (AsUint64 (y' div 2 ^ (unat x' mod 64))) I64], interpreterOf gs fn))
   \<and> (\<exists>v. invoke (Suc (Suc (Suc (Suc n)))) fl
          (funcOf [t] [Some (opConst (ValueFromI64 x')), Some (opConst (ValueFromI64 y')),
                       Some (opBin (BinI64 ShrS)), Some opEnd]) [] (interpreterOf gs fn)
        = Some (Ret (Inr [v], interpreterOf gs fn))
      \<and> sint (Value_I64 v) = sint y' div 2 ^ (unat x' mod 64))
   \<and> NewInterpreter fl (funcModule [0x7F] [0x41, 0x01, 0x41, 0x20, 0x74, 0x0B])
     = Ret (interpreterOf [] (funcOf [0x7F]
         [Some (opConst (ValueFromI32 1)), Some (opConst (ValueFromI32 32)),
          Some (opBin (BinI32 Shl)), Some opEnd]), None)
   \<and> GetFunc (interpreterOf [] (funcOf [0x7F]
         [Some (opConst (ValueFromI32 1)), Some (opConst (ValueFromI32 32)),
          Some (opBin (BinI32 Shl)), Some opEnd])) ''f''
     = Ret (Inr (funcOf [0x7F]
         [Some (opConst (ValueFromI32 1)), Some (opConst (ValueFromI32 32)),
          Some (opBin (BinI32 Shl)), Some opEnd]))
   \<and> invoke (Suc (Suc (Suc (Suc n)))) fl
       (funcOf [0x7F] [Some (opConst (ValueFromI32 1)), Some (opConst (ValueFromI32 32)),
                       Some (opBin (BinI32 Shl)), Some opEnd]) []
       (interpreterOf [] (funcOf [0x7F]
         [Some (opConst (ValueFromI32 1)), Some (opConst (ValueFromI32 32)),
          Some (opBin (BinI32 Shl)), Some opEnd]))
     = Some (Ret (Inr [ValueFromI32 64], interpreterOf [] (funcOf [0x7F]
         [Some (opConst (ValueFromI32 1)), Some (opConst (ValueFromI32 32)),
          Some (opBin (BinI32 Shl)), Some opEnd])))
   \<and> NewInterpreter fl (funcModule [0x7F] [0x41, 0x01, 0x41, 0x21, 0x74, 0x0B])
     = Ret (interpreterOf [] (funcOf [0x7F]
         [Some (opConst (ValueFromI32 1)), Some (opConst (ValueFromI32 33)),
          Some (opBin (BinI32 Shl)), Some opEnd]), None)
   \<and> invoke (Suc (Suc (Suc (Suc n)))) fl
       (funcOf [0x7F] [Some (opConst (ValueFromI32 1)), Some (opConst (ValueFromI32 33)),
                       Some (opBin (BinI32 Shl)), Some opEnd]) []
       (interpreterOf [] (funcOf [0x7F]
         [Some (opConst (ValueFromI32 1)), Some (opConst (ValueFromI32 33)),
          Some (opBin (BinI32 Shl)), Some opEnd]))
     = Some (Ret (Inr [ValueFromI32 66], interpreterOf [] (funcOf [0x7F]
         [Some (opConst (ValueFromI32 1)), Some (opConst (ValueFromI32 33)),
          Some (opBin (BinI32 Shl)), Some opEnd])))
   \<and> invoke 4 fl (binopFunc (BinI32 Shl)) [ValueFromI32 1, ValueFromI32 32]
       (interpreterOf [] (binopFunc (BinI32 Shl)))
     = Some (Ret (Inr [ValueFromI32 1],
          (interpreterOf [] (binopFunc (BinI32 Shl)))
            \<lparr>machine := (machine (interpreterOf [] (binopFunc (BinI32 Shl))))
               \<lparr>valueStack := [ValueFromI32 32, ValueFromI32 1]\<rparr>\<rparr>))"
  by (intro conjI shl_values shr_s_values shift_periodic shl_examples invoke_const_bin const_shift
      const_shift_s shl_modules GetFunc_interpreterOf shl_runs invoke_shl)

section \<open>C9: LEB128 decoding\<close>

text \<open>
  Claim C9: with \<open>g\<close> the bytes from the cursor up to the first byte whose high bit is
  clear, \<open>eatU64\<close> returns the low 7 bits of the bytes of \<open>g\<close> concatenated, first byte
  lowest, and moves the cursor behind \<open>g\<close>; \<open>eatI64\<close> returns the same with all bits from
  position \<open>7 * length g\<close> set when bit 6 of the last byte of \<open>g\<close> is set. Both fail, with
  \<open>io.EOF\<close>, exactly when every byte from the cursor to the end of the buffer has its high
  bit set. \<open>[0x80, 0x01]\<close> decodes to \<open>0x80\<close>, \<open>[0x7F]\<close> to -1 and \<open>[0x40]\<close> to \<open>-0x40\<close>.
\<close>

theorem leb128_decoding:
  "(case leb_group (drop (pos r) (bytes r)) of
      None \<Rightarrow> eatU64 r = (Inl EOF, r\<lparr>pos := max (pos r) (length (bytes r))\<rparr>)
           \<and> eatI64 r = (Inl EOF, r\<lparr>pos := max (pos r) (length (bytes r))\<rparr>)
    | Some g \<Rightarrow> eatU64 r = (Inr (concat7 g), r\<lparr>pos := pos r + length g\<rparr>)
           \<and> eatI64 r = (Inr (concat7 g OR sign_fill g), r\<lparr>pos := pos r + length g\<rparr>))
   \<and> ((\<exists>e. fst (eatU64 r) = Inl e) = (\<forall>b\<in>set (drop (pos r) (bytes r)). bit b 7))
   \<and> ((\<exists>e. fst (eatI64 r) = Inl e) = (\<forall>b\<in>set (drop (pos r) (bytes r)). bit b 7))
   \<and> fst (eatU64 \<lparr>bytes = [0x80, 0x01], pos = 0\<rparr>) = Inr 0x80
   \<and> fst (eatI64 \<lparr>bytes = [0x7F], pos = 0\<rparr>) = Inr (- 1)
   \<and> fst (eatI64 \<lparr>bytes = [0x40], pos = 0\<rparr>) = Inr (- 0x40)"
proof -
  have ex1: "fst (eatU64 \<lparr>bytes = [0x80, 0x01], pos = 0\<rparr>) = Inr 0x80"
    by (simp add: eatU64_def leb_loopU)
  have ex2: "fst (eatI64 \<lparr>bytes = [0x7F], pos = 0\<rparr>) = Inr (- 1)"
    by (simp add: eatI64_def leb_loopI mask_numeral)
  have ex3: "fst (eatI64 \<lparr>bytes = [0x40], pos = 0\<rparr>) = Inr (- 0x40)"
    by (simp add: eatI64_def leb_loopI mask_numeral)
  show ?thesis
    unfolding ex1 ex2 ex3
    by (simp add: eatU64_def eatI64_def leb_loopU leb_loopI sign_fill_def
        leb_group_None[symmetric] split: option.split)
qed

text \<open>The theorem at the encodings of 624485 and of -624485.\<close>

theorem leb128_decoding_witness:
  "\<not> (\<forall>b\<in>set (drop 0 [0xE5, 0x8E, 0x26 :: byte]). bit b 7)
   \<and> eatU64 \<lparr>bytes = [0xE5, 0x8E, 0x26], pos = 0\<rparr> = (Inr 624485, \<lparr>bytes = [0xE5, 0x8E, 0x26], pos = 3\<rparr>)
   \<and> eatI64 \<lparr>bytes = [0x9B, 0xF1, 0x59], pos = 0\<rparr> = (Inr (- 624485), \<lparr>bytes = [0x9B, 0xF1, 0x59], pos = 3\<rparr>)"
  using leb128_decoding [of "\<lparr>bytes = [0xE5, 0x8E, 0x26], pos = 0\<rparr>"]
    leb128_decoding [of "\<lparr>bytes = [0x9B, 0xF1, 0x59], pos = 0\<rparr>"]
  by (simp add: sign_fill_def mask_numeral)


section \<open>C10: opcodes decoded to a nil instruction\<close>

lemma stub_tables_all:
  "list_all (\<lambda>op. map_of loadOps op = None \<and> map_of storeOps op = None \<and> map_of plainOps op = Some None
      \<and> op \<notin> set [0x02, 0x03, 0x04, 0x0B, 0x20, 0x21, 0x41, 0x42, 0xFC]) stubOpcodes"
  by code_simp

lemma stub_tables:
  assumes "op \<in> set stubOpcodes"
  shows "map_of loadOps op = None" "map_of storeOps op = None" "map_of plainOps op = Some None"
    "op \<noteq> 0x02" "op \<noteq> 0x03" "op \<noteq> 0x04" "op \<noteq> 0x0B" "op \<noteq> 0x20" "op \<noteq> 0x21"
    "op \<noteq> 0x41" "op \<noteq> 0x42" "op \<noteq> 0xFC"
  using assms stub_tables_all unfolding list_all_iff by auto

lemma conv_is_stub: "op \<in> set convOpcodes \<Longrightarrow> op \<in> set stubOpcodes"
  by (auto simp: convOpcodes_def stubOpcodes_def)

lemma eatU8_at: "eatU8 \<lparr>bytes = pre @ b # post, pos = length pre\<rparr> = (Inr b, \<lparr>bytes = pre @ b # post, pos = length pre + 1\<rparr>)"
  by (simp add: eatU8_def)

lemma stub_instr:
  assumes "op \<in> set stubOpcodes"
  shows "parser_instr \<lparr>bytes = pre @ op # post, pos = length pre\<rparr>
         = (Inr (None, False), \<lparr>bytes = pre @ op # post, pos = length pre + 1\<rparr>)"
  unfolding parser_instr_def eatU8_at using stub_tables [OF assms] by simp

text \<open>After a stub opcode \<open>parser.expr\<close> goes on at the next byte, with a nil appended.\<close>

lemma stub_continue:
  assumes "op \<in> set stubOpcodes"
  shows "expr_loop \<lparr>bytes = pre @ op # post, pos = length pre\<rparr> ex
         = expr_loop \<lparr>bytes = pre @ op # post, pos = length pre + 1\<rparr> (ex @ [None])"
  by (subst expr_loop.simps) (simp add: stub_instr [OF assms])

lemma end_instr:
  "parser_instr \<lparr>bytes = pre @ 0x0B # post, pos = length pre\<rparr>
         = (Inr (Some opEnd, True), \<lparr>bytes = pre @ 0x0B # post, pos = length pre + 1\<rparr>)"
  unfolding parser_instr_def eatU8_at by simp

lemma stub_expr:
  assumes "op \<in> set stubOpcodes"
  shows "parser_expr \<lparr>bytes = pre @ op # 0x0B # post, pos = length pre\<rparr>
         = (Inr [None, Some opEnd], \<lparr>bytes = pre @ op # 0x0B # post, pos = length pre + 2\<rparr>)"
proof -
  have 2: "parser_instr \<lparr>bytes = pre @ op # 0x0B # post, pos = Suc (length pre)\<rparr>
      = (Inr (Some opEnd, True), \<lparr>bytes = pre @ op # 0x0B # post, pos = length pre + 2\<rparr>)"
    using end_instr [of "pre @ [op]" post] by simp
  show ?thesis
    unfolding parser_expr_def
    by (simp add: stub_continue [OF assms]) (subst expr_loop.simps, simp add: 2)
qed

text \<open>\<open>(func (export "f") <op>)\<close> for a stub opcode: the body is the opcode and \<open>end\<close>.\<close>

lemma stub_body:
  assumes "op \<in> set stubOpcodes"
  shows "parser_expr \<lparr>bytes = funcModule [] [op, 0x0B], pos = 30\<rparr>
         = (Inr [None, Some opEnd], \<lparr>bytes = funcModule [] [op, 0x0B], pos = 32\<rparr>)"
proof -
  define pre where "pre = take 30 (funcModule [] [op, 0x0B])"
  have l: "length pre = 30"
    by (simp add: pre_def funcModule_def)
  have b: "funcModule [] [op, 0x0B] = pre @ op # 0x0B # []"
    by (simp add: pre_def funcModule_def)
  show ?thesis
    using stub_expr [OF assms, of pre "[]"] unfolding b l by simp
qed

lemma stub_parse:
  assumes "op \<in> set stubOpcodes"
  shows "parse \<lparr>bytes = funcModule [] [op, 0x0B], pos = 0\<rparr>
         = (Inr (zeroModule\<lparr>module_types := [\<lparr>params = [], results = []\<rparr>],
                   module_funcs := [\<lparr>typeIdx = 0, function_locals = [], body = [None, Some opEnd]\<rparr>],
                   module_exports := [\<lparr>export_name = ''f'', export_kind = 0, export_idx = 0\<rparr>]\<rparr>),
            \<lparr>bytes = funcModule [] [op, 0x0B], pos = 32\<rparr>)"
proof -
  have "parser_expr \<lparr>bytes = funcModule [] [op, 0x0B], pos = 30\<rparr>
      = (Inr [None, Some opEnd], \<lparr>bytes = funcModule [] [op, 0x0B], pos = 32\<rparr>)"
    by (rule stub_body [OF assms])
  then show ?thesis
    by (simp add: funcModule_def parse_def header_def bindP_def retP_def failP_def eatBytes_def
        le_word.simps WASM_MAGIC_def sections.simps sectionHeader_def eatU8_def eatU32_def eatU64_def
        eatU64_loop.simps section'_def typeSection_def funcTypeP_def funcSection_def exportSection_def
        name_def eatString_def codeSection_def zeroModule_def Let_def char_of_102)
qed

lemma stub_module:
  assumes "op \<in> set stubOpcodes"
  shows "NewInterpreter fl (funcModule [] [op, 0x0B])
         = Ret (interpreterOf [] (funcOf [] [None, Some opEnd]), None)"
  by (simp add: NewInterpreter_def stub_parse [OF assms])
     (simp add: newStoreAndModuleInst_def zeroModule_def zeroStore_def zeroModuleInst_def index_def
        instExports_def interpreterOf_def funcOf_def exportImportKindFunc_def)

text \<open>\<open>(func (export "f") (result i32) i64.const 0 i32.wrap_i64)\<close>.\<close>

lemma wrap_module:
  "NewInterpreter fl (funcModule [0x7F] [0x42, 0x00, 0xA7, 0x0B])
   = Ret (interpreterOf [] (funcOf [0x7F] [Some (opConst (ValueFromI64 0)), None, Some opEnd]), None)"
  by (simp add: funcModule_def parse_defs inst_defs)

text \<open>
  \<open>(func (export "f") (result f32) f32.const 126.0)\<close>: the four bytes of the constant are
  \<open>00 00 FC 42\<close>. They are decoded as \<open>unreachable\<close>, \<open>unreachable\<close> and the prefix \<open>0xFC\<close>
  with the kind \<open>0x42\<close>.
\<close>

lemma f32_const_module:
  "NewInterpreter fl (funcModule [0x7D] [0x43, 0x00, 0x00, 0xFC, 0x42, 0x0B])
   = Ret (zeroInterpreter, Some (Errorf ''unknown memory copy or fill kind: %d'' [ArgInt 66]))"
  by (simp add: funcModule_def parse_defs NewInterpreter_def)

text \<open>
  Claim C10 says that for every opcode whose case in \<open>parser.instr\<close> is empty, decoding
  succeeds and places a nil instruction in the body, so that \<open>NewInterpreter\<close> accepts
  such a module without an error, and that invoking a function whose body reaches the
  instruction panics instead of returning an error. On the code the acceptance fails: the
  well-formed module \<open>(func (export "f") (result f32) f32.const 126.0)\<close> is rejected with
  the error \<open>unknown memory copy or fill kind: 66\<close>.
\<close>

theorem f32_const_module_is_rejected:
  "(0x43 :: byte) \<in> set stubOpcodes
   \<and> NewInterpreter noFloats (funcModule [0x7D] [0x43, 0x00, 0x00, 0xFC, 0x42, 0x0B])
     = Ret (zeroInterpreter, Some (Errorf ''unknown memory copy or fill kind: %d'' [ArgInt 66]))"
  by (simp add: f32_const_module) (simp add: stubOpcodes_def)

text \<open>
  Claim C10 as amended: for every opcode whose case in \<open>parser.instr\<close> is empty,
  decoding the opcode succeeds, consumes the opcode byte only and yields a nil
  instruction, and \<open>parser.expr\<close> goes on at the next byte with the nil appended to the
  body: the bytes of an immediate are decoded as instructions of their own, and
  \<open>NewInterpreter\<close> accepts the module only if they decode. It accepts
  \<open>(func (export "f") <op>)\<close> for \<open>i32.wrap_i64\<close> and every conversion, which have no
  immediate, \<open>(func (export "f") (result i32) i64.const 0 i32.wrap_i64)\<close> and
  \<open>(func (export "f") br 0)\<close>, each with a nil instruction in the body of \<open>f\<close>, and calling
  \<open>f\<close> panics on it; it rejects the module with \<open>f32.const 126.0\<close>. Whenever the
  instruction under the program counter of the running frame is nil, \<open>Execute\<close> panics
  instead of returning an error.
\<close>

theorem stub_opcodes_decode_to_nil:
  "(\<forall>op \<in> set stubOpcodes.
      parser_instr \<lparr>bytes = pre @ op # post, pos = length pre\<rparr>
        = (Inr (None, False), \<lparr>bytes = pre @ op # post, pos = length pre + 1\<rparr>)
      \<and> expr_loop \<lparr>bytes = pre @ op # post, pos = length pre\<rparr> ex
        = expr_loop \<lparr>bytes = pre @ op # post, pos = length pre + 1\<rparr> (ex @ [None]))
   \<and> (\<forall>op \<in> set convOpcodes.
        op \<in> set stubOpcodes
      \<and> NewInterpreter fl (funcModule [] [op, 0x0B])
        = Ret (interpreterOf [] (funcOf [] [None, Some opEnd]), None))
   \<and> GetFunc (interpreterOf [] (funcOf [] [None, Some opEnd])) ''f''
     = Ret (Inr (funcOf [] [None, Some opEnd]))
   \<and> invoke (Suc n) fl (funcOf [] [None, Some opEnd]) []
       (interpreterOf [] (funcOf [] [None, Some opEnd]))
     = Some (Panic ''nil pointer dereference'')
   \<and> NewInterpreter fl (funcModule [0x7F] [0x42, 0x00, 0xA7, 0x0B])
     = Ret (interpreterOf [] (funcOf [0x7F] [Some (opConst (ValueFromI64 0)), None, Some opEnd]), None)
   \<and> GetFunc (interpreterOf [] (funcOf [0x7F] [Some (opConst (ValueFromI64 0)), None, Some opEnd])) ''f''
     = Ret (Inr (funcOf [0x7F] [Some (opConst (ValueFromI64 0)), None, Some opEnd]))
   \<and> invoke (Suc (Suc n)) fl (funcOf [0x7F] [Some (opConst (ValueFromI64 0)), None, Some opEnd]) []
       (interpreterOf [] (funcOf [0x7F] [Some (opConst (ValueFromI64 0)), None, Some opEnd]))
     = Some (Panic ''nil pointer dereference'')
   \<and> NewInterpreter fl (funcModule [] [0x0C, 0x00, 0x0B])
     = Ret (interpreterOf [] (funcOf [] [None, Some opUnreachable, Some opEnd]), None)
   \<and> GetFunc (interpreterOf [] (funcOf [] [None, Some opUnreachable, Some opEnd])) ''f''
     = Ret (Inr (funcOf [] [None, Some opUnreachable, Some opEnd]))
   \<and> invoke (Suc n) fl (funcOf [] [None, Some opUnreachable, Some opEnd]) []
       (interpreterOf [] (funcOf [] [None, Some opUnreachable, Some opEnd]))
     = Some (Panic ''nil pointer dereference'')
   \<and> NewInterpreter fl (funcModule [0x7D] [0x43, 0x00, 0x00, 0xFC, 0x42, 0x0B])
     = Ret (zeroInterpreter, Some (Errorf ''unknown memory copy or fill kind: %d'' [ArgInt 66]))
   \<and> (\<not> stack_isEmpty (frameStack m) \<and> index (insts (curFrame m)) (pc (curFrame m)) = Ret None
        \<longrightarrow> Execute (Suc n) fl m = Some (Panic ''nil pointer dereference''))"
proof (intro conjI ballI impI GetFunc_interpreterOf invoke_nil_first invoke_nil_second wrap_module
    br_module f32_const_module)
  fix op :: byte
  assume op: "op \<in> set stubOpcodes"
  show "parser_instr \<lparr>bytes = pre @ op # post, pos = length pre\<rparr>
        = (Inr (None, False), \<lparr>bytes = pre @ op # post, pos = length pre + 1\<rparr>)"
    by (rule stub_instr [OF op])
  show "expr_loop \<lparr>bytes = pre @ op # post, pos = length pre\<rparr> ex
        = expr_loop \<lparr>bytes = pre @ op # post, pos = length pre + 1\<rparr> (ex @ [None])"
    by (rule stub_continue [OF op])
next
  fix op :: byte
  assume op: "op \<in> set convOpcodes"
  show "op \<in> set stubOpcodes"
    by (rule conv_is_stub [OF op])
  show "NewInterpreter fl (funcModule [] [op, 0x0B])
        = Ret (interpreterOf [] (funcOf [] [None, Some opEnd]), None)"
    by (rule stub_module [OF conv_is_stub [OF op]])
next
  assume "\<not> stack_isEmpty (frameStack m) \<and> index (insts (curFrame m)) (pc (curFrame m)) = Ret None"
  then show "Execute (Suc n) fl m = Some (Panic ''nil pointer dereference'')"
    by (simp add: Execute_nil)
qed

text \<open>
  The theorem at \<open>i32.wrap_i64\<close>, opcode \<open>0xA7\<close>, and at a frame over the body nil, \<open>end\<close>.
\<close>

theorem stub_opcodes_decode_to_nil_witness:
  "(0xA7 :: byte) \<in> set stubOpcodes \<and> (0xA7 :: byte) \<in> set convOpcodes
   \<and> \<not> stack_isEmpty (frameStack (ctlMachine [None, Some opEnd] [] []))
   \<and> index (insts (curFrame (ctlMachine [None, Some opEnd] [] [])))
        (pc (curFrame (ctlMachine [None, Some opEnd] [] []))) = Ret None
   \<and> parser_instr \<lparr>bytes = [0xA7, 0x0B], pos = 0\<rparr> = (Inr (None, False), \<lparr>bytes = [0xA7, 0x0B], pos = 1\<rparr>)
   \<and> (\<forall>fl. NewInterpreter fl (funcModule [] [0xA7, 0x0B])
           = Ret (interpreterOf [] (funcOf [] [None, Some opEnd]), None)
         \<and> Execute 1 fl (ctlMachine [None, Some opEnd] [] []) = Some (Panic ''nil pointer dereference''))"
proof -
  have s: "(0xA7 :: byte) \<in> set stubOpcodes"
    by (simp add: stubOpcodes_def)
  have c: "(0xA7 :: byte) \<in> set convOpcodes"
    by (simp add: convOpcodes_def)
  have m: "\<not> stack_isEmpty (frameStack (ctlMachine [None, Some opEnd] [] []))
      \<and> index (insts (curFrame (ctlMachine [None, Some opEnd] [] [])))
           (pc (curFrame (ctlMachine [None, Some opEnd] [] []))) = Ret None"
    by (simp add: ctlMachine_def stack_defs curFrame_def index_def)
  have "parser_instr \<lparr>bytes = [0xA7, 0x0B], pos = 0\<rparr> = (Inr (None, False), \<lparr>bytes = [0xA7, 0x0B], pos = 1\<rparr>)
     \<and> NewInterpreter fl (funcModule [] [0xA7, 0x0B])
       = Ret (interpreterOf [] (funcOf [] [None, Some opEnd]), None)
     \<and> Execute 1 fl (ctlMachine [None, Some opEnd] [] []) = Some (Panic ''nil pointer dereference'')" for fl
    using stub_opcodes_decode_to_nil [where pre = "[]" and post = "[0x0B]" and n = 0 and fl = fl
        and m = "ctlMachine [None, Some opEnd] [] []"] s c m
    by simp
  with s c m show ?thesis by simp
qed

end
